theory Spec2Isabelle
  imports Main "HOL-Library.AList" "HOL-Library.Sublist"
begin

section \<open>Strings, errors and formatting\<close>

text \<open>
  Go strings are byte strings; \<open>strings.ToLower\<close> is modelled on ASCII: the letters
  A..Z are mapped to a..z and every other byte is kept, which is what Go does on ASCII
  input. (On other input Go also folds the letters beyond ASCII.)
\<close>

definition lowerChar :: "char \<Rightarrow> char" where
  "lowerChar c =
     (case map_of (zip ''ABCDEFGHIJKLMNOPQRSTUVWXYZ'' ''abcdefghijklmnopqrstuvwxyz'') c of
        None \<Rightarrow> c
      | Some l \<Rightarrow> l)"

definition ToLower :: "string \<Rightarrow> string" where
  "ToLower s = map lowerChar s"

text \<open>\<open>strings.Contains(s, substr)\<close>: some suffix of \<open>s\<close> starts with \<open>substr\<close>.\<close>

fun Contains :: "string \<Rightarrow> string \<Rightarrow> bool" where
  "Contains [] substr = (substr = [])"
| "Contains (c # s) substr = (prefix substr (c # s) \<or> Contains s substr)"

text \<open>
  \<open>fmt.Sprintf\<close> for the only verb the program uses, \<open>%s\<close> with a string argument:
  each \<open>%s\<close> is replaced by the next argument. Every call in the program gives one
  argument per verb.
\<close>

fun Sprintf :: "string \<Rightarrow> string list \<Rightarrow> string" where
  "Sprintf [] args = []"
| "Sprintf [c] args = [c]"
| "Sprintf (c # d # fs) args =
     (if c = CHR ''%'' \<and> d = CHR ''s''
      then (case args of [] \<Rightarrow> c # d # Sprintf fs [] | a # as \<Rightarrow> a @ Sprintf fs as)
      else c # Sprintf (d # fs) args)"

text \<open>
  A Go \<open>error\<close> is modelled by its message. \<open>fmt.Errorf\<close> formats the message;
  \<open>errors.Wrap(err, msg)\<close> prefixes the cause's message with \<open>msg\<close> and a colon.
\<close>

datatype error = Error string

definition Errorf :: "string \<Rightarrow> string list \<Rightarrow> error" where
  "Errorf f args = Error (Sprintf f args)"

fun Wrap :: "error \<Rightarrow> string \<Rightarrow> error" where
  "Wrap (Error cause) msg = Error (msg @ '': '' @ cause)"

section \<open>Data of the platform client and of the configuration\<close>

text \<open>
  \<open>cfclient.User\<close>, \<open>cfclient.Space\<close>, \<open>cfclient.Org\<close> and \<open>uaaclient.User\<close>, with the
  fields the program reads or writes.
\<close>

record User =
  User_Username :: string
  User_Guid :: string

record Space =
  Space_Name :: string
  Space_Guid :: string
  Space_OrganizationGuid :: string
  Space_AllowSSH :: bool

record Org =
  Org_Name :: string
  Org_Guid :: string

record UaaUser =
  Uaa_Username :: string
  Uaa_Emails :: "string list"
  Uaa_ExternalID :: string
  Uaa_Origin :: string

text \<open>
  A Go \<open>map[string]T\<close> is an association list with one entry per key, read with
  \<open>map_of\<close>, written with \<open>AList.update\<close> and \<open>AList.delete\<close>. A nil map, which the
  program only reads, ranges over and deletes from, is the empty list. Go ranges over a
  map in an unspecified order; the model ranges in list order.
\<close>

type_synonym RoleUsers = "(string \<times> string) list"
type_synonym UaaUsers = "(string \<times> UaaUser) list"

text \<open>
  The configuration records (\<open>config.OrgConfig\<close>, \<open>config.SpaceConfig\<close> and the role
  entries in them) are declared in package config; they are given here with the fields
  the program reads. \<open>um_Groups\<close> is what the getters \<open>GetDeveloperGroups()\<close>,
  \<open>GetManagerGroups()\<close>, ... return for the role.
\<close>

record UserMgmt =
  um_LDAPUsers :: "string list"
  um_Users :: "string list"
  um_SamlUsers :: "string list"
  um_Groups :: "string list"

record SpaceConfig =
  sc_Org :: string
  sc_Space :: string
  sc_Developer :: UserMgmt
  sc_Manager :: UserMgmt
  sc_Auditor :: UserMgmt
  sc_RemoveUsers :: bool

record OrgConfig =
  oc_Org :: string
  oc_BillingManager :: UserMgmt
  oc_Manager :: UserMgmt
  oc_Auditor :: UserMgmt
  oc_RemoveUsers :: bool

text \<open>
  \<open>UpdateUsersInput\<close> binds one role of one target to its desired membership and to
  three callables, with the fields of the struct literals in \<open>updateSpaceUsers\<close> and
  \<open>updateOrgUsers\<close>. The callables are methods of the manager that take the input
  itself, so each field holds the name of the bound method, and \<open>callListUsers\<close>,
  \<open>callAddUser\<close> and \<open>callRemoveUser\<close> below apply it. The field \<open>RemoveUsers\<close> is
  \<open>RemoveUsers_flag\<close> here, \<open>RemoveUsers\<close> being the method.
\<close>

datatype ListOp =
    Bound_listSpaceDevelopers | Bound_listSpaceManagers | Bound_listSpaceAuditors
  | Bound_listOrgBillingManagers | Bound_listOrgAuditors | Bound_listOrgManagers

datatype RemoveOp =
    Bound_RemoveSpaceDeveloper | Bound_RemoveSpaceManager | Bound_RemoveSpaceAuditor
  | Bound_RemoveOrgBillingManager | Bound_RemoveOrgAuditor | Bound_RemoveOrgManager

datatype AddOp =
    Bound_AssociateSpaceDeveloper | Bound_AssociateSpaceManager | Bound_AssociateSpaceAuditor
  | Bound_AssociateOrgBillingManager | Bound_AssociateOrgAuditor | Bound_AssociateOrgManager

record UpdateUsersInput =
  SpaceGUID :: string
  OrgGUID :: string
  SpaceName :: string
  OrgName :: string
  LdapGroupNames :: "string list"
  LdapUsers :: "string list"
  Users :: "string list"
  SamlUsers :: "string list"
  RemoveUsers_flag :: bool
  ListUsers :: ListOp
  RemoveUser :: RemoveOp
  AddUser :: AddOp

section \<open>External collaborators and the record of their calls\<close>

text \<open>
  The platform client, the UAA manager, the org manager, the configuration reader and
  the directory-group resolver are outside the program. Every call to one of them is
  recorded as an event, with a flag telling whether it succeeded; so is every line
  the program logs at info or error level (debug lines are left out). The client has
  one list, one associate and one remove method per role; they are given by role:
  \<open>ListRoleUsers\<close> at \<open>SpaceAuditor\<close> is the client's \<open>ListSpaceAuditors\<close>,
  \<open>AssociateRoleByUsername\<close> at \<open>SpaceAuditor\<close> its \<open>AssociateSpaceAuditorByUsername\<close>,
  \<open>RemoveRoleByUsername\<close> at \<open>SpaceAuditor\<close> its \<open>RemoveSpaceAuditorByUsername\<close>, and so
  on for the other five roles.
\<close>

datatype role =
    SpaceAuditor | SpaceDeveloper | SpaceManager | OrgAuditor | OrgBillingManager | OrgManager

datatype event =
    CF_ListRoleUsers role string bool
  | CF_AssociateRole role string string bool
  | CF_RemoveRole role string string bool
  | CF_AssociateOrgUser string string bool
  | CF_ListOrgUsers string bool
  | CF_RemoveOrgUser string string bool
  | CF_ListSpacesByQuery string bool
  | UAA_ListUsers bool
  | UAA_CreateExternalUser string string string string bool
  | Org_FindOrg string bool
  | Org_GetOrgGUID string bool
  | Cfg_GetOrgConfigs bool
  | Cfg_GetSpaceConfigs bool
  | Ldap_ResolveMembers "string list" bool
  | LogInfof string "string list"
  | LogError "string list"

text \<open>
  A collaborator answers a call from the calls made so far and the call's arguments:
  any deterministic backend, stateful or not, is such a function.
\<close>

record CFClient =
  ListRoleUsers :: "event list \<Rightarrow> role \<Rightarrow> string \<Rightarrow> error + User list"
  AssociateRoleByUsername :: "event list \<Rightarrow> role \<Rightarrow> string \<Rightarrow> string \<Rightarrow> error option"
  RemoveRoleByUsername :: "event list \<Rightarrow> role \<Rightarrow> string \<Rightarrow> string \<Rightarrow> error option"
  AssociateOrgUserByUsername :: "event list \<Rightarrow> string \<Rightarrow> string \<Rightarrow> error option"
  ListOrgUsers :: "event list \<Rightarrow> string \<Rightarrow> error + User list"
  RemoveOrgUserByUsername :: "event list \<Rightarrow> string \<Rightarrow> string \<Rightarrow> error option"
  ListSpacesByQuery :: "event list \<Rightarrow> string \<Rightarrow> error + Space list"

record UAAManager =
  UAA_ListUsers_resp :: "event list \<Rightarrow> error + UaaUsers"
  CreateExternalUser :: "event list \<Rightarrow> string \<Rightarrow> string \<Rightarrow> string \<Rightarrow> string \<Rightarrow> error option"

record OrgManager =
  FindOrg :: "event list \<Rightarrow> string \<Rightarrow> error + Org"
  GetOrgGUID :: "event list \<Rightarrow> string \<Rightarrow> error + string"

record ConfigReader =
  GetOrgConfigs :: "event list \<Rightarrow> error + OrgConfig list"
  GetSpaceConfigs :: "event list \<Rightarrow> error + SpaceConfig list"

text \<open>
  Modelled from the spec: the Group Resolver (section 6), which resolves group names to
  member identity records (section 3) or fails; its code is not among the sources.
\<close>

record IdentityRecord =
  ir_username :: string
  ir_identifier :: string
  ir_email :: string
  ir_origin :: string

record GroupResolver =
  resolveMembers :: "event list \<Rightarrow> string list \<Rightarrow> error + IdentityRecord list"

record LdapConfig =
  Origin :: string

text \<open>
  An action reads the events so far and returns its result with the events it adds.
\<close>

type_synonym 'a action = "event list \<Rightarrow> 'a \<times> event list"

definition ret :: "'a \<Rightarrow> 'a action" where
  "ret a h = (a, [])"

definition emit :: "event \<Rightarrow> unit action" where
  "emit e h = ((), [e])"

definition andThen :: "'a action \<Rightarrow> ('a \<Rightarrow> 'b action) \<Rightarrow> 'b action" where
  "andThen f g h = (case f h of (a, e1) \<Rightarrow> (case g a (h @ e1) of (b, e2) \<Rightarrow> (b, e1 @ e2)))"

fun succeeded :: "error + 'a \<Rightarrow> bool" where
  "succeeded (Inl err) = False"
| "succeeded (Inr a) = True"

definition Client_ListRoleUsers :: "CFClient \<Rightarrow> role \<Rightarrow> string \<Rightarrow> (error + User list) action" where
  "Client_ListRoleUsers c r guid h =
     (let res = ListRoleUsers c h r guid in (res, [CF_ListRoleUsers r guid (succeeded res)]))"

definition Client_AssociateRoleByUsername :: "CFClient \<Rightarrow> role \<Rightarrow> string \<Rightarrow> string \<Rightarrow> error option action" where
  "Client_AssociateRoleByUsername c r guid userName h =
     (let res = AssociateRoleByUsername c h r guid userName
      in (res, [CF_AssociateRole r guid userName (res = None)]))"

definition Client_RemoveRoleByUsername :: "CFClient \<Rightarrow> role \<Rightarrow> string \<Rightarrow> string \<Rightarrow> error option action" where
  "Client_RemoveRoleByUsername c r guid userName h =
     (let res = RemoveRoleByUsername c h r guid userName
      in (res, [CF_RemoveRole r guid userName (res = None)]))"

definition Client_AssociateOrgUserByUsername :: "CFClient \<Rightarrow> string \<Rightarrow> string \<Rightarrow> error option action" where
  "Client_AssociateOrgUserByUsername c orgGUID userName h =
     (let res = AssociateOrgUserByUsername c h orgGUID userName
      in (res, [CF_AssociateOrgUser orgGUID userName (res = None)]))"

definition Client_ListOrgUsers :: "CFClient \<Rightarrow> string \<Rightarrow> (error + User list) action" where
  "Client_ListOrgUsers c orgGUID h =
     (let res = ListOrgUsers c h orgGUID in (res, [CF_ListOrgUsers orgGUID (succeeded res)]))"

definition Client_RemoveOrgUserByUsername :: "CFClient \<Rightarrow> string \<Rightarrow> string \<Rightarrow> error option action" where
  "Client_RemoveOrgUserByUsername c orgGUID userName h =
     (let res = RemoveOrgUserByUsername c h orgGUID userName
      in (res, [CF_RemoveOrgUser orgGUID userName (res = None)]))"

definition Client_ListSpacesByQuery :: "CFClient \<Rightarrow> string \<Rightarrow> (error + Space list) action" where
  "Client_ListSpacesByQuery c orgGUID h =
     (let res = ListSpacesByQuery c h orgGUID in (res, [CF_ListSpacesByQuery orgGUID (succeeded res)]))"

definition UAAMgr_ListUsers :: "UAAManager \<Rightarrow> (error + UaaUsers) action" where
  "UAAMgr_ListUsers u h = (let res = UAA_ListUsers_resp u h in (res, [UAA_ListUsers (succeeded res)]))"

definition UAAMgr_CreateExternalUser ::
  "UAAManager \<Rightarrow> string \<Rightarrow> string \<Rightarrow> string \<Rightarrow> string \<Rightarrow> error option action" where
  "UAAMgr_CreateExternalUser u userName userEmail externalID origin h =
     (let res = CreateExternalUser u h userName userEmail externalID origin
      in (res, [UAA_CreateExternalUser userName userEmail externalID origin (res = None)]))"

definition OrgMgr_FindOrg :: "OrgManager \<Rightarrow> string \<Rightarrow> (error + Org) action" where
  "OrgMgr_FindOrg om orgName h = (let res = FindOrg om h orgName in (res, [Org_FindOrg orgName (succeeded res)]))"

definition OrgMgr_GetOrgGUID :: "OrgManager \<Rightarrow> string \<Rightarrow> (error + string) action" where
  "OrgMgr_GetOrgGUID om orgName h =
     (let res = GetOrgGUID om h orgName in (res, [Org_GetOrgGUID orgName (succeeded res)]))"

definition Cfg_GetOrgConfigs_call :: "ConfigReader \<Rightarrow> (error + OrgConfig list) action" where
  "Cfg_GetOrgConfigs_call cfg h = (let res = GetOrgConfigs cfg h in (res, [Cfg_GetOrgConfigs (succeeded res)]))"

definition Cfg_GetSpaceConfigs_call :: "ConfigReader \<Rightarrow> (error + SpaceConfig list) action" where
  "Cfg_GetSpaceConfigs_call cfg h =
     (let res = GetSpaceConfigs cfg h in (res, [Cfg_GetSpaceConfigs (succeeded res)]))"

definition Ldap_resolveMembers_call :: "GroupResolver \<Rightarrow> string list \<Rightarrow> (error + IdentityRecord list) action" where
  "Ldap_resolveMembers_call r groupNames h =
     (let res = resolveMembers r h groupNames in (res, [Ldap_ResolveMembers groupNames (succeeded res)]))"

section \<open>The space manager (package space)\<close>

record SpaceDefaultManager =
  space_Client :: CFClient
  space_OrgMgr :: OrgManager
  space_Peek :: bool

definition ListSpaces :: "SpaceDefaultManager \<Rightarrow> string \<Rightarrow> (error + Space list) action" where
  "ListSpaces m orgGUID = Client_ListSpacesByQuery (space_Client m) orgGUID"

definition FindSpace :: "SpaceDefaultManager \<Rightarrow> string \<Rightarrow> string \<Rightarrow> (error + Space) action" where
  "FindSpace m orgName spaceName =
     andThen (OrgMgr_GetOrgGUID (space_OrgMgr m) orgName) (\<lambda>r1.
       case r1 of
         Inl err \<Rightarrow> ret (Inl err)
       | Inr orgGUID \<Rightarrow>
           andThen (ListSpaces m orgGUID) (\<lambda>r2.
             case r2 of
               Inl err \<Rightarrow> ret (Inl err)
             | Inr spaces \<Rightarrow>
                 (case find (\<lambda>theSpace. Space_Name theSpace = spaceName) spaces of
                    Some theSpace \<Rightarrow> ret (Inr theSpace)
                  | None \<Rightarrow>
                      if space_Peek m
                      then ret (Inr \<lparr>Space_Name = spaceName,
                                     Space_Guid = Sprintf ''%s-dry-run-space-guid'' [spaceName],
                                     Space_OrganizationGuid = Sprintf ''%s-dry-run-org-guid'' [orgName],
                                     Space_AllowSSH = False\<rparr>)
                      else ret (Inl (Errorf ''space [%s] not found in org [%s]'' [spaceName, orgName])))))"


section \<open>The user manager (package user)\<close>

record DefaultManager =
  Client :: CFClient
  Cfg :: ConfigReader
  SpaceMgr :: SpaceDefaultManager
  OrgMgr :: OrgManager
  UAAMgr :: UAAManager
  Peek :: bool
  LdapMgr :: GroupResolver
  LdapConfig :: LdapConfig

subsection \<open>Removing a role\<close>

definition RemoveSpaceAuditor :: "DefaultManager \<Rightarrow> UpdateUsersInput \<Rightarrow> string \<Rightarrow> error option action" where
  "RemoveSpaceAuditor m input userName =
     (if Peek m
      then andThen (emit (LogInfof ''[dry-run]: removing user %s from org/space %s/%s with role %s''
                            [userName, OrgName input, SpaceName input, ''Auditor'']))
             (\<lambda>_. ret None)
      else andThen (emit (LogInfof ''removing user %s from org/space %s/%s with role %s''
                            [userName, OrgName input, SpaceName input, ''Auditor'']))
             (\<lambda>_. Client_RemoveRoleByUsername (Client m) SpaceAuditor (SpaceGUID input) userName))"

definition RemoveSpaceDeveloper :: "DefaultManager \<Rightarrow> UpdateUsersInput \<Rightarrow> string \<Rightarrow> error option action" where
  "RemoveSpaceDeveloper m input userName =
     (if Peek m
      then andThen (emit (LogInfof ''[dry-run]: removing user %s from org/space %s/%s with role %s''
                            [userName, OrgName input, SpaceName input, ''Developer'']))
             (\<lambda>_. ret None)
      else andThen (emit (LogInfof ''removing user %s from org/space %s/%s with role %s''
                            [userName, OrgName input, SpaceName input, ''Developer'']))
             (\<lambda>_. Client_RemoveRoleByUsername (Client m) SpaceDeveloper (SpaceGUID input) userName))"

definition RemoveSpaceManager :: "DefaultManager \<Rightarrow> UpdateUsersInput \<Rightarrow> string \<Rightarrow> error option action" where
  "RemoveSpaceManager m input userName =
     (if Peek m
      then andThen (emit (LogInfof ''[dry-run]: removing user %s from org/space %s/%s with role %s''
                            [userName, OrgName input, SpaceName input, ''Manager'']))
             (\<lambda>_. ret None)
      else andThen (emit (LogInfof ''removing user %s from org/space %s/%s with role %s''
                            [userName, OrgName input, SpaceName input, ''Manager'']))
             (\<lambda>_. Client_RemoveRoleByUsername (Client m) SpaceManager (SpaceGUID input) userName))"

definition RemoveOrgAuditor :: "DefaultManager \<Rightarrow> UpdateUsersInput \<Rightarrow> string \<Rightarrow> error option action" where
  "RemoveOrgAuditor m input userName =
     (if Peek m
      then andThen (emit (LogInfof ''[dry-run]: removing user %s from org %s with role %s''
                            [userName, OrgName input, ''auditor'']))
             (\<lambda>_. ret None)
      else andThen (emit (LogInfof ''removing user %s from org %s with role %s''
                            [userName, OrgName input, ''auditor'']))
             (\<lambda>_. Client_RemoveRoleByUsername (Client m) OrgAuditor (OrgGUID input) userName))"

definition RemoveOrgBillingManager :: "DefaultManager \<Rightarrow> UpdateUsersInput \<Rightarrow> string \<Rightarrow> error option action" where
  "RemoveOrgBillingManager m input userName =
     (if Peek m
      then andThen (emit (LogInfof ''[dry-run]: removing user %s from org %s with role %s''
                            [userName, OrgName input, ''billing manager'']))
             (\<lambda>_. ret None)
      else andThen (emit (LogInfof ''removing user %s from org %s with role %s''
                            [userName, OrgName input, ''billing manager'']))
             (\<lambda>_. Client_RemoveRoleByUsername (Client m) OrgBillingManager (OrgGUID input) userName))"

definition RemoveOrgManager :: "DefaultManager \<Rightarrow> UpdateUsersInput \<Rightarrow> string \<Rightarrow> error option action" where
  "RemoveOrgManager m input userName =
     (if Peek m
      then andThen (emit (LogInfof ''[dry-run]: removing user %s from org %s with role %s''
                            [userName, OrgName input, ''manager'']))
             (\<lambda>_. ret None)
      else andThen (emit (LogInfof ''removing user %s from org %s with role %s''
                            [userName, OrgName input, ''manager'']))
             (\<lambda>_. Client_RemoveRoleByUsername (Client m) OrgManager (OrgGUID input) userName))"

subsection \<open>Listing the holders of a role\<close>

definition userListToMap :: "User list \<Rightarrow> RoleUsers" where
  "userListToMap users =
     fold (\<lambda>user userMap. AList.update (ToLower (User_Username user)) (User_Guid user) userMap) users []"

definition ListSpaceAuditors :: "DefaultManager \<Rightarrow> string \<Rightarrow> (error + RoleUsers) action" where
  "ListSpaceAuditors m spaceGUID =
     (if Peek m \<and> Contains spaceGUID ''dry-run-space-guid'' then ret (Inr [])
      else andThen (Client_ListRoleUsers (Client m) SpaceAuditor spaceGUID)
             (\<lambda>res. case res of Inl err \<Rightarrow> ret (Inl err) | Inr users \<Rightarrow> ret (Inr (userListToMap users))))"

definition ListSpaceDevelopers :: "DefaultManager \<Rightarrow> string \<Rightarrow> (error + RoleUsers) action" where
  "ListSpaceDevelopers m spaceGUID =
     (if Peek m \<and> Contains spaceGUID ''dry-run-space-guid'' then ret (Inr [])
      else andThen (Client_ListRoleUsers (Client m) SpaceDeveloper spaceGUID)
             (\<lambda>res. case res of Inl err \<Rightarrow> ret (Inl err) | Inr users \<Rightarrow> ret (Inr (userListToMap users))))"

definition ListSpaceManagers :: "DefaultManager \<Rightarrow> string \<Rightarrow> (error + RoleUsers) action" where
  "ListSpaceManagers m spaceGUID =
     (if Peek m \<and> Contains spaceGUID ''dry-run-space-guid'' then ret (Inr [])
      else andThen (Client_ListRoleUsers (Client m) SpaceManager spaceGUID)
             (\<lambda>res. case res of Inl err \<Rightarrow> ret (Inl err) | Inr users \<Rightarrow> ret (Inr (userListToMap users))))"

definition ListOrgAuditors :: "DefaultManager \<Rightarrow> string \<Rightarrow> (error + RoleUsers) action" where
  "ListOrgAuditors m orgGUID =
     (if Peek m \<and> Contains orgGUID ''dry-run-org-guid'' then ret (Inr [])
      else andThen (Client_ListRoleUsers (Client m) OrgAuditor orgGUID)
             (\<lambda>res. case res of Inl err \<Rightarrow> ret (Inl err) | Inr users \<Rightarrow> ret (Inr (userListToMap users))))"

definition ListOrgBillingManagers :: "DefaultManager \<Rightarrow> string \<Rightarrow> (error + RoleUsers) action" where
  "ListOrgBillingManagers m orgGUID =
     (if Peek m \<and> Contains orgGUID ''dry-run-org-guid'' then ret (Inr [])
      else andThen (Client_ListRoleUsers (Client m) OrgBillingManager orgGUID)
             (\<lambda>res. case res of Inl err \<Rightarrow> ret (Inl err) | Inr users \<Rightarrow> ret (Inr (userListToMap users))))"

definition ListOrgManagers :: "DefaultManager \<Rightarrow> string \<Rightarrow> (error + RoleUsers) action" where
  "ListOrgManagers m orgGUID =
     (if Peek m \<and> Contains orgGUID ''dry-run-org-guid'' then ret (Inr [])
      else andThen (Client_ListRoleUsers (Client m) OrgManager orgGUID)
             (\<lambda>res. case res of Inl err \<Rightarrow> ret (Inl err) | Inr users \<Rightarrow> ret (Inr (userListToMap users))))"

text \<open>The lower-case wrappers add a debug line to the upper-case methods, nothing else.\<close>

definition listSpaceAuditors :: "DefaultManager \<Rightarrow> UpdateUsersInput \<Rightarrow> (error + RoleUsers) action" where
  "listSpaceAuditors m input = ListSpaceAuditors m (SpaceGUID input)"

definition listSpaceDevelopers :: "DefaultManager \<Rightarrow> UpdateUsersInput \<Rightarrow> (error + RoleUsers) action" where
  "listSpaceDevelopers m input = ListSpaceDevelopers m (SpaceGUID input)"

definition listSpaceManagers :: "DefaultManager \<Rightarrow> UpdateUsersInput \<Rightarrow> (error + RoleUsers) action" where
  "listSpaceManagers m input = ListSpaceManagers m (SpaceGUID input)"

definition listOrgAuditors :: "DefaultManager \<Rightarrow> UpdateUsersInput \<Rightarrow> (error + RoleUsers) action" where
  "listOrgAuditors m input = ListOrgAuditors m (OrgGUID input)"

definition listOrgBillingManagers :: "DefaultManager \<Rightarrow> UpdateUsersInput \<Rightarrow> (error + RoleUsers) action" where
  "listOrgBillingManagers m input = ListOrgBillingManagers m (OrgGUID input)"

definition listOrgManagers :: "DefaultManager \<Rightarrow> UpdateUsersInput \<Rightarrow> (error + RoleUsers) action" where
  "listOrgManagers m input = ListOrgManagers m (OrgGUID input)"

subsection \<open>Adding a role\<close>

definition AddUserToOrg :: "DefaultManager \<Rightarrow> string \<Rightarrow> UpdateUsersInput \<Rightarrow> error option action" where
  "AddUserToOrg m userName input =
     (if Peek m then ret None
      else Client_AssociateOrgUserByUsername (Client m) (OrgGUID input) userName)"

definition AssociateSpaceAuditor :: "DefaultManager \<Rightarrow> UpdateUsersInput \<Rightarrow> string \<Rightarrow> error option action" where
  "AssociateSpaceAuditor m input userName =
     andThen (AddUserToOrg m userName input) (\<lambda>err.
       case err of
         Some e \<Rightarrow> ret (Some e)
       | None \<Rightarrow>
           if Peek m
           then andThen (emit (LogInfof ''[dry-run]: adding %s to role %s for org/space %s/%s''
                                 [userName, ''auditor'', OrgName input, SpaceName input]))
                  (\<lambda>_. ret None)
           else andThen (emit (LogInfof ''adding %s to role %s for org/space %s/%s''
                                 [userName, ''auditor'', OrgName input, SpaceName input]))
                  (\<lambda>_. Client_AssociateRoleByUsername (Client m) SpaceAuditor (SpaceGUID input) userName))"

definition AssociateSpaceDeveloper :: "DefaultManager \<Rightarrow> UpdateUsersInput \<Rightarrow> string \<Rightarrow> error option action" where
  "AssociateSpaceDeveloper m input userName =
     andThen (AddUserToOrg m userName input) (\<lambda>err.
       case err of
         Some e \<Rightarrow> ret (Some e)
       | None \<Rightarrow>
           if Peek m
           then andThen (emit (LogInfof ''[dry-run]: adding %s to role %s for org/space %s/%s''
                                 [userName, ''developer'', OrgName input, SpaceName input]))
                  (\<lambda>_. ret None)
           else andThen (emit (LogInfof ''adding %s to role %s for org/space %s/%s''
                                 [userName, ''developer'', OrgName input, SpaceName input]))
                  (\<lambda>_. Client_AssociateRoleByUsername (Client m) SpaceDeveloper (SpaceGUID input) userName))"

definition AssociateSpaceManager :: "DefaultManager \<Rightarrow> UpdateUsersInput \<Rightarrow> string \<Rightarrow> error option action" where
  "AssociateSpaceManager m input userName =
     andThen (AddUserToOrg m userName input) (\<lambda>err.
       case err of
         Some e \<Rightarrow> ret (Some e)
       | None \<Rightarrow>
           if Peek m
           then andThen (emit (LogInfof ''[dry-run]: adding %s to role %s for org/space %s/%s''
                                 [userName, ''manager'', OrgName input, SpaceName input]))
                  (\<lambda>_. ret None)
           else andThen (emit (LogInfof ''adding %s to role %s for org/space %s/%s''
                                 [userName, ''manager'', OrgName input, SpaceName input]))
                  (\<lambda>_. Client_AssociateRoleByUsername (Client m) SpaceManager (SpaceGUID input) userName))"

definition AssociateOrgAuditor :: "DefaultManager \<Rightarrow> UpdateUsersInput \<Rightarrow> string \<Rightarrow> error option action" where
  "AssociateOrgAuditor m input userName =
     andThen (AddUserToOrg m userName input) (\<lambda>err.
       case err of
         Some e \<Rightarrow> ret (Some e)
       | None \<Rightarrow>
           if Peek m
           then andThen (emit (LogInfof ''[dry-run]: Add User %s to role %s for org %s''
                                 [userName, ''auditor'', OrgName input]))
                  (\<lambda>_. ret None)
           else andThen (emit (LogInfof ''Add User %s to role %s for org %s''
                                 [userName, ''auditor'', OrgName input]))
                  (\<lambda>_. Client_AssociateRoleByUsername (Client m) OrgAuditor (OrgGUID input) userName))"

definition AssociateOrgBillingManager :: "DefaultManager \<Rightarrow> UpdateUsersInput \<Rightarrow> string \<Rightarrow> error option action" where
  "AssociateOrgBillingManager m input userName =
     andThen (AddUserToOrg m userName input) (\<lambda>err.
       case err of
         Some e \<Rightarrow> ret (Some e)
       | None \<Rightarrow>
           if Peek m
           then andThen (emit (LogInfof ''[dry-run]: Add User %s to role %s for org %s''
                                 [userName, ''billing manager'', OrgName input]))
                  (\<lambda>_. ret None)
           else andThen (emit (LogInfof ''Add User %s to role %s for org %s''
                                 [userName, ''billing manager'', OrgName input]))
                  (\<lambda>_. Client_AssociateRoleByUsername (Client m) OrgBillingManager (OrgGUID input) userName))"

definition AssociateOrgManager :: "DefaultManager \<Rightarrow> UpdateUsersInput \<Rightarrow> string \<Rightarrow> error option action" where
  "AssociateOrgManager m input userName =
     andThen (AddUserToOrg m userName input) (\<lambda>err.
       case err of
         Some e \<Rightarrow> ret (Some e)
       | None \<Rightarrow>
           if Peek m
           then andThen (emit (LogInfof ''[dry-run]: Add User %s to role %s for org %s''
                                 [userName, ''manager'', OrgName input]))
                  (\<lambda>_. ret None)
           else andThen (emit (LogInfof ''Add User %s to role %s for org %s''
                                 [userName, ''manager'', OrgName input]))
                  (\<lambda>_. Client_AssociateRoleByUsername (Client m) OrgManager (OrgGUID input) userName))"

subsection \<open>Applying the callables of an input\<close>

fun callListUsers :: "DefaultManager \<Rightarrow> UpdateUsersInput \<Rightarrow> (error + RoleUsers) action" where
  "callListUsers m input =
     (case ListUsers input of
        Bound_listSpaceDevelopers \<Rightarrow> listSpaceDevelopers m input
      | Bound_listSpaceManagers \<Rightarrow> listSpaceManagers m input
      | Bound_listSpaceAuditors \<Rightarrow> listSpaceAuditors m input
      | Bound_listOrgBillingManagers \<Rightarrow> listOrgBillingManagers m input
      | Bound_listOrgAuditors \<Rightarrow> listOrgAuditors m input
      | Bound_listOrgManagers \<Rightarrow> listOrgManagers m input)"

fun callAddUser :: "DefaultManager \<Rightarrow> UpdateUsersInput \<Rightarrow> string \<Rightarrow> error option action" where
  "callAddUser m input userName =
     (case AddUser input of
        Bound_AssociateSpaceDeveloper \<Rightarrow> AssociateSpaceDeveloper m input userName
      | Bound_AssociateSpaceManager \<Rightarrow> AssociateSpaceManager m input userName
      | Bound_AssociateSpaceAuditor \<Rightarrow> AssociateSpaceAuditor m input userName
      | Bound_AssociateOrgBillingManager \<Rightarrow> AssociateOrgBillingManager m input userName
      | Bound_AssociateOrgAuditor \<Rightarrow> AssociateOrgAuditor m input userName
      | Bound_AssociateOrgManager \<Rightarrow> AssociateOrgManager m input userName)"

fun callRemoveUser :: "DefaultManager \<Rightarrow> UpdateUsersInput \<Rightarrow> string \<Rightarrow> error option action" where
  "callRemoveUser m input userName =
     (case RemoveUser input of
        Bound_RemoveSpaceDeveloper \<Rightarrow> RemoveSpaceDeveloper m input userName
      | Bound_RemoveSpaceManager \<Rightarrow> RemoveSpaceManager m input userName
      | Bound_RemoveSpaceAuditor \<Rightarrow> RemoveSpaceAuditor m input userName
      | Bound_RemoveOrgBillingManager \<Rightarrow> RemoveOrgBillingManager m input userName
      | Bound_RemoveOrgAuditor \<Rightarrow> RemoveOrgAuditor m input userName
      | Bound_RemoveOrgManager \<Rightarrow> RemoveOrgManager m input userName)"


section \<open>The reconciler\<close>

subsection \<open>Internal users\<close>

fun SyncInternalUsers_loop ::
  "DefaultManager \<Rightarrow> UaaUsers \<Rightarrow> UpdateUsersInput \<Rightarrow> string list \<Rightarrow> RoleUsers \<Rightarrow> (error option \<times> RoleUsers) action" where
  "SyncInternalUsers_loop m uaaUsers input [] roleUsers = ret (None, roleUsers)"
| "SyncInternalUsers_loop m uaaUsers input (userID # rest) roleUsers =
     (let lowerUserID = ToLower userID in
      if map_of uaaUsers lowerUserID = None
      then ret (Some (Errorf ''user %s doesn't exist in cloud foundry, so must add internal user first''
                        [lowerUserID]), roleUsers)
      else if map_of roleUsers lowerUserID = None
      then andThen (callAddUser m input userID) (\<lambda>err.
             case err of
               Some e \<Rightarrow> ret (Some e, roleUsers)
             | None \<Rightarrow> SyncInternalUsers_loop m uaaUsers input rest roleUsers)
      else SyncInternalUsers_loop m uaaUsers input rest (AList.delete lowerUserID roleUsers))"

definition SyncInternalUsers ::
  "DefaultManager \<Rightarrow> RoleUsers \<Rightarrow> UaaUsers \<Rightarrow> UpdateUsersInput \<Rightarrow> (error option \<times> RoleUsers) action" where
  "SyncInternalUsers m roleUsers uaaUsers input =
     SyncInternalUsers_loop m uaaUsers input (Users input) roleUsers"

subsection \<open>Federated (SAML) users\<close>

text \<open>
  The first half of the loop body: a user missing from \<open>uaaUsers\<close> is created; when that
  fails the body logs and continues with the next user (the result is \<open>False\<close>), when it
  succeeds the new user is stored in \<open>uaaUsers\<close> under \<open>userEmail\<close> as configured. The Go
  map is shared with the caller, so the updated map is returned.
\<close>

definition SyncSamlUsers_provision :: "DefaultManager \<Rightarrow> string \<Rightarrow> UaaUsers \<Rightarrow> (bool \<times> UaaUsers) action" where
  "SyncSamlUsers_provision m userEmail uaaUsers =
     (let lowerUserEmail = ToLower userEmail in
      if map_of uaaUsers lowerUserEmail = None
      then andThen (UAAMgr_CreateExternalUser (UAAMgr m) userEmail userEmail userEmail (Origin (LdapConfig m)))
             (\<lambda>err. case err of
                Some e \<Rightarrow> andThen (emit (LogError [''Unable to create user'', userEmail]))
                            (\<lambda>_. ret (False, uaaUsers))
              | None \<Rightarrow> ret (True, AList.update userEmail
                                      \<lparr>Uaa_Username = userEmail, Uaa_Emails = [userEmail],
                                       Uaa_ExternalID = userEmail, Uaa_Origin = Origin (LdapConfig m)\<rparr>
                                      uaaUsers))
      else ret (True, uaaUsers))"

fun SyncSamlUsers_loop ::
  "DefaultManager \<Rightarrow> UpdateUsersInput \<Rightarrow> string list \<Rightarrow> RoleUsers \<Rightarrow> UaaUsers \<Rightarrow>
     (error option \<times> RoleUsers \<times> UaaUsers) action" where
  "SyncSamlUsers_loop m input [] roleUsers uaaUsers = ret (None, roleUsers, uaaUsers)"
| "SyncSamlUsers_loop m input (userEmail # rest) roleUsers uaaUsers =
     andThen (SyncSamlUsers_provision m userEmail uaaUsers) (\<lambda>p.
       if \<not> fst p then SyncSamlUsers_loop m input rest roleUsers (snd p)
       else if map_of roleUsers (ToLower userEmail) = None
       then andThen (callAddUser m input userEmail) (\<lambda>err.
              case err of
                Some e \<Rightarrow> ret (Some e, roleUsers, snd p)
              | None \<Rightarrow> SyncSamlUsers_loop m input rest roleUsers (snd p))
       else SyncSamlUsers_loop m input rest (AList.delete (ToLower userEmail) roleUsers) (snd p))"

definition SyncSamlUsers ::
  "DefaultManager \<Rightarrow> RoleUsers \<Rightarrow> UaaUsers \<Rightarrow> UpdateUsersInput \<Rightarrow> (error option \<times> RoleUsers \<times> UaaUsers) action" where
  "SyncSamlUsers m roleUsers uaaUsers input =
     SyncSamlUsers_loop m input (SamlUsers input) roleUsers uaaUsers"

subsection \<open>Directory-group users\<close>

text \<open>
  Modelled from the spec: \<open>SyncLdapUsers\<close> is called by \<open>SyncUsers\<close> but its body is not
  among the sources. The spec (section 4.1, step 4, and section 6) says: the group names
  are resolved by the Group Resolver to member identities, the resolution failing with
  an error when a name cannot be resolved, and each resolved member follows the same
  logic as an internal user (fail when absent from the directory; add when absent from
  the role; otherwise mark satisfied), using the directory for existence checks.
\<close>

definition SyncLdapUsers ::
  "DefaultManager \<Rightarrow> RoleUsers \<Rightarrow> UaaUsers \<Rightarrow> UpdateUsersInput \<Rightarrow> (error option \<times> RoleUsers) action" where
  "SyncLdapUsers m roleUsers uaaUsers input =
     andThen (Ldap_resolveMembers_call (LdapMgr m) (LdapGroupNames input)) (\<lambda>r.
       case r of
         Inl err \<Rightarrow> ret (Some err, roleUsers)
       | Inr members \<Rightarrow> SyncInternalUsers_loop m uaaUsers input (map ir_username members) roleUsers)"

subsection \<open>Removing the users that are left\<close>

fun RemoveUsers_loop :: "DefaultManager \<Rightarrow> UpdateUsersInput \<Rightarrow> string list \<Rightarrow> error option action" where
  "RemoveUsers_loop m input [] = ret None"
| "RemoveUsers_loop m input (roleUser # rest) =
     andThen (callRemoveUser m input roleUser) (\<lambda>err.
       case err of
         Some e \<Rightarrow> ret (Some e)
       | None \<Rightarrow> RemoveUsers_loop m input rest)"

definition RemoveUsers :: "DefaultManager \<Rightarrow> RoleUsers \<Rightarrow> UpdateUsersInput \<Rightarrow> error option action" where
  "RemoveUsers m roleUsers input =
     (if RemoveUsers_flag input then RemoveUsers_loop m input (map fst roleUsers)
      else ret None)"

subsection \<open>One reconciliation\<close>

definition SyncUsers :: "DefaultManager \<Rightarrow> UaaUsers \<Rightarrow> UpdateUsersInput \<Rightarrow> (error option \<times> UaaUsers) action" where
  "SyncUsers m uaaUsers updateUsersInput =
     andThen (callListUsers m updateUsersInput) (\<lambda>r.
       case r of
         Inl err \<Rightarrow> ret (Some err, uaaUsers)
       | Inr roleUsers \<Rightarrow>
           andThen (SyncLdapUsers m roleUsers uaaUsers updateUsersInput) (\<lambda>r1.
             case fst r1 of
               Some e \<Rightarrow> ret (Some e, uaaUsers)
             | None \<Rightarrow>
                 andThen (SyncInternalUsers m (snd r1) uaaUsers updateUsersInput) (\<lambda>r2.
                   case fst r2 of
                     Some e \<Rightarrow> ret (Some e, uaaUsers)
                   | None \<Rightarrow>
                       andThen (SyncSamlUsers m (snd r2) uaaUsers updateUsersInput) (\<lambda>r3.
                         case fst r3 of
                           Some e \<Rightarrow> ret (Some e, snd (snd r3))
                         | None \<Rightarrow>
                             andThen (RemoveUsers m (fst (snd r3)) updateUsersInput)
                               (\<lambda>err. ret (err, snd (snd r3)))))))"

section \<open>The run drivers\<close>

definition updateSpaceUsers :: "DefaultManager \<Rightarrow> SpaceConfig \<Rightarrow> UaaUsers \<Rightarrow> (error option \<times> UaaUsers) action" where
  "updateSpaceUsers m input uaaUsers =
     andThen (FindSpace (SpaceMgr m) (sc_Org input) (sc_Space input)) (\<lambda>r.
       case r of
         Inl err \<Rightarrow>
           ret (Some (Wrap err (Sprintf ''Error finding space for org %s, space %s''
                                  [sc_Org input, sc_Space input])), uaaUsers)
       | Inr space \<Rightarrow>
           andThen (SyncUsers m uaaUsers
               \<lparr>SpaceGUID = Space_Guid space, OrgGUID = Space_OrganizationGuid space,
                SpaceName = Space_Name space, OrgName = sc_Org input,
                LdapGroupNames = um_Groups (sc_Developer input), LdapUsers = um_LDAPUsers (sc_Developer input),
                Users = um_Users (sc_Developer input), SamlUsers = um_SamlUsers (sc_Developer input),
                RemoveUsers_flag = sc_RemoveUsers input,
                ListUsers = Bound_listSpaceDevelopers, RemoveUser = Bound_RemoveSpaceDeveloper,
                AddUser = Bound_AssociateSpaceDeveloper\<rparr>) (\<lambda>r1.
             case fst r1 of
               Some e \<Rightarrow>
                 ret (Some (Wrap e (Sprintf ''Error syncing users for org %s, space %s, role %s''
                                      [sc_Org input, sc_Space input, ''developer''])), snd r1)
             | None \<Rightarrow>
                 andThen (SyncUsers m (snd r1)
                     \<lparr>SpaceGUID = Space_Guid space, OrgGUID = Space_OrganizationGuid space,
                SpaceName = Space_Name space, OrgName = sc_Org input,
                LdapGroupNames = um_Groups (sc_Manager input), LdapUsers = um_LDAPUsers (sc_Manager input),
                Users = um_Users (sc_Manager input), SamlUsers = um_SamlUsers (sc_Manager input),
                RemoveUsers_flag = sc_RemoveUsers input,
                ListUsers = Bound_listSpaceManagers, RemoveUser = Bound_RemoveSpaceManager,
                AddUser = Bound_AssociateSpaceManager\<rparr>) (\<lambda>r2.
                   case fst r2 of
                     Some e \<Rightarrow>
                       ret (Some (Wrap e (Sprintf ''Error syncing users for org %s, space %s, role %s''
                                            [sc_Org input, sc_Space input, ''manager''])), snd r2)
                   | None \<Rightarrow>
                       andThen (SyncUsers m (snd r2)
                           \<lparr>SpaceGUID = Space_Guid space, OrgGUID = Space_OrganizationGuid space,
                SpaceName = Space_Name space, OrgName = sc_Org input,
                LdapGroupNames = um_Groups (sc_Auditor input), LdapUsers = um_LDAPUsers (sc_Auditor input),
                Users = um_Users (sc_Auditor input), SamlUsers = um_SamlUsers (sc_Auditor input),
                RemoveUsers_flag = sc_RemoveUsers input,
                ListUsers = Bound_listSpaceAuditors, RemoveUser = Bound_RemoveSpaceAuditor,
                AddUser = Bound_AssociateSpaceAuditor\<rparr>) (\<lambda>r3.
                         case fst r3 of
                           Some e \<Rightarrow>
                             ret (Some (Wrap e (Sprintf ''Error syncing users for org %s, space %s, role %s''
                                                  [sc_Org input, sc_Space input, ''auditor''])), snd r3)
                         | None \<Rightarrow> ret (None, snd r3)))))"

fun UpdateSpaceUsers_loop :: "DefaultManager \<Rightarrow> SpaceConfig list \<Rightarrow> UaaUsers \<Rightarrow> (error option \<times> UaaUsers) action" where
  "UpdateSpaceUsers_loop m [] uaaUsers = ret (None, uaaUsers)"
| "UpdateSpaceUsers_loop m (input # rest) uaaUsers =
     andThen (updateSpaceUsers m input uaaUsers) (\<lambda>r.
       case fst r of
         Some e \<Rightarrow> ret (Some e, snd r)
       | None \<Rightarrow> UpdateSpaceUsers_loop m rest (snd r))"

definition UpdateSpaceUsers :: "DefaultManager \<Rightarrow> error option action" where
  "UpdateSpaceUsers m =
     andThen (UAAMgr_ListUsers (UAAMgr m)) (\<lambda>r.
       case r of
         Inl err \<Rightarrow> ret (Some err)
       | Inr uaaUsers \<Rightarrow>
           andThen (Cfg_GetSpaceConfigs_call (Cfg m)) (\<lambda>r'.
             case r' of
               Inl err \<Rightarrow> ret (Some err)
             | Inr spaceConfigs \<Rightarrow>
                 andThen (UpdateSpaceUsers_loop m spaceConfigs uaaUsers) (\<lambda>res. ret (fst res))))"

definition updateOrgUsers :: "DefaultManager \<Rightarrow> OrgConfig \<Rightarrow> UaaUsers \<Rightarrow> (error option \<times> UaaUsers) action" where
  "updateOrgUsers m input uaacUsers =
     andThen (OrgMgr_FindOrg (OrgMgr m) (oc_Org input)) (\<lambda>r.
       case r of
         Inl err \<Rightarrow> ret (Some err, uaacUsers)
       | Inr org \<Rightarrow>
           andThen (SyncUsers m uaacUsers
               \<lparr>SpaceGUID = [], OrgGUID = Org_Guid org,
                SpaceName = [], OrgName = Org_Name org,
                LdapGroupNames = um_Groups (oc_BillingManager input), LdapUsers = um_LDAPUsers (oc_BillingManager input),
                Users = um_Users (oc_BillingManager input), SamlUsers = um_SamlUsers (oc_BillingManager input),
                RemoveUsers_flag = oc_RemoveUsers input,
                ListUsers = Bound_listOrgBillingManagers, RemoveUser = Bound_RemoveOrgBillingManager,
                AddUser = Bound_AssociateOrgBillingManager\<rparr>) (\<lambda>r1.
             case fst r1 of
               Some e \<Rightarrow>
                 ret (Some (Wrap e (Sprintf ''Error syncing users for org %s role %s''
                                      [oc_Org input, ''billing_managers''])), snd r1)
             | None \<Rightarrow>
                 andThen (SyncUsers m (snd r1)
                     \<lparr>SpaceGUID = [], OrgGUID = Org_Guid org,
                SpaceName = [], OrgName = Org_Name org,
                LdapGroupNames = um_Groups (oc_Auditor input), LdapUsers = um_LDAPUsers (oc_Auditor input),
                Users = um_Users (oc_Auditor input), SamlUsers = um_SamlUsers (oc_Auditor input),
                RemoveUsers_flag = oc_RemoveUsers input,
                ListUsers = Bound_listOrgAuditors, RemoveUser = Bound_RemoveOrgAuditor,
                AddUser = Bound_AssociateOrgAuditor\<rparr>) (\<lambda>r2.
                   case fst r2 of
                     Some e \<Rightarrow>
                       ret (Some (Wrap e (Sprintf ''Error syncing users for org %s role %s''
                                            [oc_Org input, ''org-auditors''])), snd r2)
                   | None \<Rightarrow>
                       andThen (SyncUsers m (snd r2)
                           \<lparr>SpaceGUID = [], OrgGUID = Org_Guid org,
                SpaceName = [], OrgName = Org_Name org,
                LdapGroupNames = um_Groups (oc_Manager input), LdapUsers = um_LDAPUsers (oc_Manager input),
                Users = um_Users (oc_Manager input), SamlUsers = um_SamlUsers (oc_Manager input),
                RemoveUsers_flag = oc_RemoveUsers input,
                ListUsers = Bound_listOrgManagers, RemoveUser = Bound_RemoveOrgManager,
                AddUser = Bound_AssociateOrgManager\<rparr>) (\<lambda>r3.
                         case fst r3 of
                           Some e \<Rightarrow>
                             ret (Some (Wrap e (Sprintf ''Error syncing users for org %s role %s''
                                                  [oc_Org input, ''org-manager''])), snd r3)
                         | None \<Rightarrow> ret (None, snd r3)))))"

fun UpdateOrgUsers_loop :: "DefaultManager \<Rightarrow> OrgConfig list \<Rightarrow> UaaUsers \<Rightarrow> (error option \<times> UaaUsers) action" where
  "UpdateOrgUsers_loop m [] uaacUsers = ret (None, uaacUsers)"
| "UpdateOrgUsers_loop m (input # rest) uaacUsers =
     andThen (updateOrgUsers m input uaacUsers) (\<lambda>r.
       case fst r of
         Some e \<Rightarrow> ret (Some e, snd r)
       | None \<Rightarrow> UpdateOrgUsers_loop m rest (snd r))"

definition UpdateOrgUsers :: "DefaultManager \<Rightarrow> error option action" where
  "UpdateOrgUsers m =
     andThen (UAAMgr_ListUsers (UAAMgr m)) (\<lambda>r.
       case r of
         Inl err \<Rightarrow> ret (Some err)
       | Inr uaacUsers \<Rightarrow>
           andThen (Cfg_GetOrgConfigs_call (Cfg m)) (\<lambda>r'.
             case r' of
               Inl err \<Rightarrow> ret (Some err)
             | Inr orgConfigs \<Rightarrow>
                 andThen (UpdateOrgUsers_loop m orgConfigs uaacUsers) (\<lambda>res. ret (fst res))))"

section \<open>The cleanup pass\<close>

definition appendToMap :: "RoleUsers \<Rightarrow> RoleUsers \<Rightarrow> RoleUsers" where
  "appendToMap source append' =
     fold (\<lambda>entry src. AList.update (fst entry) (snd entry) src) append' source"

definition listSpaces :: "DefaultManager \<Rightarrow> string \<Rightarrow> (error + Space list) action" where
  "listSpaces m orgGUID = Client_ListSpacesByQuery (Client m) orgGUID"

fun usersInOrgRoles_loop :: "DefaultManager \<Rightarrow> string \<Rightarrow> Space list \<Rightarrow> RoleUsers \<Rightarrow> (error + RoleUsers) action" where
  "usersInOrgRoles_loop m orgName [] userMap = ret (Inr userMap)"
| "usersInOrgRoles_loop m orgName (space # rest) userMap =
     andThen (ListSpaceAuditors m (Space_Guid space)) (\<lambda>r1.
       case r1 of
         Inl err \<Rightarrow>
           ret (Inl (Wrap err (Sprintf ''Error listing space auditors for org/space %s/%s''
                                 [orgName, Space_Name space])))
       | Inr spaceAuditors \<Rightarrow>
           andThen (ListSpaceAuditors m (Space_Guid space)) (\<lambda>r2.
             case r2 of
               Inl err \<Rightarrow>
                 ret (Inl (Wrap err (Sprintf ''Error listing space developers for org/space %s/%s''
                                       [orgName, Space_Name space])))
             | Inr spaceDevelopers \<Rightarrow>
                 andThen (ListSpaceManagers m (Space_Guid space)) (\<lambda>r3.
                   case r3 of
                     Inl err \<Rightarrow>
                       ret (Inl (Wrap err (Sprintf ''Error listing space managers for org/space %s/%s''
                                             [orgName, Space_Name space])))
                   | Inr spaceManagers \<Rightarrow>
                       usersInOrgRoles_loop m orgName rest
                         (appendToMap (appendToMap (appendToMap userMap spaceAuditors) spaceDevelopers)
                            spaceManagers))))"

definition usersInOrgRoles :: "DefaultManager \<Rightarrow> string \<Rightarrow> string \<Rightarrow> (error + RoleUsers) action" where
  "usersInOrgRoles m orgName orgGUID =
     andThen (ListOrgAuditors m orgGUID) (\<lambda>r1.
       case r1 of
         Inl err \<Rightarrow> ret (Inl (Wrap err (Sprintf ''Error listing org auditors for org %s'' [orgName])))
       | Inr orgAuditors \<Rightarrow>
           andThen (ListOrgManagers m orgGUID) (\<lambda>r2.
             case r2 of
               Inl err \<Rightarrow> ret (Inl (Wrap err (Sprintf ''Error listing org managers for org %s'' [orgName])))
             | Inr orgManagers \<Rightarrow>
                 andThen (ListOrgBillingManagers m orgGUID) (\<lambda>r3.
                   case r3 of
                     Inl err \<Rightarrow>
                       ret (Inl (Wrap err (Sprintf ''Error listing org billing managers for org %s''
                                             [orgName])))
                   | Inr orgBillingManagers \<Rightarrow>
                       andThen (listSpaces m orgGUID) (\<lambda>r4.
                         case r4 of
                           Inl err \<Rightarrow>
                             ret (Inl (Wrap err (Sprintf ''Error listing spaces for org %s'' [orgName])))
                         | Inr spaces \<Rightarrow>
                             usersInOrgRoles_loop m orgName spaces
                               (appendToMap (appendToMap (appendToMap [] orgAuditors) orgManagers)
                                  orgBillingManagers)))))"

fun cleanupOrgUsers_loop ::
  "DefaultManager \<Rightarrow> OrgConfig \<Rightarrow> Org \<Rightarrow> RoleUsers \<Rightarrow> User list \<Rightarrow> error option action" where
  "cleanupOrgUsers_loop m input org usersInRoles [] = ret None"
| "cleanupOrgUsers_loop m input org usersInRoles (orgUser # rest) =
     (if map_of usersInRoles (ToLower (User_Username orgUser)) = None
      then (if Peek m
            then andThen (emit (LogInfof ''[dry-run]: Removing User %s from org %s''
                                  [User_Username orgUser, oc_Org input]))
                   (\<lambda>_. cleanupOrgUsers_loop m input org usersInRoles rest)
            else andThen (emit (LogInfof ''Removing User %s from org %s''
                                  [User_Username orgUser, oc_Org input]))
                   (\<lambda>_. andThen (Client_RemoveOrgUserByUsername (Client m) (Org_Guid org)
                                    (User_Username orgUser)) (\<lambda>err.
                           case err of
                             Some e \<Rightarrow>
                               ret (Some (Wrap e (Sprintf ''Error removing user %s from org %s''
                                                    [User_Username orgUser, oc_Org input])))
                           | None \<Rightarrow> cleanupOrgUsers_loop m input org usersInRoles rest)))
      else cleanupOrgUsers_loop m input org usersInRoles rest)"

definition cleanupOrgUsers :: "DefaultManager \<Rightarrow> OrgConfig \<Rightarrow> error option action" where
  "cleanupOrgUsers m input =
     andThen (OrgMgr_FindOrg (OrgMgr m) (oc_Org input)) (\<lambda>r.
       case r of
         Inl err \<Rightarrow> ret (Some err)
       | Inr org \<Rightarrow>
           andThen (Client_ListOrgUsers (Client m) (Org_Guid org)) (\<lambda>r1.
             case r1 of
               Inl err \<Rightarrow>
                 ret (Some (Wrap err (Sprintf ''Error listing org users for org %s'' [oc_Org input])))
             | Inr orgUsers \<Rightarrow>
                 andThen (usersInOrgRoles m (Org_Name org) (Org_Guid org)) (\<lambda>r2.
                   case r2 of
                     Inl err \<Rightarrow>
                       ret (Some (Wrap err (Sprintf ''Error usersInOrgRoles for org %s'' [oc_Org input])))
                   | Inr usersInRoles \<Rightarrow> cleanupOrgUsers_loop m input org usersInRoles orgUsers)))"




section \<open>Properties of recorded events\<close>

text \<open>
  An add event is what an \<open>Associate...\<close> method leaves behind: the org association call,
  the role association call, or (also in dry-run) its info line, whose format holds
  \<open>to role\<close>. A remove event is what a \<open>Remove...\<close> method or the cleanup pass leaves
  behind: the role removal call, the org removal call, or its info line, whose format
  holds \<open>from org\<close>.
\<close>

fun is_add :: "event \<Rightarrow> bool" where
  "is_add (CF_AssociateOrgUser orgGUID userName ok) = True"
| "is_add (CF_AssociateRole r guid userName ok) = True"
| "is_add (LogInfof f args) = Contains f ''to role''"
| "is_add _ = False"

fun is_remove :: "event \<Rightarrow> bool" where
  "is_remove (CF_RemoveRole r guid userName ok) = True"
| "is_remove (CF_RemoveOrgUser orgGUID userName ok) = True"
| "is_remove (LogInfof f args) = Contains f ''from org''"
| "is_remove _ = False"

fun is_load :: "event \<Rightarrow> bool" where
  "is_load (UAA_ListUsers ok) = True"
| "is_load _ = False"

fun is_provisioned :: "event \<Rightarrow> bool" where
  "is_provisioned (UAA_CreateExternalUser userName userEmail externalID origin ok) = ok"
| "is_provisioned _ = False"

fun provision_failed :: "event \<Rightarrow> bool" where
  "provision_failed (UAA_CreateExternalUser userName userEmail externalID origin ok) = (\<not> ok)"
| "provision_failed _ = False"





text \<open>\<open>precedes a b evs\<close>: \<open>a\<close> occurs in \<open>evs\<close> and \<open>b\<close> occurs after its first occurrence.\<close>

fun precedes :: "event \<Rightarrow> event \<Rightarrow> event list \<Rightarrow> bool" where
  "precedes a b [] = False"
| "precedes a b (e # es) = (if e = a then b \<in> set es else precedes a b es)"

text \<open>
  \<open>org_first seen evs\<close>: every role association call in \<open>evs\<close> is for a user whose org
  association call succeeded earlier in \<open>evs\<close> for the same user (or who is in \<open>seen\<close>).
\<close>

fun org_first :: "string list \<Rightarrow> event list \<Rightarrow> bool" where
  "org_first seen [] = True"
| "org_first seen (CF_AssociateOrgUser orgGUID userName ok # es) =
     org_first (if ok then userName # seen else seen) es"
| "org_first seen (CF_AssociateRole r guid userName ok # es) =
     (userName \<in> set seen \<and> org_first seen es)"
| "org_first seen (e # es) = org_first seen es"

text \<open>
  The user an add event is for: the user of the association call, or the first
  argument of the info line.
\<close>

fun add_user :: "event \<Rightarrow> string option" where
  "add_user (CF_AssociateOrgUser orgGUID userName ok) = Some userName"
| "add_user (CF_AssociateRole r guid userName ok) = Some userName"
| "add_user (LogInfof f args) =
     (if Contains f ''to role'' then (case args of [] \<Rightarrow> None | a # as \<Rightarrow> Some a) else None)"
| "add_user _ = None"

text \<open>The user a successful provisioning call created.\<close>

fun provisioned_user :: "event \<Rightarrow> string option" where
  "provisioned_user (UAA_CreateExternalUser userName userEmail externalID origin ok) =
     (if ok then Some userName else None)"
| "provisioned_user _ = None"

text \<open>
  \<open>provisioned_first dir seen evs\<close>: every add event in \<open>evs\<close> is for a user whose
  case-folded name is in the directory \<open>dir\<close>, or who was created, under the name as
  given or case-folded, by a successful provisioning call earlier in \<open>evs\<close> (or is in
  \<open>seen\<close>).
\<close>

fun provisioned_first :: "UaaUsers \<Rightarrow> string list \<Rightarrow> event list \<Rightarrow> bool" where
  "provisioned_first dir seen [] = True"
| "provisioned_first dir seen (e # es) =
     ((case add_user e of
         None \<Rightarrow> True
       | Some u \<Rightarrow> map_of dir (ToLower u) \<noteq> None \<or> u \<in> set seen \<or> ToLower u \<in> set seen) \<and>
      provisioned_first dir
        (case provisioned_user e of None \<Rightarrow> seen | Some u \<Rightarrow> u # seen) es)"







text \<open>The user a provisioning call, successful or not, is for.\<close>

fun provisioning_for :: "event \<Rightarrow> string option" where
  "provisioning_for (UAA_CreateExternalUser userName userEmail externalID origin ok) = Some userName"
| "provisioning_for _ = None"

text \<open>
  What an event does to the directory map: a successful provisioning call stores the
  user it created, with the fields of the call, as \<open>SyncSamlUsers\<close> does after the call;
  every other event leaves the map alone. \<open>snapshot_after uaaUsers evs\<close> is the map
  \<open>uaaUsers\<close> after the events \<open>evs\<close>.
\<close>

fun store_provisioned :: "event \<Rightarrow> UaaUsers \<Rightarrow> UaaUsers" where
  "store_provisioned (UAA_CreateExternalUser userName userEmail externalID origin ok) uaaUsers =
     (if ok
      then AList.update userName
             \<lparr>Uaa_Username = userName, Uaa_Emails = [userEmail], Uaa_ExternalID = externalID,
              Uaa_Origin = origin\<rparr> uaaUsers
      else uaaUsers)"
| "store_provisioned _ uaaUsers = uaaUsers"

definition snapshot_after :: "UaaUsers \<Rightarrow> event list \<Rightarrow> UaaUsers" where
  "snapshot_after uaaUsers evs = fold store_provisioned evs uaaUsers"

text \<open>
  \<open>provisioning_fresh uaaUsers evs\<close>: every provisioning call in \<open>evs\<close> is for a user
  that the map, as it stands when the call is made, has no entry for under the
  case-folded name; the map starts as \<open>uaaUsers\<close> and changes with the events.
\<close>

fun provisioning_fresh :: "UaaUsers \<Rightarrow> event list \<Rightarrow> bool" where
  "provisioning_fresh uaaUsers [] = True"
| "provisioning_fresh uaaUsers (e # es) =
     ((case provisioning_for e of
         None \<Rightarrow> True
       | Some userName \<Rightarrow> map_of uaaUsers (ToLower userName) = None) \<and>
      provisioning_fresh (store_provisioned e uaaUsers) es)"

text \<open>
  \<open>directory_threaded uaaUsers evs uaaUsers'\<close>: an operation that was given the map
  \<open>uaaUsers\<close>, recorded the events \<open>evs\<close> and returned the map \<open>uaaUsers'\<close> worked on one
  map throughout: the map returned is the map given with the users of the successful
  provisioning calls stored in call order, and each provisioning call was decided on the
  map as the calls before it left it.
\<close>

definition directory_threaded :: "UaaUsers \<Rightarrow> event list \<Rightarrow> UaaUsers \<Rightarrow> bool" where
  "directory_threaded uaaUsers evs uaaUsers' =
     (uaaUsers' = snapshot_after uaaUsers evs \<and> provisioning_fresh uaaUsers evs)"

section \<open>An example platform\<close>

text \<open>
  Org \<open>test-org\<close> with one space \<open>dev\<close>. Alice and carol are developers of the space,
  \<open>bad@x.io\<close> is its auditor, erin manages the org, and Alice, carol and erin are the
  org's members. The directory group
  \<open>space-devs\<close> has the members alice and gina. The backend refuses to list
  the roles of \<open>broken-guid\<close>, to associate \<open>banned\<close> with an org and \<open>locked\<close> with a role,
  to remove \<open>stuck\<close> from a role, and to create the external user \<open>bad@x.io\<close>.
\<close>

definition exSpace :: Space where
  "exSpace = \<lparr>Space_Name = ''dev'', Space_Guid = ''dev-guid'',
              Space_OrganizationGuid = ''org-guid'', Space_AllowSSH = False\<rparr>"

definition exClient :: CFClient where
  "exClient =
     \<lparr>ListRoleUsers = (\<lambda>h r guid.
         if guid = ''broken-guid'' then Inl (Error ''backend unavailable'')
         else if r = SpaceDeveloper \<and> guid = ''dev-guid''
         then Inr [\<lparr>User_Username = ''Alice'', User_Guid = ''a1''\<rparr>,
                   \<lparr>User_Username = ''carol'', User_Guid = ''c1''\<rparr>]
         else if r = SpaceAuditor \<and> guid = ''dev-guid''
         then Inr [\<lparr>User_Username = ''bad@x.io'', User_Guid = ''b1''\<rparr>]
         else if r = OrgManager \<and> guid = ''org-guid''
         then Inr [\<lparr>User_Username = ''erin'', User_Guid = ''e1''\<rparr>]
         else Inr []),
      AssociateRoleByUsername = (\<lambda>h r guid userName.
         if userName = ''locked'' then Some (Error ''user locked'') else None),
      RemoveRoleByUsername = (\<lambda>h r guid userName.
         if userName = ''stuck'' then Some (Error ''user stuck'') else None),
      AssociateOrgUserByUsername = (\<lambda>h orgGUID userName.
         if userName = ''banned'' then Some (Error ''user banned'') else None),
      ListOrgUsers = (\<lambda>h orgGUID.
         if orgGUID = ''org-guid''
         then Inr [\<lparr>User_Username = ''Alice'', User_Guid = ''a1''\<rparr>,
                   \<lparr>User_Username = ''carol'', User_Guid = ''c1''\<rparr>,
                   \<lparr>User_Username = ''erin'', User_Guid = ''e1''\<rparr>]
         else Inr []),
      RemoveOrgUserByUsername = (\<lambda>h orgGUID userName. None),
      ListSpacesByQuery = (\<lambda>h orgGUID. if orgGUID = ''org-guid'' then Inr [exSpace] else Inr [])\<rparr>"

definition exOrgMgr :: OrgManager where
  "exOrgMgr =
     \<lparr>FindOrg = (\<lambda>h orgName.
         if orgName = ''test-org'' then Inr \<lparr>Org_Name = ''test-org'', Org_Guid = ''org-guid''\<rparr>
         else Inl (Error ''org not found'')),
      GetOrgGUID = (\<lambda>h orgName.
         if orgName = ''test-org'' then Inr ''org-guid'' else Inl (Error ''org not found''))\<rparr>"

definition exUaa :: UaaUsers where
  "exUaa =
     [(''alice'', \<lparr>Uaa_Username = ''alice'', Uaa_Emails = [''alice@x.io''], Uaa_ExternalID = [],
                  Uaa_Origin = ''ldap''\<rparr>),
      (''bob'', \<lparr>Uaa_Username = ''bob'', Uaa_Emails = [''bob@x.io''], Uaa_ExternalID = [],
                Uaa_Origin = ''uaa''\<rparr>),
      (''carol'', \<lparr>Uaa_Username = ''carol'', Uaa_Emails = [''carol@x.io''], Uaa_ExternalID = [],
                  Uaa_Origin = ''uaa''\<rparr>),
      (''gina'', \<lparr>Uaa_Username = ''gina'', Uaa_Emails = [''gina@x.io''], Uaa_ExternalID = [],
                 Uaa_Origin = ''ldap''\<rparr>)]"

definition exRole :: "string list \<Rightarrow> UserMgmt" where
  "exRole samlUsers = \<lparr>um_LDAPUsers = [], um_Users = [], um_SamlUsers = samlUsers, um_Groups = []\<rparr>"

definition exSpaceConfig :: SpaceConfig where
  "exSpaceConfig =
     \<lparr>sc_Org = ''test-org'', sc_Space = ''dev'',
      sc_Developer = exRole [''sam@x.io''], sc_Manager = exRole [''sam@x.io''],
      sc_Auditor = exRole [], sc_RemoveUsers = False\<rparr>"

definition exOrgConfig :: "bool \<Rightarrow> OrgConfig" where
  "exOrgConfig flag =
     \<lparr>oc_Org = ''test-org'', oc_BillingManager = exRole [], oc_Manager = exRole [],
      oc_Auditor = exRole [], oc_RemoveUsers = flag\<rparr>"

definition exM :: "bool \<Rightarrow> DefaultManager" where
  "exM peek =
     \<lparr>Client = exClient,
      Cfg = \<lparr>GetOrgConfigs = (\<lambda>h. Inr [exOrgConfig False]),
             GetSpaceConfigs = (\<lambda>h. Inr [exSpaceConfig])\<rparr>,
      SpaceMgr = \<lparr>space_Client = exClient, space_OrgMgr = exOrgMgr, space_Peek = peek\<rparr>,
      OrgMgr = exOrgMgr,
      UAAMgr = \<lparr>UAA_ListUsers_resp = (\<lambda>h. Inr exUaa),
                CreateExternalUser = (\<lambda>h userName userEmail externalID origin.
                   if userName = ''bad@x.io'' then Some (Error ''cannot create user'') else None)\<rparr>,
      Peek = peek,
      LdapMgr = \<lparr>resolveMembers = (\<lambda>h groupNames.
                   if groupNames = [''space-devs'']
                   then Inr [\<lparr>ir_username = ''alice'', ir_identifier = ''a1'',
                              ir_email = ''alice@x.io'', ir_origin = ''ldap''\<rparr>,
                             \<lparr>ir_username = ''gina'', ir_identifier = ''g1'',
                              ir_email = ''gina@x.io'', ir_origin = ''ldap''\<rparr>]
                   else Inr [])\<rparr>,
      LdapConfig = \<lparr>Origin = ''saml''\<rparr>\<rparr>"

text \<open>
  The developer binding of space \<open>dev\<close>, for given desired users and removal flag.
\<close>

definition exInput :: "string list \<Rightarrow> string list \<Rightarrow> string list \<Rightarrow> bool \<Rightarrow> UpdateUsersInput" where
  "exInput groups users samlUsers removeUsers =
     \<lparr>SpaceGUID = ''dev-guid'', OrgGUID = ''org-guid'', SpaceName = ''dev'', OrgName = ''test-org'',
      LdapGroupNames = groups, LdapUsers = [], Users = users, SamlUsers = samlUsers,
      RemoveUsers_flag = removeUsers,
      ListUsers = Bound_listSpaceDevelopers, RemoveUser = Bound_RemoveSpaceDeveloper,
      AddUser = Bound_AssociateSpaceDeveloper\<rparr>"

text \<open>The auditor binding of space \<open>dev\<close>, for given federated users and removal flag.\<close>

definition exAuditorInput :: "string list \<Rightarrow> bool \<Rightarrow> UpdateUsersInput" where
  "exAuditorInput samlUsers removeUsers =
     \<lparr>SpaceGUID = ''dev-guid'', OrgGUID = ''org-guid'', SpaceName = ''dev'', OrgName = ''test-org'',
      LdapGroupNames = [], LdapUsers = [], Users = [], SamlUsers = samlUsers,
      RemoveUsers_flag = removeUsers,
      ListUsers = Bound_listSpaceAuditors, RemoveUser = Bound_RemoveSpaceAuditor,
      AddUser = Bound_AssociateSpaceAuditor\<rparr>"

section \<open>Basic facts\<close>

lemma Contains_sublist: "Contains s substr \<longleftrightarrow> sublist substr s"
  by (induction s) (auto simp: sublist_Cons_right)

lemma snd_andThen: "snd (andThen f g h) = snd (f h) @ snd (g (fst (f h)) (h @ snd (f h)))"
  by (simp add: andThen_def split: prod.splits)

lemma fst_andThen: "fst (andThen f g h) = fst (g (fst (f h)) (h @ snd (f h)))"
  by (simp add: andThen_def split: prod.splits)

lemmas list_defs = ListSpaceAuditors_def ListSpaceDevelopers_def ListSpaceManagers_def
  ListOrgAuditors_def ListOrgBillingManagers_def ListOrgManagers_def

lemmas ex_defs = exM_def exClient_def exOrgMgr_def exSpace_def

section \<open>Listing the holders of a role on a placeholder\<close>



section \<open>Looking up a space that does not exist\<close>

lemma Contains_append_left: "Contains t substr \<Longrightarrow> Contains (s @ t) substr"
  unfolding Contains_sublist by (metis append.assoc sublist_def)

lemma Sprintf_space_guid: "Sprintf ''%s-dry-run-space-guid'' [spaceName] = spaceName @ ''-dry-run-space-guid''"
  by simp

lemma Sprintf_org_guid: "Sprintf ''%s-dry-run-org-guid'' [orgName] = orgName @ ''-dry-run-org-guid''"
  by simp

lemma FindSpace_missing:
  assumes "GetOrgGUID (space_OrgMgr sm) h orgName = Inr orgGUID"
    and "ListSpacesByQuery (space_Client sm) (h @ [Org_GetOrgGUID orgName True]) orgGUID = Inr spaces"
    and "find (\<lambda>theSpace. Space_Name theSpace = spaceName) spaces = None"
  shows "FindSpace sm orgName spaceName h =
           (if space_Peek sm
            then Inr \<lparr>Space_Name = spaceName, Space_Guid = spaceName @ ''-dry-run-space-guid'',
                      Space_OrganizationGuid = orgName @ ''-dry-run-org-guid'', Space_AllowSSH = False\<rparr>
            else Inl (Errorf ''space [%s] not found in org [%s]'' [spaceName, orgName]),
            [Org_GetOrgGUID orgName True, CF_ListSpacesByQuery orgGUID True])"
  using assms
  by (simp add: FindSpace_def ListSpaces_def andThen_def ret_def OrgMgr_GetOrgGUID_def
      Client_ListSpacesByQuery_def Let_def Sprintf_space_guid Sprintf_org_guid del: Sprintf.simps)

text \<open>
  C9. When the org is found, its spaces are listed and none has the name looked up:
  in dry-run \<open>FindSpace\<close> succeeds with a placeholder whose GUIDs are the space name
  and the org name followed by fixed suffixes, and listing the developers, managers or
  auditors of that placeholder in dry-run returns the empty membership without any
  call; outside dry-run the same lookup fails with the not-found error.
\<close>

theorem dry_run_placeholder_space:
  assumes "GetOrgGUID (space_OrgMgr sm) h orgName = Inr orgGUID"
    and "ListSpacesByQuery (space_Client sm) (h @ [Org_GetOrgGUID orgName True]) orgGUID = Inr spaces"
    and "find (\<lambda>theSpace. Space_Name theSpace = spaceName) spaces = None"
  shows "(space_Peek sm \<longrightarrow>
            fst (FindSpace sm orgName spaceName h) =
              Inr \<lparr>Space_Name = spaceName, Space_Guid = spaceName @ ''-dry-run-space-guid'',
                   Space_OrganizationGuid = orgName @ ''-dry-run-org-guid'', Space_AllowSSH = False\<rparr>) \<and>
         (Peek m \<longrightarrow>
            ListSpaceDevelopers m (spaceName @ ''-dry-run-space-guid'') h' = (Inr [], []) \<and>
            ListSpaceManagers m (spaceName @ ''-dry-run-space-guid'') h' = (Inr [], []) \<and>
            ListSpaceAuditors m (spaceName @ ''-dry-run-space-guid'') h' = (Inr [], [])) \<and>
         (\<not> space_Peek sm \<longrightarrow>
            fst (FindSpace sm orgName spaceName h) =
              Inl (Errorf ''space [%s] not found in org [%s]'' [spaceName, orgName]))"
proof -
  have "Contains (spaceName @ ''-dry-run-space-guid'') ''dry-run-space-guid''"
    by (rule Contains_append_left) simp
  then show ?thesis
    using FindSpace_missing [OF assms]
    by (simp add: list_defs ret_def del: Sprintf.simps)
qed

theorem dry_run_placeholder_space_witness:
  "GetOrgGUID (space_OrgMgr (SpaceMgr (exM True))) [] ''test-org'' = Inr ''org-guid'' \<and>
   ListSpacesByQuery (space_Client (SpaceMgr (exM True))) ([] @ [Org_GetOrgGUID ''test-org'' True]) ''org-guid''
     = Inr [exSpace] \<and>
   find (\<lambda>theSpace. Space_Name theSpace = ''qa'') [exSpace] = None \<and>
   space_Peek (SpaceMgr (exM True)) \<and> Peek (exM True) \<and>
   fst (FindSpace (SpaceMgr (exM True)) ''test-org'' ''qa'' []) =
     Inr \<lparr>Space_Name = ''qa'', Space_Guid = ''qa-dry-run-space-guid'',
          Space_OrganizationGuid = ''test-org-dry-run-org-guid'', Space_AllowSSH = False\<rparr> \<and>
   ListSpaceDevelopers (exM True) ''qa-dry-run-space-guid'' [] = (Inr [], []) \<and>
   \<not> space_Peek (SpaceMgr (exM False)) \<and>
   fst (FindSpace (SpaceMgr (exM False)) ''test-org'' ''qa'' []) =
     Inl (Error ''space [qa] not found in org [test-org]'')"
proof -
  have a: "GetOrgGUID (space_OrgMgr (SpaceMgr (exM b))) [] ''test-org'' = Inr ''org-guid''"
    and b: "ListSpacesByQuery (space_Client (SpaceMgr (exM b))) ([] @ [Org_GetOrgGUID ''test-org'' True]) ''org-guid''
              = Inr [exSpace]"
    and c: "find (\<lambda>theSpace. Space_Name theSpace = ''qa'') [exSpace] = None"
    and p: "space_Peek (SpaceMgr (exM b)) = b" "Peek (exM b) = b" for b
    by (simp_all add: ex_defs)
  from a [of True] b [of True] c p [of True] p [of False]
    dry_run_placeholder_space [OF a [of True] b [of True] c, of "exM True" "[]"]
    dry_run_placeholder_space [OF a [of False] b [of False] c, of "exM False" "[]"]
  show ?thesis by (simp add: Errorf_def)
qed

section \<open>Events of the role operations\<close>

lemmas assoc_defs = AssociateSpaceAuditor_def AssociateSpaceDeveloper_def AssociateSpaceManager_def
  AssociateOrgAuditor_def AssociateOrgBillingManager_def AssociateOrgManager_def

lemmas remove_defs = RemoveSpaceAuditor_def RemoveSpaceDeveloper_def RemoveSpaceManager_def
  RemoveOrgAuditor_def RemoveOrgBillingManager_def RemoveOrgManager_def

lemmas lower_list_defs = listSpaceAuditors_def listSpaceDevelopers_def listSpaceManagers_def
  listOrgAuditors_def listOrgBillingManagers_def listOrgManagers_def

lemmas call_defs = Client_ListRoleUsers_def Client_AssociateRoleByUsername_def
  Client_RemoveRoleByUsername_def Client_AssociateOrgUserByUsername_def Client_ListOrgUsers_def
  Client_RemoveOrgUserByUsername_def Client_ListSpacesByQuery_def UAAMgr_ListUsers_def
  UAAMgr_CreateExternalUser_def OrgMgr_FindOrg_def OrgMgr_GetOrgGUID_def Cfg_GetOrgConfigs_call_def
  Cfg_GetSpaceConfigs_call_def Ldap_resolveMembers_call_def

lemma callAddUser_peek:
  "Peek m \<Longrightarrow>
   \<exists>f args. callAddUser m input userName h = (None, [LogInfof f args]) \<and>
     Contains f ''to role'' \<and> \<not> Contains f ''from org''"
  by (simp add: assoc_defs AddUserToOrg_def andThen_def ret_def emit_def split: AddOp.splits)

lemma callAddUser_org_failed:
  "\<not> Peek m \<Longrightarrow> AssociateOrgUserByUsername (Client m) h (OrgGUID input) userName = Some e \<Longrightarrow>
   callAddUser m input userName h = (Some e, [CF_AssociateOrgUser (OrgGUID input) userName False])"
  by (simp add: assoc_defs AddUserToOrg_def andThen_def ret_def emit_def call_defs split: AddOp.splits)

lemma callAddUser_org_ok:
  "\<not> Peek m \<Longrightarrow> AssociateOrgUserByUsername (Client m) h (OrgGUID input) userName = None \<Longrightarrow>
   \<exists>f args r guid res.
     callAddUser m input userName h =
       (res, [CF_AssociateOrgUser (OrgGUID input) userName True, LogInfof f args,
              CF_AssociateRole r guid userName (res = None)]) \<and>
     Contains f ''to role'' \<and> \<not> Contains f ''from org'' \<and>
     res = AssociateRoleByUsername (Client m)
             (h @ [CF_AssociateOrgUser (OrgGUID input) userName True, LogInfof f args]) r guid userName"
  by (simp add: assoc_defs AddUserToOrg_def andThen_def ret_def emit_def call_defs Let_def split: AddOp.splits)

lemma callAddUser_cases:
  obtains (peek) f args where "Peek m" "callAddUser m input userName h = (None, [LogInfof f args])"
      "Contains f ''to role''" "\<not> Contains f ''from org''"
  | (org_failed) e where "\<not> Peek m"
      "callAddUser m input userName h = (Some e, [CF_AssociateOrgUser (OrgGUID input) userName False])"
  | (org_ok) f args r guid res where "\<not> Peek m"
      "callAddUser m input userName h =
         (res, [CF_AssociateOrgUser (OrgGUID input) userName True, LogInfof f args,
                CF_AssociateRole r guid userName (res = None)])"
      "Contains f ''to role''" "\<not> Contains f ''from org''"
proof (cases "Peek m")
  case True
  with callAddUser_peek [of m input userName h] peek show ?thesis by blast
next
  case False
  show ?thesis
  proof (cases "AssociateOrgUserByUsername (Client m) h (OrgGUID input) userName")
    case None
    with False callAddUser_org_ok [of m h input userName] org_ok show ?thesis by blast
  next
    case (Some e)
    with False callAddUser_org_failed [of m h input userName e] org_failed show ?thesis by blast
  qed
qed

lemma callAddUser_is_add: "list_all is_add (snd (callAddUser m input userName h))"
  by (cases rule: callAddUser_cases [of m input userName h]) simp_all

lemma callAddUser_org_first: "org_first seen (snd (callAddUser m input userName h))"
  by (cases rule: callAddUser_cases [of m input userName h]) simp_all

section \<open>Properties of the events of a reconciliation that compose\<close>

text \<open>
  A property \<open>Q\<close> of event lists that holds of the empty list and of a concatenation
  when it holds of both parts holds of the events of a loop when it holds of the events
  of each call in it.
\<close>

lemma andThen_Q:
  assumes "\<And>a b. Q a \<Longrightarrow> Q b \<Longrightarrow> Q (a @ b)" and "Q (snd (f h))" and "\<And>a h'. Q (snd (g a h'))"
  shows "Q (snd (andThen f g h))"
  by (simp add: snd_andThen assms)

lemma SyncInternalUsers_loop_Q:
  assumes nil: "Q []" and app: "\<And>a b. Q a \<Longrightarrow> Q b \<Longrightarrow> Q (a @ b)"
    and add: "\<And>u h. Q (snd (callAddUser m input u h))"
  shows "Q (snd (SyncInternalUsers_loop m uaaUsers input us roleUsers h))"
proof (induction us arbitrary: roleUsers h)
  case Nil
  show ?case by (simp add: ret_def nil)
next
  case (Cons u us)
  show ?case
    by (auto simp add: Let_def ret_def nil Cons add simp del: callAddUser.simps
        intro!: andThen_Q [of Q] app split: option.splits)
qed

lemma SyncSamlUsers_provision_present:
  "map_of uaaUsers (ToLower u) \<noteq> None \<Longrightarrow> SyncSamlUsers_provision m u uaaUsers h = ((True, uaaUsers), [])"
  by (auto simp add: SyncSamlUsers_provision_def ret_def Let_def)

lemma SyncSamlUsers_provision_Q:
  assumes nil: "Q []" and app: "\<And>a b. Q a \<Longrightarrow> Q b \<Longrightarrow> Q (a @ b)"
    and create: "\<And>a b c d ok. Q [UAA_CreateExternalUser a b c d ok]"
    and logerr: "\<And>args. Q [LogError args]"
  shows "Q (snd (SyncSamlUsers_provision m userEmail uaaUsers h))"
  by (auto simp add: SyncSamlUsers_provision_def Let_def ret_def emit_def nil create logerr
      UAAMgr_CreateExternalUser_def intro!: andThen_Q [of Q] app split: option.splits)

lemma SyncSamlUsers_loop_Q:
  assumes nil: "Q []" and app: "\<And>a b. Q a \<Longrightarrow> Q b \<Longrightarrow> Q (a @ b)"
    and add: "\<And>u h. Q (snd (callAddUser m input u h))"
    and create: "\<And>a b c d ok. Q [UAA_CreateExternalUser a b c d ok]"
    and logerr: "\<And>args. Q [LogError args]"
  shows "Q (snd (SyncSamlUsers_loop m input us roleUsers uaaUsers h))"
proof (induction us arbitrary: roleUsers uaaUsers h)
  case Nil
  show ?case by (simp add: ret_def nil)
next
  case (Cons u us)
  note prov = SyncSamlUsers_provision_Q [of Q, OF nil app create logerr]
  show ?case
    by (auto simp add: ret_def nil Cons add prov simp del: callAddUser.simps
        intro!: andThen_Q [of Q] app split: option.splits)
qed

lemma RemoveUsers_loop_Q:
  assumes nil: "Q []" and app: "\<And>a b. Q a \<Longrightarrow> Q b \<Longrightarrow> Q (a @ b)"
    and remove: "\<And>u h. Q (snd (callRemoveUser m input u h))"
  shows "Q (snd (RemoveUsers_loop m input us h))"
proof (induction us arbitrary: h)
  case Nil
  show ?case by (simp add: ret_def nil)
next
  case (Cons u us)
  show ?case
    by (auto simp add: ret_def nil Cons remove simp del: callRemoveUser.simps
        intro!: andThen_Q [of Q] app split: option.splits)
qed

lemma SyncUsers_Q:
  assumes nil: "Q []" and app: "\<And>a b. Q a \<Longrightarrow> Q b \<Longrightarrow> Q (a @ b)"
    and list: "\<And>h. Q (snd (callListUsers m input h))"
    and resolve: "\<And>groupNames ok. Q [Ldap_ResolveMembers groupNames ok]"
    and add: "\<And>u h. Q (snd (callAddUser m input u h))"
    and create: "\<And>a b c d ok. Q [UAA_CreateExternalUser a b c d ok]"
    and logerr: "\<And>args. Q [LogError args]"
    and remove: "\<And>u h. RemoveUsers_flag input \<Longrightarrow> Q (snd (callRemoveUser m input u h))"
  shows "Q (snd (SyncUsers m uaaUsers input h))"
proof -
  note internal = SyncInternalUsers_loop_Q [of Q, OF nil app add]
  note saml = SyncSamlUsers_loop_Q [of Q, OF nil app add create logerr]
  have ldap: "Q (snd (SyncLdapUsers m roleUsers uaaUsers input h'))" for roleUsers h'
    by (auto simp add: SyncLdapUsers_def Ldap_resolveMembers_call_def Let_def ret_def nil resolve internal
        intro!: andThen_Q [of Q] app split: sum.splits)
  have rem: "Q (snd (RemoveUsers m roleUsers input h'))" for roleUsers h'
    by (simp add: RemoveUsers_def ret_def nil RemoveUsers_loop_Q [of Q, OF nil app remove])
  show ?thesis
    unfolding SyncUsers_def SyncInternalUsers_def SyncSamlUsers_def
    by (auto simp add: ret_def nil list ldap internal saml rem simp del: callListUsers.simps
        intro!: andThen_Q [of Q] app split: sum.splits option.splits)
qed

lemma callRemoveUser_cases:
  obtains (peek) f args where "Peek m" "callRemoveUser m input userName h = (None, [LogInfof f args])"
      "Contains f ''from org''" "\<not> Contains f ''to role''"
  | (call) f args r guid res where "\<not> Peek m"
      "callRemoveUser m input userName h = (res, [LogInfof f args, CF_RemoveRole r guid userName (res = None)])"
      "Contains f ''from org''" "\<not> Contains f ''to role''"
proof (cases "Peek m")
  case True
  then have "\<exists>f args. callRemoveUser m input userName h = (None, [LogInfof f args]) \<and>
      Contains f ''from org'' \<and> \<not> Contains f ''to role''"
    by (simp add: remove_defs andThen_def ret_def emit_def split: RemoveOp.splits)
  with True peek show ?thesis by blast
next
  case False
  then have "\<exists>f args r guid res.
      callRemoveUser m input userName h = (res, [LogInfof f args, CF_RemoveRole r guid userName (res = None)]) \<and>
      Contains f ''from org'' \<and> \<not> Contains f ''to role''"
    by (simp add: remove_defs andThen_def ret_def emit_def call_defs Let_def split: RemoveOp.splits)
  with False call show ?thesis by blast
qed

lemma ListSpaceAuditors_shape:
  "(Peek m \<and> ListSpaceAuditors m guid h = (Inr [], [])) \<or>
   (\<exists>e. ListSpaceAuditors m guid h = (Inl e, [CF_ListRoleUsers SpaceAuditor guid False])) \<or>
   (\<exists>users. ListSpaceAuditors m guid h = (Inr (userListToMap users), [CF_ListRoleUsers SpaceAuditor guid True]))"
  by (cases "ListRoleUsers (Client m) h SpaceAuditor guid")
    (auto simp add: ListSpaceAuditors_def andThen_def ret_def Client_ListRoleUsers_def Let_def)

lemma ListSpaceDevelopers_shape:
  "(Peek m \<and> ListSpaceDevelopers m guid h = (Inr [], [])) \<or>
   (\<exists>e. ListSpaceDevelopers m guid h = (Inl e, [CF_ListRoleUsers SpaceDeveloper guid False])) \<or>
   (\<exists>users. ListSpaceDevelopers m guid h = (Inr (userListToMap users), [CF_ListRoleUsers SpaceDeveloper guid True]))"
  by (cases "ListRoleUsers (Client m) h SpaceDeveloper guid")
    (auto simp add: ListSpaceDevelopers_def andThen_def ret_def Client_ListRoleUsers_def Let_def)

lemma ListSpaceManagers_shape:
  "(Peek m \<and> ListSpaceManagers m guid h = (Inr [], [])) \<or>
   (\<exists>e. ListSpaceManagers m guid h = (Inl e, [CF_ListRoleUsers SpaceManager guid False])) \<or>
   (\<exists>users. ListSpaceManagers m guid h = (Inr (userListToMap users), [CF_ListRoleUsers SpaceManager guid True]))"
  by (cases "ListRoleUsers (Client m) h SpaceManager guid")
    (auto simp add: ListSpaceManagers_def andThen_def ret_def Client_ListRoleUsers_def Let_def)

lemma ListOrgAuditors_shape:
  "(Peek m \<and> ListOrgAuditors m guid h = (Inr [], [])) \<or>
   (\<exists>e. ListOrgAuditors m guid h = (Inl e, [CF_ListRoleUsers OrgAuditor guid False])) \<or>
   (\<exists>users. ListOrgAuditors m guid h = (Inr (userListToMap users), [CF_ListRoleUsers OrgAuditor guid True]))"
  by (cases "ListRoleUsers (Client m) h OrgAuditor guid")
    (auto simp add: ListOrgAuditors_def andThen_def ret_def Client_ListRoleUsers_def Let_def)

lemma ListOrgBillingManagers_shape:
  "(Peek m \<and> ListOrgBillingManagers m guid h = (Inr [], [])) \<or>
   (\<exists>e. ListOrgBillingManagers m guid h = (Inl e, [CF_ListRoleUsers OrgBillingManager guid False])) \<or>
   (\<exists>users. ListOrgBillingManagers m guid h = (Inr (userListToMap users), [CF_ListRoleUsers OrgBillingManager guid True]))"
  by (cases "ListRoleUsers (Client m) h OrgBillingManager guid")
    (auto simp add: ListOrgBillingManagers_def andThen_def ret_def Client_ListRoleUsers_def Let_def)

lemma ListOrgManagers_shape:
  "(Peek m \<and> ListOrgManagers m guid h = (Inr [], [])) \<or>
   (\<exists>e. ListOrgManagers m guid h = (Inl e, [CF_ListRoleUsers OrgManager guid False])) \<or>
   (\<exists>users. ListOrgManagers m guid h = (Inr (userListToMap users), [CF_ListRoleUsers OrgManager guid True]))"
  by (cases "ListRoleUsers (Client m) h OrgManager guid")
    (auto simp add: ListOrgManagers_def andThen_def ret_def Client_ListRoleUsers_def Let_def)

lemma callListUsers_cases:
  obtains (skipped) "Peek m" "callListUsers m input h = (Inr [], [])"
  | (failed) r guid e where "callListUsers m input h = (Inl e, [CF_ListRoleUsers r guid False])"
  | (listed) r guid users where
      "callListUsers m input h = (Inr (userListToMap users), [CF_ListRoleUsers r guid True])"
proof -
  have "(Peek m \<and> callListUsers m input h = (Inr [], [])) \<or>
        (\<exists>r guid e. callListUsers m input h = (Inl e, [CF_ListRoleUsers r guid False])) \<or>
        (\<exists>r guid users. callListUsers m input h = (Inr (userListToMap users), [CF_ListRoleUsers r guid True]))"
  proof (cases "ListUsers input")
    case Bound_listSpaceDevelopers
    with ListSpaceDevelopers_shape [of m "SpaceGUID input" h] show ?thesis
      by (simp add: listSpaceDevelopers_def) blast
  next
    case Bound_listSpaceManagers
    with ListSpaceManagers_shape [of m "SpaceGUID input" h] show ?thesis
      by (simp add: listSpaceManagers_def) blast
  next
    case Bound_listSpaceAuditors
    with ListSpaceAuditors_shape [of m "SpaceGUID input" h] show ?thesis
      by (simp add: listSpaceAuditors_def) blast
  next
    case Bound_listOrgBillingManagers
    with ListOrgBillingManagers_shape [of m "OrgGUID input" h] show ?thesis
      by (simp add: listOrgBillingManagers_def) blast
  next
    case Bound_listOrgAuditors
    with ListOrgAuditors_shape [of m "OrgGUID input" h] show ?thesis
      by (simp add: listOrgAuditors_def) blast
  next
    case Bound_listOrgManagers
    with ListOrgManagers_shape [of m "OrgGUID input" h] show ?thesis
      by (simp add: listOrgManagers_def) blast
  qed
  with skipped failed listed show ?thesis by blast
qed

lemma callAddUser_list_all:
  assumes "\<And>orgGUID u ok. P (CF_AssociateOrgUser orgGUID u ok)"
    and "\<And>r guid u ok. P (CF_AssociateRole r guid u ok)"
    and "\<And>f args. Contains f ''to role'' \<Longrightarrow> \<not> Contains f ''from org'' \<Longrightarrow> P (LogInfof f args)"
  shows "list_all P (snd (callAddUser m input userName h))"
  by (cases rule: callAddUser_cases [of m input userName h]) (simp_all add: assms)

lemma callRemoveUser_list_all:
  assumes "\<And>r guid u ok. P (CF_RemoveRole r guid u ok)"
    and "\<And>f args. Contains f ''from org'' \<Longrightarrow> \<not> Contains f ''to role'' \<Longrightarrow> P (LogInfof f args)"
  shows "list_all P (snd (callRemoveUser m input userName h))"
  by (cases rule: callRemoveUser_cases [of m input userName h]) (simp_all add: assms)

lemma callListUsers_list_all:
  assumes "\<And>r guid ok. P (CF_ListRoleUsers r guid ok)"
  shows "list_all P (snd (callListUsers m input h))"
  by (cases rule: callListUsers_cases [of m input h]) (simp_all add: assms)

lemma SyncUsers_list_all:
  assumes "\<And>r guid ok. P (CF_ListRoleUsers r guid ok)"
    and "\<And>groupNames ok. P (Ldap_ResolveMembers groupNames ok)"
    and "\<And>orgGUID u ok. P (CF_AssociateOrgUser orgGUID u ok)"
    and "\<And>r guid u ok. P (CF_AssociateRole r guid u ok)"
    and "\<And>f args. Contains f ''to role'' \<Longrightarrow> \<not> Contains f ''from org'' \<Longrightarrow> P (LogInfof f args)"
    and "\<And>a b c d ok. P (UAA_CreateExternalUser a b c d ok)"
    and "\<And>args. P (LogError args)"
    and "\<And>r guid u ok. RemoveUsers_flag input \<Longrightarrow> P (CF_RemoveRole r guid u ok)"
    and "\<And>f args. RemoveUsers_flag input \<Longrightarrow> Contains f ''from org'' \<Longrightarrow> \<not> Contains f ''to role'' \<Longrightarrow>
           P (LogInfof f args)"
  shows "list_all P (snd (SyncUsers m uaaUsers input h))"
  by (rule SyncUsers_Q [of "list_all P"])
    (simp_all add: assms callAddUser_list_all callRemoveUser_list_all callListUsers_list_all
      del: callAddUser.simps callRemoveUser.simps callListUsers.simps)

section \<open>Removal is gated by the flag\<close>

text \<open>
  C5. When \<open>RemoveUsers\<close> is false in the input, \<open>RemoveUsers\<close> returns without any event,
  whatever is left in \<open>roleUsers\<close>, and the whole reconciliation \<open>SyncUsers\<close> records no
  remove event: no removal call and no removal line.
\<close>

theorem no_remove_without_flag:
  assumes "\<not> RemoveUsers_flag input"
  shows "RemoveUsers m roleUsers input h = (None, []) \<and>
         list_all (\<lambda>e. \<not> is_remove e) (snd (SyncUsers m uaaUsers input h'))"
proof
  show "RemoveUsers m roleUsers input h = (None, [])"
    using assms by (simp add: RemoveUsers_def ret_def)
  show "list_all (\<lambda>e. \<not> is_remove e) (snd (SyncUsers m uaaUsers input h'))"
    by (rule SyncUsers_list_all) (simp_all add: assms)
qed

theorem no_remove_without_flag_witness:
  "\<not> RemoveUsers_flag (exInput [''space-devs''] [''bob''] [] False) \<and>
   RemoveUsers (exM False) [(''carol'', ''c1'')] (exInput [''space-devs''] [''bob''] [] False) [] = (None, []) \<and>
   list_all (\<lambda>e. \<not> is_remove e)
     (snd (SyncUsers (exM False) exUaa (exInput [''space-devs''] [''bob''] [] False) []))"
  using no_remove_without_flag [of "exInput [''space-devs''] [''bob''] [] False" "exM False"
      "[(''carol'', ''c1'')]" "[]" exUaa "[]"]
  by (simp add: exInput_def)

section \<open>Two-phase add\<close>

lemma org_first_mono: "org_first seen evs \<Longrightarrow> set seen \<subseteq> set seen' \<Longrightarrow> org_first seen' evs"
proof (induction seen evs arbitrary: seen' rule: org_first.induct)
  case (2 seen orgGUID userName ok es)
  from "2.prems" have "set (if ok then userName # seen else seen) \<subseteq> set (if ok then userName # seen' else seen')"
    by auto
  with 2 show ?case by simp
qed auto

lemma org_first_append: "org_first seen a \<Longrightarrow> org_first seen b \<Longrightarrow> org_first seen (a @ b)"
proof (induction seen a rule: org_first.induct)
  case (2 seen orgGUID userName ok es)
  have "org_first (if ok then userName # seen else seen) b"
    by (rule org_first_mono [OF "2.prems"(2)]) auto
  with 2 show ?case by simp
qed auto

lemma SyncUsers_org_first: "org_first [] (snd (SyncUsers m uaaUsers input h))"
proof (rule SyncUsers_Q [of "org_first []"])
  show "org_first [] (snd (callListUsers m input h'))" for h'
    by (cases rule: callListUsers_cases [of m input h']) simp_all
  show "org_first [] (snd (callRemoveUser m input u h'))" for u h'
    by (cases rule: callRemoveUser_cases [of m input u h']) simp_all
qed (simp_all add: org_first_append callAddUser_org_first del: callAddUser.simps)

text \<open>
  C7. Adding a user to any of the six roles is two-phase. Outside dry-run the first
  event of the add is the org association call for that user; when it fails the add
  returns its error and issues nothing else; when it succeeds the info line and the
  role association call for the same user follow. In dry-run the org association step
  is a no-op and the add only logs. In both modes no role association call is issued
  for a user without an earlier successful org association call for that user, in
  a single add and in the events of a whole reconciliation.
\<close>

theorem two_phase_add:
  "(\<not> Peek m \<and> AssociateOrgUserByUsername (Client m) h (OrgGUID input) userName = Some e \<longrightarrow>
      callAddUser m input userName h = (Some e, [CF_AssociateOrgUser (OrgGUID input) userName False])) \<and>
   (\<not> Peek m \<and> AssociateOrgUserByUsername (Client m) h (OrgGUID input) userName = None \<longrightarrow>
      (\<exists>f args r guid ok.
         snd (callAddUser m input userName h) =
           [CF_AssociateOrgUser (OrgGUID input) userName True, LogInfof f args,
            CF_AssociateRole r guid userName ok])) \<and>
   (Peek m \<longrightarrow> (\<exists>f args. callAddUser m input userName h = (None, [LogInfof f args]))) \<and>
   org_first [] (snd (callAddUser m input userName h)) \<and>
   org_first [] (snd (SyncUsers m uaaUsers input h))"
proof -
  have "\<exists>f args r guid ok.
         snd (callAddUser m input userName h) =
           [CF_AssociateOrgUser (OrgGUID input) userName True, LogInfof f args,
            CF_AssociateRole r guid userName ok]"
    if "\<not> Peek m" "AssociateOrgUserByUsername (Client m) h (OrgGUID input) userName = None"
    using callAddUser_org_ok [OF that] by fastforce
  moreover have "\<exists>f args. callAddUser m input userName h = (None, [LogInfof f args])" if "Peek m"
    using callAddUser_peek [OF that, of input userName h] by blast
  ultimately show ?thesis
    using callAddUser_org_failed [of m h input userName e] callAddUser_org_first [of "[]" m input userName h]
      SyncUsers_org_first [of m uaaUsers input h]
    by blast
qed

theorem two_phase_add_witness:
  "\<not> Peek (exM False) \<and>
   AssociateOrgUserByUsername (Client (exM False)) [] (OrgGUID (exInput [] [] [] False)) ''banned''
     = Some (Error ''user banned'') \<and>
   callAddUser (exM False) (exInput [] [] [] False) ''banned'' [] =
     (Some (Error ''user banned''), [CF_AssociateOrgUser ''org-guid'' ''banned'' False]) \<and>
   AssociateOrgUserByUsername (Client (exM False)) [] (OrgGUID (exInput [] [] [] False)) ''bob'' = None \<and>
   (\<exists>f args r guid ok.
      snd (callAddUser (exM False) (exInput [] [] [] False) ''bob'' []) =
        [CF_AssociateOrgUser ''org-guid'' ''bob'' True, LogInfof f args, CF_AssociateRole r guid ''bob'' ok]) \<and>
   Peek (exM True) \<and>
   (\<exists>f args. callAddUser (exM True) (exInput [] [] [] False) ''bob'' [] = (None, [LogInfof f args])) \<and>
   org_first [] (snd (callAddUser (exM False) (exInput [] [] [] False) ''bob'' [])) \<and>
   org_first [] (snd (SyncUsers (exM False) exUaa (exInput [] [] [] False) []))"
proof -
  have a: "\<not> Peek (exM False)" "Peek (exM True)" "OrgGUID (exInput [] [] [] False) = ''org-guid''"
    "AssociateOrgUserByUsername (Client (exM False)) [] ''org-guid'' ''banned'' = Some (Error ''user banned'')"
    "AssociateOrgUserByUsername (Client (exM False)) [] ''org-guid'' ''bob'' = None"
    by (simp_all add: ex_defs exInput_def)
  from a
    two_phase_add [of "exM False" "[]" "exInput [] [] [] False" "''banned''" "Error ''user banned''"]
    two_phase_add [of "exM False" "[]" "exInput [] [] [] False" "''bob''" _ exUaa]
    two_phase_add [of "exM True" "[]" "exInput [] [] [] False" "''bob''"]
  show ?thesis by simp
qed



section \<open>The cleanup pass\<close>

text \<open>
  C1. In the example platform Alice and carol hold the developer role of space \<open>dev\<close>
  and no other role. The cleanup pass lists the auditors of the space twice and never
  its developers, and removes both from the org.
\<close>

theorem cleanup_removes_space_developers:
  "ListRoleUsers (Client (exM False)) [] SpaceDeveloper ''dev-guid'' =
     Inr [\<lparr>User_Username = ''Alice'', User_Guid = ''a1''\<rparr>, \<lparr>User_Username = ''carol'', User_Guid = ''c1''\<rparr>] \<and>
   cleanupOrgUsers (exM False) (exOrgConfig True) [] =
     (None,
      [Org_FindOrg ''test-org'' True, CF_ListOrgUsers ''org-guid'' True,
       CF_ListRoleUsers OrgAuditor ''org-guid'' True,
       CF_ListRoleUsers OrgManager ''org-guid'' True,
       CF_ListRoleUsers OrgBillingManager ''org-guid'' True,
       CF_ListSpacesByQuery ''org-guid'' True,
       CF_ListRoleUsers SpaceAuditor ''dev-guid'' True,
       CF_ListRoleUsers SpaceAuditor ''dev-guid'' True,
       CF_ListRoleUsers SpaceManager ''dev-guid'' True,
       LogInfof ''Removing User %s from org %s'' [''Alice'', ''test-org''],
       CF_RemoveOrgUser ''org-guid'' ''Alice'' True,
       LogInfof ''Removing User %s from org %s'' [''carol'', ''test-org''],
       CF_RemoveOrgUser ''org-guid'' ''carol'' True])"
  by code_simp



























section \<open>Which failures stop a reconciliation\<close>






















lemma SyncUsers_list_failed:
  assumes "fst (callListUsers m input h) = Inl e"
  shows "SyncUsers m uaaUsers input h = ((Some e, uaaUsers), snd (callListUsers m input h))"
  using assms
  by (simp add: SyncUsers_def prod_eq_iff snd_andThen fst_andThen ret_def del: callListUsers.simps)

lemma SyncUsers_steps:
  assumes "fst (callListUsers m input h) = Inr roleUsers"
  shows "let e0 = snd (callListUsers m input h);
             l = SyncLdapUsers m roleUsers uaaUsers input (h @ e0);
             i = SyncInternalUsers m (snd (fst l)) uaaUsers input (h @ e0 @ snd l);
             s = SyncSamlUsers m (snd (fst i)) uaaUsers input (h @ e0 @ snd l @ snd i);
             r = RemoveUsers m (fst (snd (fst s))) input (h @ e0 @ snd l @ snd i @ snd s)
         in SyncUsers m uaaUsers input h =
              (if fst (fst l) \<noteq> None then ((fst (fst l), uaaUsers), e0 @ snd l)
               else if fst (fst i) \<noteq> None then ((fst (fst i), uaaUsers), e0 @ snd l @ snd i)
               else if fst (fst s) \<noteq> None then ((fst (fst s), snd (snd (fst s))), e0 @ snd l @ snd i @ snd s)
               else ((fst r, snd (snd (fst s))), e0 @ snd l @ snd i @ snd s @ snd r))"
  using assms
  by (simp add: SyncUsers_def prod_eq_iff snd_andThen fst_andThen Let_def ret_def
      del: callListUsers.simps not_None_eq split: option.splits)












section \<open>The order of the steps of a reconciliation\<close>

lemma SyncUsers_order:
  assumes "fst (callListUsers m input h) = Inr roleUsers"
  shows "let e0 = snd (callListUsers m input h);
             l = SyncLdapUsers m roleUsers uaaUsers input (h @ e0);
             i = SyncInternalUsers m (snd (fst l)) uaaUsers input (h @ e0 @ snd l);
             s = SyncSamlUsers m (snd (fst i)) uaaUsers input (h @ e0 @ snd l @ snd i);
             r = RemoveUsers m (fst (snd (fst s))) input (h @ e0 @ snd l @ snd i @ snd s)
         in snd (SyncUsers m uaaUsers input h) =
              (if fst (fst l) \<noteq> None then e0 @ snd l
               else if fst (fst i) \<noteq> None then e0 @ snd l @ snd i
               else if fst (fst s) \<noteq> None then e0 @ snd l @ snd i @ snd s
               else e0 @ snd l @ snd i @ snd s @ snd r)"
  using assms
  by (simp add: SyncUsers_def snd_andThen fst_andThen Let_def ret_def
      del: callListUsers.simps not_None_eq split: option.splits)

lemma provisioned_first_mono:
  "provisioned_first dir seen evs \<Longrightarrow> set seen \<subseteq> set seen' \<Longrightarrow> provisioned_first dir seen' evs"
proof (induction evs arbitrary: seen seen')
  case Nil
  show ?case by simp
next
  case (Cons e es)
  have "set (case provisioned_user e of None \<Rightarrow> seen | Some u \<Rightarrow> u # seen)
          \<subseteq> set (case provisioned_user e of None \<Rightarrow> seen' | Some u \<Rightarrow> u # seen')"
    using Cons.prems(2) by (auto split: option.splits)
  with Cons.prems(1) Cons.IH Cons.prems(2) show ?case
    by (auto split: option.splits)
qed

lemma provisioned_first_append:
  "provisioned_first dir seen a \<Longrightarrow> provisioned_first dir seen' b \<Longrightarrow>
   set seen' \<subseteq> set seen \<union> set (List.map_filter provisioned_user a) \<Longrightarrow>
   provisioned_first dir seen (a @ b)"
proof (induction a arbitrary: seen)
  case Nil
  then show ?case by (simp add: provisioned_first_mono map_filter_simps)
next
  case (Cons e a)
  have "set seen' \<subseteq> set (case provisioned_user e of None \<Rightarrow> seen | Some u \<Rightarrow> u # seen)
          \<union> set (List.map_filter provisioned_user a)"
    using Cons.prems(3) by (auto simp add: map_filter_simps split: option.splits)
  with Cons.IH [of "case provisioned_user e of None \<Rightarrow> seen | Some u \<Rightarrow> u # seen"] Cons.prems(1,2)
  show ?case by simp
qed

lemma provisioned_first_append_same:
  "provisioned_first dir seen a \<Longrightarrow> provisioned_first dir seen b \<Longrightarrow> provisioned_first dir seen (a @ b)"
  by (rule provisioned_first_append) auto

lemma provisioned_first_neutral:
  "list_all (\<lambda>e. add_user e = None) evs \<Longrightarrow> provisioned_first dir seen evs"
  by (induction evs arbitrary: seen) auto

lemma callAddUser_add_user:
  "list_all (\<lambda>e. add_user e = Some userName \<and> provisioned_user e = None)
     (snd (callAddUser m input userName h))"
  by (cases "Peek m"; cases "AssociateOrgUserByUsername (Client m) h (OrgGUID input) userName")
    (simp_all add: assoc_defs AddUserToOrg_def andThen_def ret_def emit_def call_defs Let_def
      split: AddOp.splits)

lemma callAddUser_provisioned_first:
  assumes "map_of dir (ToLower u) \<noteq> None \<or> u \<in> set seen \<or> ToLower u \<in> set seen"
  shows "provisioned_first dir seen (snd (callAddUser m input u h))"
proof -
  have "list_all (\<lambda>e. add_user e = Some u \<and> provisioned_user e = None) evs \<Longrightarrow>
        provisioned_first dir seen evs" for evs
    using assms by (induction evs) auto
  with callAddUser_add_user [of u m input h] show ?thesis by blast
qed

lemma SyncInternalUsers_loop_provisioned_first:
  assumes "\<And>k. map_of uaaUsers k \<noteq> None \<Longrightarrow> map_of dir k \<noteq> None \<or> k \<in> set seen"
  shows "provisioned_first dir seen (snd (SyncInternalUsers_loop m uaaUsers input us roleUsers h))"
proof (induction us arbitrary: roleUsers h)
  case Nil
  show ?case by (simp add: ret_def)
next
  case (Cons u us)
  have add: "provisioned_first dir seen (snd (callAddUser m input u h))"
    if "map_of uaaUsers (ToLower u) \<noteq> None"
    using assms [OF that] by (intro callAddUser_provisioned_first) blast
  show ?case
    using Cons add
    by (auto simp add: Let_def ret_def snd_andThen provisioned_first_append_same
        simp del: callAddUser.simps split: option.splits)
qed

lemma SyncSamlUsers_loop_provisioned_first:
  assumes "\<And>k. map_of uaaUsers k \<noteq> None \<Longrightarrow> map_of dir k \<noteq> None \<or> k \<in> set seen"
  shows "provisioned_first dir seen (snd (SyncSamlUsers_loop m input us roleUsers uaaUsers h))"
  using assms
proof (induction us arbitrary: roleUsers uaaUsers seen h)
  case Nil
  show ?case by (simp add: ret_def)
next
  case (Cons u us)
  define origin where "origin = Origin (LdapConfig m)"
  define created where "created = AList.update u
      \<lparr>Uaa_Username = u, Uaa_Emails = [u], Uaa_ExternalID = u, Uaa_Origin = origin\<rparr> uaaUsers"
  define G where "G = (\<lambda>uaa.
      if map_of roleUsers (ToLower u) = None
      then andThen (callAddUser m input u) (\<lambda>err.
             case err of
               Some e \<Rightarrow> ret (Some e, roleUsers, uaa)
             | None \<Rightarrow> SyncSamlUsers_loop m input us roleUsers uaa)
      else SyncSamlUsers_loop m input us (AList.delete (ToLower u) roleUsers) uaa)"
  have eq: "SyncSamlUsers_loop m input (u # us) roleUsers uaaUsers =
      andThen (SyncSamlUsers_provision m u uaaUsers)
        (\<lambda>p. if \<not> fst p then SyncSamlUsers_loop m input us roleUsers (snd p) else G (snd p))"
    unfolding G_def SyncSamlUsers_loop.simps by (rule refl)
  have rest: "provisioned_first dir seen' (snd (G uaa h'))"
    if inv: "\<And>k. map_of uaa k \<noteq> None \<Longrightarrow> map_of dir k \<noteq> None \<or> k \<in> set seen'"
      and u: "map_of uaa (ToLower u) \<noteq> None \<or> u \<in> set seen'" for uaa seen' h'
  proof -
    have "map_of dir (ToLower u) \<noteq> None \<or> u \<in> set seen' \<or> ToLower u \<in> set seen'"
      using u inv [of "ToLower u"] by blast
    then have add: "provisioned_first dir seen' (snd (callAddUser m input u h'))"
      by (rule callAddUser_provisioned_first)
    show ?thesis
      using add Cons.IH [OF inv]
      by (auto simp add: G_def ret_def snd_andThen provisioned_first_append_same
          simp del: callAddUser.simps split: option.splits)
  qed
  show ?case
  proof (cases "map_of uaaUsers (ToLower u) = None")
    case False
    then have "SyncSamlUsers_provision m u uaaUsers h = ((True, uaaUsers), [])"
      by (simp add: SyncSamlUsers_provision_present)
    moreover have "provisioned_first dir seen (snd (G uaaUsers h))"
      using Cons.prems False by (intro rest) blast+
    ultimately show ?thesis
      unfolding eq by (simp add: snd_andThen)
  next
    case True
    show ?thesis
    proof (cases "CreateExternalUser (UAAMgr m) h u u u origin")
      case (Some e)
      with True have "SyncSamlUsers_provision m u uaaUsers h =
          ((False, uaaUsers), [UAA_CreateExternalUser u u u origin False,
                               LogError [''Unable to create user'', u]])"
        by (simp add: SyncSamlUsers_provision_def andThen_def ret_def emit_def
            UAAMgr_CreateExternalUser_def origin_def)
      with Cons.IH [OF Cons.prems] show ?thesis
        unfolding eq by (simp add: snd_andThen)
    next
      case None
      with True have prov: "SyncSamlUsers_provision m u uaaUsers h =
          ((True, created), [UAA_CreateExternalUser u u u origin True])"
        by (simp add: SyncSamlUsers_provision_def andThen_def ret_def emit_def
            UAAMgr_CreateExternalUser_def origin_def created_def)
      have inv: "map_of dir k \<noteq> None \<or> k \<in> set (u # seen)" if "map_of created k \<noteq> None" for k
        using that Cons.prems [of k] by (auto simp add: created_def update_conv' split: if_splits)
      have "provisioned_first dir (u # seen) (snd (G created (h @ [UAA_CreateExternalUser u u u origin True])))"
        by (rule rest [OF inv]) simp_all
      with prov show ?thesis
        unfolding eq by (simp add: snd_andThen)
    qed
  qed
qed

lemma SyncUsers_provisioned_first:
  "provisioned_first uaaUsers [] (snd (SyncUsers m uaaUsers input h))"
proof (cases "fst (callListUsers m input h)")
  case (Inl e)
  have "provisioned_first uaaUsers [] (snd (callListUsers m input h))"
    by (cases rule: callListUsers_cases [of m input h]) simp_all
  with SyncUsers_list_failed [OF Inl] show ?thesis by simp
next
  case (Inr roleUsers)
  define e0 where "e0 = snd (callListUsers m input h)"
  define l where "l = SyncLdapUsers m roleUsers uaaUsers input (h @ e0)"
  define i where "i = SyncInternalUsers m (snd (fst l)) uaaUsers input (h @ e0 @ snd l)"
  define s where "s = SyncSamlUsers m (snd (fst i)) uaaUsers input (h @ e0 @ snd l @ snd i)"
  define r where "r = RemoveUsers m (fst (snd (fst s))) input (h @ e0 @ snd l @ snd i @ snd s)"
  have p0: "provisioned_first uaaUsers [] e0"
    unfolding e0_def by (cases rule: callListUsers_cases [of m input h]) simp_all
  have pl: "provisioned_first uaaUsers [] (snd l)"
    unfolding l_def SyncLdapUsers_def
    by (auto simp add: snd_andThen fst_andThen ret_def Ldap_resolveMembers_call_def Let_def
        intro!: SyncInternalUsers_loop_provisioned_first split: sum.splits)
  have pi: "provisioned_first uaaUsers [] (snd i)"
    unfolding i_def SyncInternalUsers_def by (rule SyncInternalUsers_loop_provisioned_first) simp
  have ps: "provisioned_first uaaUsers [] (snd s)"
    unfolding s_def SyncSamlUsers_def by (rule SyncSamlUsers_loop_provisioned_first) simp
  have "list_all (\<lambda>e. add_user e = None) (snd (callRemoveUser m input u h'))" for u h'
    by (cases rule: callRemoveUser_cases [of m input u h']) simp_all
  then have "list_all (\<lambda>e. add_user e = None) (snd (RemoveUsers_loop m input us h'))" for us h'
    by (intro RemoveUsers_loop_Q [of "list_all (\<lambda>e. add_user e = None)"]) simp_all
  then have pr: "provisioned_first uaaUsers [] (snd r)"
    unfolding r_def RemoveUsers_def
    by (auto simp add: ret_def intro: provisioned_first_neutral)
  from SyncUsers_order [OF Inr, of uaaUsers] p0 pl pi ps pr show ?thesis
    by (simp add: Let_def e0_def [symmetric] l_def [symmetric] i_def [symmetric] s_def [symmetric]
        r_def [symmetric] provisioned_first_append_same del: not_None_eq callListUsers.simps
        split: if_splits)
qed

lemma SyncSamlUsers_loop_provision_first:
  assumes "map_of uaaUsers (ToLower u) = None"
  shows "\<exists>ok rest. snd (SyncSamlUsers_loop m input (u # us) roleUsers uaaUsers h) =
           UAA_CreateExternalUser u u u (Origin (LdapConfig m)) ok # rest"
  using assms
  by (simp add: snd_andThen SyncSamlUsers_provision_def UAAMgr_CreateExternalUser_def Let_def
      del: callAddUser.simps)

text \<open>
  C3. After the list, a reconciliation processes the directory-group users, then the
  internal users, then the federated users, then the removals: its events are the
  events of these steps in that order, up to the first step that returns an error.
  Every add event of a reconciliation is for a user who is in the directory under the
  case-folded name or was created by a successful provisioning call earlier in the
  same reconciliation; and when the federated step reaches a user who is not in the
  directory, the provisioning call is its first event for that user.
\<close>

theorem sync_order:
  "(fst (callListUsers m input h) = Inr roleUsers \<longrightarrow>
       (let e0 = snd (callListUsers m input h);
            l = SyncLdapUsers m roleUsers uaaUsers input (h @ e0);
            i = SyncInternalUsers m (snd (fst l)) uaaUsers input (h @ e0 @ snd l);
            s = SyncSamlUsers m (snd (fst i)) uaaUsers input (h @ e0 @ snd l @ snd i);
            r = RemoveUsers m (fst (snd (fst s))) input (h @ e0 @ snd l @ snd i @ snd s)
        in snd (SyncUsers m uaaUsers input h) =
             (if fst (fst l) \<noteq> None then e0 @ snd l
              else if fst (fst i) \<noteq> None then e0 @ snd l @ snd i
              else if fst (fst s) \<noteq> None then e0 @ snd l @ snd i @ snd s
              else e0 @ snd l @ snd i @ snd s @ snd r))) \<and>
   provisioned_first uaaUsers [] (snd (SyncUsers m uaaUsers input h)) \<and>
   (map_of uaaUsers' (ToLower u) = None \<longrightarrow>
      (\<exists>ok rest. snd (SyncSamlUsers_loop m input (u # us) roleUsers' uaaUsers' h') =
         UAA_CreateExternalUser u u u (Origin (LdapConfig m)) ok # rest))"
  using SyncUsers_order [of m input h roleUsers uaaUsers] SyncUsers_provisioned_first [of uaaUsers m input h]
    SyncSamlUsers_loop_provision_first [of uaaUsers' u m input us roleUsers' h']
  by blast

theorem sync_order_witness:
  "fst (callListUsers (exM False) (exInput [''space-devs''] [''bob''] [''sam@x.io''] False) []) = Inr [(''alice'', ''a1''), (''carol'', ''c1'')] \<and>
   (let e0 = snd (callListUsers (exM False) (exInput [''space-devs''] [''bob''] [''sam@x.io''] False) []);
            l = SyncLdapUsers (exM False) [(''alice'', ''a1''), (''carol'', ''c1'')] exUaa (exInput [''space-devs''] [''bob''] [''sam@x.io''] False) ([] @ e0);
            i = SyncInternalUsers (exM False) (snd (fst l)) exUaa (exInput [''space-devs''] [''bob''] [''sam@x.io''] False) ([] @ e0 @ snd l);
            s = SyncSamlUsers (exM False) (snd (fst i)) exUaa (exInput [''space-devs''] [''bob''] [''sam@x.io''] False) ([] @ e0 @ snd l @ snd i);
            r = RemoveUsers (exM False) (fst (snd (fst s))) (exInput [''space-devs''] [''bob''] [''sam@x.io''] False) ([] @ e0 @ snd l @ snd i @ snd s)
        in snd (SyncUsers (exM False) exUaa (exInput [''space-devs''] [''bob''] [''sam@x.io''] False) []) =
             (if fst (fst l) \<noteq> None then e0 @ snd l
              else if fst (fst i) \<noteq> None then e0 @ snd l @ snd i
              else if fst (fst s) \<noteq> None then e0 @ snd l @ snd i @ snd s
              else e0 @ snd l @ snd i @ snd s @ snd r)) \<and>
   provisioned_first exUaa [] (snd (SyncUsers (exM False) exUaa (exInput [''space-devs''] [''bob''] [''sam@x.io''] False) [])) \<and>
   map_of exUaa (ToLower ''sam@x.io'') = None \<and>
   (\<exists>ok rest. snd (SyncSamlUsers_loop (exM False) (exInput [''space-devs''] [''bob''] [''sam@x.io''] False) (''sam@x.io'' # []) [] exUaa []) =
      UAA_CreateExternalUser ''sam@x.io'' ''sam@x.io'' ''sam@x.io'' (Origin (LdapConfig (exM False))) ok # rest)"
proof -
  have a: "fst (callListUsers (exM False) (exInput [''space-devs''] [''bob''] [''sam@x.io''] False) []) = Inr [(''alice'', ''a1''), (''carol'', ''c1'')]"
    by code_simp
  have b: "map_of exUaa (ToLower ''sam@x.io'') = None"
    by code_simp
  from a b
    sync_order [of "exM False" "exInput [''space-devs''] [''bob''] [''sam@x.io''] False" "[]" "[(''alice'', ''a1''), (''carol'', ''c1'')]" exUaa exUaa
      "''sam@x.io''" "[]" "[]" "[]"]
  show ?thesis by blast
qed

text \<open>
  The group \<open>space-devs\<close> resolves to alice and gina, bob is an internal user and
  \<open>sam@x.io\<close> a federated one. The group member gina is added before the internal user
  bob, not after the federated user.
\<close>

theorem group_users_first_counterexample:
  "LdapGroupNames (exInput [''space-devs''] [''bob''] [''sam@x.io''] False) = [''space-devs''] \<and>
   Users (exInput [''space-devs''] [''bob''] [''sam@x.io''] False) = [''bob''] \<and>
   SamlUsers (exInput [''space-devs''] [''bob''] [''sam@x.io''] False) = [''sam@x.io''] \<and>
   snd (SyncUsers (exM False) exUaa (exInput [''space-devs''] [''bob''] [''sam@x.io''] False) []) =
     [CF_ListRoleUsers SpaceDeveloper ''dev-guid'' True,
      Ldap_ResolveMembers [''space-devs''] True,
      CF_AssociateOrgUser ''org-guid'' ''gina'' True,
      LogInfof ''adding %s to role %s for org/space %s/%s'' [''gina'', ''developer'', ''test-org'', ''dev''],
      CF_AssociateRole SpaceDeveloper ''dev-guid'' ''gina'' True,
      CF_AssociateOrgUser ''org-guid'' ''bob'' True,
      LogInfof ''adding %s to role %s for org/space %s/%s'' [''bob'', ''developer'', ''test-org'', ''dev''],
      CF_AssociateRole SpaceDeveloper ''dev-guid'' ''bob'' True,
      UAA_CreateExternalUser ''sam@x.io'' ''sam@x.io'' ''sam@x.io'' ''saml'' True,
      CF_AssociateOrgUser ''org-guid'' ''sam@x.io'' True,
      LogInfof ''adding %s to role %s for org/space %s/%s'' [''sam@x.io'', ''developer'', ''test-org'', ''dev''],
      CF_AssociateRole SpaceDeveloper ''dev-guid'' ''sam@x.io'' True] \<and>
   precedes (CF_AssociateRole SpaceDeveloper ''dev-guid'' ''gina'' True)
     (CF_AssociateRole SpaceDeveloper ''dev-guid'' ''bob'' True)
     (snd (SyncUsers (exM False) exUaa (exInput [''space-devs''] [''bob''] [''sam@x.io''] False) [])) \<and>
   \<not> precedes (CF_AssociateRole SpaceDeveloper ''dev-guid'' ''bob'' True)
     (CF_AssociateRole SpaceDeveloper ''dev-guid'' ''gina'' True)
     (snd (SyncUsers (exM False) exUaa (exInput [''space-devs''] [''bob''] [''sam@x.io''] False) [])) \<and>
   \<not> precedes (CF_AssociateRole SpaceDeveloper ''dev-guid'' ''sam@x.io'' True)
     (CF_AssociateRole SpaceDeveloper ''dev-guid'' ''gina'' True)
     (snd (SyncUsers (exM False) exUaa (exInput [''space-devs''] [''bob''] [''sam@x.io''] False) []))"
  by code_simp

section \<open>Reconciling a role that already has its desired members\<close>

lemma map_of_None_keys: "map_of al k = None \<longleftrightarrow> k \<notin> set (map fst al)"
  by (simp add: map_of_eq_None_iff)

lemma keys_delete_subset:
  assumes "k \<notin> A" and "A \<subseteq> set (map fst al)"
  shows "A \<subseteq> set (map fst (AList.delete k al))"
  using assms unfolding delete_keys by auto

lemma SyncInternalUsers_loop_satisfied:
  assumes "distinct (map ToLower us)" and "set (map ToLower us) \<subseteq> set (map fst roleUsers)"
  shows "snd (SyncInternalUsers_loop m uaaUsers input us roleUsers h) = [] \<and>
         (fst (fst (SyncInternalUsers_loop m uaaUsers input us roleUsers h)) = None \<longrightarrow>
            map fst (snd (fst (SyncInternalUsers_loop m uaaUsers input us roleUsers h))) =
              filter (\<lambda>k. k \<notin> set (map ToLower us)) (map fst roleUsers))"
  using assms
proof (induction us arbitrary: roleUsers)
  case Nil
  then show ?case by (simp add: ret_def)
next
  case (Cons u us)
  from Cons.prems have present: "map_of roleUsers (ToLower u) \<noteq> None"
    by (simp add: map_of_None_keys)
  from Cons.prems have nin: "ToLower u \<notin> set (map ToLower us)" and d: "distinct (map ToLower us)"
    by simp_all
  from Cons.prems nin have s: "set (map ToLower us) \<subseteq> set (map fst (AList.delete (ToLower u) roleUsers))"
    by (intro keys_delete_subset) simp_all
  have f: "filter (\<lambda>k. k \<notin> set (map ToLower us)) (map fst (AList.delete (ToLower u) roleUsers)) =
           filter (\<lambda>k. k \<notin> set (map ToLower (u # us))) (map fst roleUsers)"
    by (induction roleUsers) (auto simp add: delete_keys)
  from Cons.IH [OF d s] present f show ?case
    by (simp add: Let_def ret_def del: callAddUser.simps not_None_eq)
qed

lemma SyncSamlUsers_loop_satisfied:
  assumes "distinct (map ToLower us)" and "set (map ToLower us) \<subseteq> set (map fst roleUsers)"
    and "\<forall>u \<in> set us. map_of uaaUsers (ToLower u) \<noteq> None"
  shows "snd (SyncSamlUsers_loop m input us roleUsers uaaUsers h) = [] \<and>
         fst (fst (SyncSamlUsers_loop m input us roleUsers uaaUsers h)) = None \<and>
         map fst (fst (snd (fst (SyncSamlUsers_loop m input us roleUsers uaaUsers h)))) =
           filter (\<lambda>k. k \<notin> set (map ToLower us)) (map fst roleUsers) \<and>
         snd (snd (fst (SyncSamlUsers_loop m input us roleUsers uaaUsers h))) = uaaUsers"
  using assms
proof (induction us arbitrary: roleUsers)
  case Nil
  then show ?case by (simp add: ret_def)
next
  case (Cons u us)
  from Cons.prems have present: "map_of roleUsers (ToLower u) \<noteq> None"
    by (simp add: map_of_None_keys)
  from Cons.prems have nin: "ToLower u \<notin> set (map ToLower us)" and d: "distinct (map ToLower us)"
    and dir: "\<forall>u \<in> set us. map_of uaaUsers (ToLower u) \<noteq> None"
    and prov: "SyncSamlUsers_provision m u uaaUsers h = ((True, uaaUsers), [])"
    by (simp_all add: SyncSamlUsers_provision_present del: not_None_eq)
  from Cons.prems nin have s: "set (map ToLower us) \<subseteq> set (map fst (AList.delete (ToLower u) roleUsers))"
    by (intro keys_delete_subset) simp_all
  have f: "filter (\<lambda>k. k \<notin> set (map ToLower us)) (map fst (AList.delete (ToLower u) roleUsers)) =
           filter (\<lambda>k. k \<notin> set (map ToLower (u # us))) (map fst roleUsers)"
    by (induction roleUsers) (auto simp add: delete_keys)
  from Cons.IH [OF d s dir] present f prov show ?case
    by (simp add: andThen_def del: callAddUser.simps not_None_eq)
qed

lemma SyncUsers_satisfied:
  assumes list: "callListUsers m input h = (Inr roleUsers, e0)"
    and resolve: "resolveMembers (LdapMgr m) (h @ e0) (LdapGroupNames input) = Inr members"
    and dist: "distinct (map ToLower (map ir_username members @ Users input @ SamlUsers input))"
    and sat: "set (map ToLower (map ir_username members @ Users input @ SamlUsers input))
                = set (map fst roleUsers)"
    and dir: "\<forall>u \<in> set (SamlUsers input). map_of uaaUsers (ToLower u) \<noteq> None"
  shows "snd (SyncUsers m uaaUsers input h) = e0 @ [Ldap_ResolveMembers (LdapGroupNames input) True]"
proof -
  define R where "R = Ldap_ResolveMembers (LdapGroupNames input) True"
  define h1 where "h1 = h @ e0 @ [R]"
  define groupUsers where "groupUsers = map ir_username members"
  define l where "l = SyncInternalUsers_loop m uaaUsers input groupUsers roleUsers h1"
  define i where "i = SyncInternalUsers_loop m uaaUsers input (Users input) (snd (fst l)) h1"
  define s where "s = SyncSamlUsers_loop m input (SamlUsers input) (snd (fst i)) uaaUsers h1"
  let ?G = "set (map ToLower groupUsers)" and ?U = "set (map ToLower (Users input))"
    and ?S = "set (map ToLower (SamlUsers input))"
  from dist have dG: "distinct (map ToLower groupUsers)" and dU: "distinct (map ToLower (Users input))"
    and dS: "distinct (map ToLower (SamlUsers input))"
    and disj: "?G \<inter> ?U = {}" "?G \<inter> ?S = {}" "?U \<inter> ?S = {}"
    by (auto simp add: groupUsers_def)
  from sat have keys: "set (map fst roleUsers) = ?G \<union> ?U \<union> ?S"
    by (auto simp add: groupUsers_def)
  have L: "snd l = []"
    "fst (fst l) = None \<longrightarrow> map fst (snd (fst l)) = filter (\<lambda>k. k \<notin> ?G) (map fst roleUsers)"
    using SyncInternalUsers_loop_satisfied [OF dG, of roleUsers m uaaUsers input h1] keys
    by (auto simp add: l_def)
  have ldap: "SyncLdapUsers m roleUsers uaaUsers input (h @ e0) = (fst l, [R])"
    using resolve L(1)
    by (simp add: prod_eq_iff SyncLdapUsers_def fst_andThen snd_andThen Ldap_resolveMembers_call_def
        l_def h1_def R_def groupUsers_def)
  have I: "snd i = []"
    "fst (fst i) = None \<longrightarrow>
       map fst (snd (fst i)) = filter (\<lambda>k. k \<notin> ?U) (filter (\<lambda>k. k \<notin> ?G) (map fst roleUsers))"
    if "fst (fst l) = None"
    using SyncInternalUsers_loop_satisfied [OF dU, of "snd (fst l)" m uaaUsers input h1] L(2) that keys disj
    by (auto simp add: i_def)
  have S: "snd s = []" "fst (fst s) = None" "fst (snd (fst s)) = []"
    if "fst (fst l) = None" "fst (fst i) = None"
  proof -
    have sub: "?S \<subseteq> set (map fst (snd (fst i)))"
      using I(2) [OF that(1)] that(2) keys disj by auto
    note r = SyncSamlUsers_loop_satisfied [OF dS sub dir, of m input h1, folded s_def]
    from r show "snd s = []" "fst (fst s) = None" by simp_all
    have "filter (\<lambda>k. k \<notin> ?S) (map fst (snd (fst i))) = []"
      using I(2) [OF that(1)] that(2) keys by (auto simp add: filter_empty_conv)
    with r show "fst (snd (fst s)) = []" by simp
  qed
  have rem: "snd (RemoveUsers m [] input h') = []" for h'
    by (simp add: RemoveUsers_def ret_def)
  have "snd (SyncUsers m uaaUsers input h) = e0 @ [R]"
  proof (cases "fst (fst l)")
    case (Some e)
    then show ?thesis
      by (simp add: SyncUsers_def snd_andThen fst_andThen list ldap ret_def del: callListUsers.simps)
  next
    case None
    note l_ok = this
    show ?thesis
    proof (cases "fst (fst i)")
      case (Some e)
      with l_ok I(1) show ?thesis
        by (simp add: SyncUsers_def SyncInternalUsers_def snd_andThen fst_andThen list ldap ret_def
            i_def [symmetric] h1_def [symmetric] del: callListUsers.simps)
    next
      case None
      with l_ok I(1) S [OF l_ok None] rem show ?thesis
        by (simp add: SyncUsers_def SyncInternalUsers_def SyncSamlUsers_def snd_andThen fst_andThen
            list ldap ret_def i_def [symmetric] s_def [symmetric] h1_def [symmetric]
            del: callListUsers.simps)
    qed
  qed
  then show ?thesis by (simp add: R_def)
qed

lemma SyncSamlUsers_loop_satisfied_general:
  assumes "distinct (map ToLower us)" and "set (map ToLower us) \<subseteq> set (map fst roleUsers)"
  shows "list_all (\<lambda>e. \<not> is_add e \<and> \<not> is_remove e)
           (snd (SyncSamlUsers_loop m input us roleUsers uaaUsers h)) \<and>
         fst (fst (SyncSamlUsers_loop m input us roleUsers uaaUsers h)) = None \<and>
         (list_all (\<lambda>e. \<not> provision_failed e) (snd (SyncSamlUsers_loop m input us roleUsers uaaUsers h)) \<longrightarrow>
            map fst (fst (snd (fst (SyncSamlUsers_loop m input us roleUsers uaaUsers h)))) =
              filter (\<lambda>k. k \<notin> set (map ToLower us)) (map fst roleUsers))"
  using assms
proof (induction us arbitrary: roleUsers uaaUsers h)
  case Nil
  then show ?case by (simp add: ret_def)
next
  case (Cons u us)
  define origin where "origin = Origin (LdapConfig m)"
  define created where "created = AList.update u
      \<lparr>Uaa_Username = u, Uaa_Emails = [u], Uaa_ExternalID = u, Uaa_Origin = origin\<rparr> uaaUsers"
  from Cons.prems have present: "map_of roleUsers (ToLower u) \<noteq> None"
    by (simp add: map_of_None_keys)
  from Cons.prems have nin: "ToLower u \<notin> set (map ToLower us)" and d: "distinct (map ToLower us)"
    and s0: "set (map ToLower us) \<subseteq> set (map fst roleUsers)"
    by simp_all
  from Cons.prems nin have s: "set (map ToLower us) \<subseteq> set (map fst (AList.delete (ToLower u) roleUsers))"
    by (intro keys_delete_subset) simp_all
  have f: "filter (\<lambda>k. k \<notin> set (map ToLower us)) (map fst (AList.delete (ToLower u) roleUsers)) =
           filter (\<lambda>k. k \<notin> set (map ToLower (u # us))) (map fst roleUsers)"
    by (induction roleUsers) (auto simp add: delete_keys)
  consider (known) "SyncSamlUsers_provision m u uaaUsers h = ((True, uaaUsers), [])"
    | (failed) "SyncSamlUsers_provision m u uaaUsers h =
          ((False, uaaUsers), [UAA_CreateExternalUser u u u origin False,
                               LogError [''Unable to create user'', u]])"
    | (made) "SyncSamlUsers_provision m u uaaUsers h =
          ((True, created), [UAA_CreateExternalUser u u u origin True])"
    by (cases "map_of uaaUsers (ToLower u) = None"; cases "CreateExternalUser (UAAMgr m) h u u u origin")
      (auto simp add: SyncSamlUsers_provision_def andThen_def ret_def emit_def
        UAAMgr_CreateExternalUser_def origin_def created_def)
  then show ?case
  proof cases
    case known
    with Cons.IH [OF d s, of uaaUsers h] present f show ?thesis
      by (simp add: snd_andThen fst_andThen del: callAddUser.simps not_None_eq)
  next
    case failed
    with Cons.IH [OF d s0, of uaaUsers
        "h @ [UAA_CreateExternalUser u u u origin False, LogError [''Unable to create user'', u]]"]
    show ?thesis
      by (simp add: snd_andThen fst_andThen del: callAddUser.simps not_None_eq)
  next
    case made
    with Cons.IH [OF d s, of created "h @ [UAA_CreateExternalUser u u u origin True]"] present f
    show ?thesis
      by (simp add: snd_andThen fst_andThen del: callAddUser.simps not_None_eq)
  qed
qed

lemma SyncUsers_satisfied_general:
  assumes list: "callListUsers m input h = (Inr roleUsers, e0)"
    and resolve: "resolveMembers (LdapMgr m) (h @ e0) (LdapGroupNames input) = Inr members"
    and dist: "distinct (map ToLower (map ir_username members @ Users input @ SamlUsers input))"
    and sat: "set (map ToLower (map ir_username members @ Users input @ SamlUsers input))
                = set (map fst roleUsers)"
    and gate: "\<not> RemoveUsers_flag input \<or>
               list_all (\<lambda>e. \<not> provision_failed e) (snd (SyncUsers m uaaUsers input h))"
  shows "list_all (\<lambda>e. \<not> is_add e \<and> \<not> is_remove e) (snd (SyncUsers m uaaUsers input h))"
proof -
  define R where "R = Ldap_ResolveMembers (LdapGroupNames input) True"
  define groupUsers where "groupUsers = map ir_username members"
  define l where "l = SyncLdapUsers m roleUsers uaaUsers input (h @ e0)"
  define i where "i = SyncInternalUsers m (snd (fst l)) uaaUsers input (h @ e0 @ snd l)"
  define s where "s = SyncSamlUsers m (snd (fst i)) uaaUsers input (h @ e0 @ snd l @ snd i)"
  define r where "r = RemoveUsers m (fst (snd (fst s))) input (h @ e0 @ snd l @ snd i @ snd s)"
  let ?G = "set (map ToLower groupUsers)" and ?U = "set (map ToLower (Users input))"
    and ?S = "set (map ToLower (SamlUsers input))"
  let ?quiet = "list_all (\<lambda>e. \<not> is_add e \<and> \<not> is_remove e)"
  from dist have dG: "distinct (map ToLower groupUsers)" and dU: "distinct (map ToLower (Users input))"
    and dS: "distinct (map ToLower (SamlUsers input))"
    and disj: "?G \<inter> ?U = {}" "?G \<inter> ?S = {}" "?U \<inter> ?S = {}"
    by (auto simp add: groupUsers_def)
  from sat have keys: "set (map fst roleUsers) = ?G \<union> ?U \<union> ?S"
    by (auto simp add: groupUsers_def)
  from list have l0: "fst (callListUsers m input h) = Inr roleUsers" and e0: "snd (callListUsers m input h) = e0"
    by simp_all
  have q0: "?quiet e0"
    using list by (cases rule: callListUsers_cases [of m input h]) auto
  have L: "snd l = [R]"
    "fst (fst l) = None \<longrightarrow> map fst (snd (fst l)) = filter (\<lambda>k. k \<notin> ?G) (map fst roleUsers)"
    using SyncInternalUsers_loop_satisfied [OF dG, of roleUsers m uaaUsers input "h @ e0 @ [R]"] keys resolve
    by (auto simp add: l_def SyncLdapUsers_def fst_andThen snd_andThen Ldap_resolveMembers_call_def
        R_def groupUsers_def)
  have I: "snd i = []"
    "fst (fst i) = None \<longrightarrow>
       map fst (snd (fst i)) = filter (\<lambda>k. k \<notin> ?U) (filter (\<lambda>k. k \<notin> ?G) (map fst roleUsers))"
    if "fst (fst l) = None"
    using SyncInternalUsers_loop_satisfied [OF dU, of "snd (fst l)" m uaaUsers input "h @ e0 @ snd l"]
      L(2) that keys disj
    by (auto simp add: i_def SyncInternalUsers_def)
  have S: "?quiet (snd s)" "fst (fst s) = None"
    "list_all (\<lambda>e. \<not> provision_failed e) (snd s) \<longrightarrow> fst (snd (fst s)) = []"
    if "fst (fst l) = None" "fst (fst i) = None"
  proof -
    have sub: "?S \<subseteq> set (map fst (snd (fst i)))"
      using I(2) [OF that(1)] that(2) keys disj by auto
    note g = SyncSamlUsers_loop_satisfied_general [OF dS sub, of m input uaaUsers "h @ e0 @ snd l @ snd i"]
    from g show "?quiet (snd s)" "fst (fst s) = None"
      by (simp_all add: s_def SyncSamlUsers_def)
    have "filter (\<lambda>k. k \<notin> ?S) (map fst (snd (fst i))) = []"
      using I(2) [OF that(1)] that(2) keys by (auto simp add: filter_empty_conv)
    with g show "list_all (\<lambda>e. \<not> provision_failed e) (snd s) \<longrightarrow> fst (snd (fst s)) = []"
      by (simp add: s_def SyncSamlUsers_def)
  qed
  note order = SyncUsers_order [OF l0, of uaaUsers, unfolded Let_def e0, folded l_def,
      folded i_def, folded s_def, folded r_def]
  show ?thesis
  proof (cases "fst (fst l)")
    case (Some e)
    with order q0 L(1) show ?thesis by (simp add: R_def)
  next
    case None
    note l_ok = this
    show ?thesis
    proof (cases "fst (fst i)")
      case (Some e)
      with order l_ok q0 L(1) I(1) show ?thesis by (simp add: R_def)
    next
      case None
      note s_facts = S [OF l_ok None]
      from order l_ok None s_facts(2)
      have whole: "snd (SyncUsers m uaaUsers input h) = e0 @ snd l @ snd i @ snd s @ snd r"
        by simp
      have "snd r = []"
      proof (cases "RemoveUsers_flag input")
        case False
        then show ?thesis by (simp add: r_def RemoveUsers_def ret_def)
      next
        case True
        with gate whole have "list_all (\<lambda>e. \<not> provision_failed e) (snd s)"
          by simp
        with s_facts(3) show ?thesis
          by (simp add: r_def RemoveUsers_def ret_def)
      qed
      with whole q0 L(1) I(1) [OF l_ok] s_facts(1) show ?thesis
        by (simp add: R_def)
    qed
  qed
qed

text \<open>
  C6. Reconciliation is idempotent when the desired principals of the three sources
  are pairwise distinct after case folding and, if removal is enabled, no provisioning
  call fails: if the role's members are then exactly the case-folded desired
  principals, the reconciliation records no add event and no remove event.
\<close>

theorem idempotent_when_distinct:
  assumes "callListUsers m input h = (Inr roleUsers, e0)"
    and "resolveMembers (LdapMgr m) (h @ e0) (LdapGroupNames input) = Inr members"
    and "distinct (map ToLower (map ir_username members @ Users input @ SamlUsers input))"
    and "set (map ToLower (map ir_username members @ Users input @ SamlUsers input))
           = set (map fst roleUsers)"
    and "\<not> RemoveUsers_flag input \<or>
         list_all (\<lambda>e. \<not> provision_failed e) (snd (SyncUsers m uaaUsers input h))"
  shows "list_all (\<lambda>e. \<not> is_add e \<and> \<not> is_remove e) (snd (SyncUsers m uaaUsers input h))"
  using assms by (rule SyncUsers_satisfied_general)

theorem idempotent_when_distinct_witness:
  "callListUsers (exM False) (exInput [] [''ALICE''] [''carol''] True) [] =
     (Inr [(''alice'', ''a1''), (''carol'', ''c1'')], [CF_ListRoleUsers SpaceDeveloper ''dev-guid'' True]) \<and>
   resolveMembers (LdapMgr (exM False)) ([] @ [CF_ListRoleUsers SpaceDeveloper ''dev-guid'' True])
     (LdapGroupNames (exInput [] [''ALICE''] [''carol''] True)) = Inr [] \<and>
   distinct (map ToLower (map ir_username [] @ Users (exInput [] [''ALICE''] [''carol''] True) @ SamlUsers (exInput [] [''ALICE''] [''carol''] True))) \<and>
   set (map ToLower (map ir_username [] @ Users (exInput [] [''ALICE''] [''carol''] True) @ SamlUsers (exInput [] [''ALICE''] [''carol''] True)))
     = set (map fst [(''alice'', ''a1''), (''carol'', ''c1'')]) \<and>
   RemoveUsers_flag (exInput [] [''ALICE''] [''carol''] True) \<and>
   list_all (\<lambda>e. \<not> provision_failed e) (snd (SyncUsers (exM False) exUaa (exInput [] [''ALICE''] [''carol''] True) [])) \<and>
   list_all (\<lambda>e. \<not> is_add e \<and> \<not> is_remove e) (snd (SyncUsers (exM False) exUaa (exInput [] [''ALICE''] [''carol''] True) [])) \<and>
   callListUsers (exM False) (exAuditorInput [''bad@x.io''] False) [] =
     (Inr [(''bad@x.io'', ''b1'')], [CF_ListRoleUsers SpaceAuditor ''dev-guid'' True]) \<and>
   resolveMembers (LdapMgr (exM False)) ([] @ [CF_ListRoleUsers SpaceAuditor ''dev-guid'' True])
     (LdapGroupNames (exAuditorInput [''bad@x.io''] False)) = Inr [] \<and>
   distinct (map ToLower (map ir_username [] @ Users (exAuditorInput [''bad@x.io''] False) @ SamlUsers (exAuditorInput [''bad@x.io''] False))) \<and>
   set (map ToLower (map ir_username [] @ Users (exAuditorInput [''bad@x.io''] False) @ SamlUsers (exAuditorInput [''bad@x.io''] False)))
     = set (map fst [(''bad@x.io'', ''b1'')]) \<and>
   \<not> RemoveUsers_flag (exAuditorInput [''bad@x.io''] False) \<and>
   list_all (\<lambda>e. \<not> is_add e \<and> \<not> is_remove e) (snd (SyncUsers (exM False) exUaa (exAuditorInput [''bad@x.io''] False) []))"
proof -
  have a: "callListUsers (exM False) (exInput [] [''ALICE''] [''carol''] True) [] =
     (Inr [(''alice'', ''a1''), (''carol'', ''c1'')], [CF_ListRoleUsers SpaceDeveloper ''dev-guid'' True])"
    by code_simp
  have b: "resolveMembers (LdapMgr (exM False)) ([] @ [CF_ListRoleUsers SpaceDeveloper ''dev-guid'' True])
     (LdapGroupNames (exInput [] [''ALICE''] [''carol''] True)) = Inr []"
    by (simp add: exM_def exInput_def)
  have c: "distinct (map ToLower (map ir_username [] @ Users (exInput [] [''ALICE''] [''carol''] True) @ SamlUsers (exInput [] [''ALICE''] [''carol''] True)))"
    by code_simp
  have d: "set (map ToLower (map ir_username [] @ Users (exInput [] [''ALICE''] [''carol''] True) @ SamlUsers (exInput [] [''ALICE''] [''carol''] True)))
     = set (map fst [(''alice'', ''a1''), (''carol'', ''c1'')])"
    by code_simp
  have e: "RemoveUsers_flag (exInput [] [''ALICE''] [''carol''] True)"
    by (simp add: exInput_def)
  have f: "list_all (\<lambda>e. \<not> provision_failed e) (snd (SyncUsers (exM False) exUaa (exInput [] [''ALICE''] [''carol''] True) []))"
    by code_simp
  have a': "callListUsers (exM False) (exAuditorInput [''bad@x.io''] False) [] =
     (Inr [(''bad@x.io'', ''b1'')], [CF_ListRoleUsers SpaceAuditor ''dev-guid'' True])"
    by code_simp
  have b': "resolveMembers (LdapMgr (exM False)) ([] @ [CF_ListRoleUsers SpaceAuditor ''dev-guid'' True])
     (LdapGroupNames (exAuditorInput [''bad@x.io''] False)) = Inr []"
    by (simp add: exM_def exAuditorInput_def)
  have c': "distinct (map ToLower (map ir_username [] @ Users (exAuditorInput [''bad@x.io''] False) @ SamlUsers (exAuditorInput [''bad@x.io''] False)))"
    by code_simp
  have d': "set (map ToLower (map ir_username [] @ Users (exAuditorInput [''bad@x.io''] False) @ SamlUsers (exAuditorInput [''bad@x.io''] False)))
     = set (map fst [(''bad@x.io'', ''b1'')])"
    by code_simp
  have e': "\<not> RemoveUsers_flag (exAuditorInput [''bad@x.io''] False)"
    by (simp add: exAuditorInput_def)
  from a b c d e f a' b' c' d' e'
    idempotent_when_distinct [OF a b c d disjI2 [OF f]]
    idempotent_when_distinct [OF a' b' c' d' disjI1 [OF e'], of exUaa]
  show ?thesis by blast
qed

text \<open>
  Alice and carol are the developers of the space. The input asks for alice, carol and
  Alice: every desired principal is present under its case-folded name and no member
  is extraneous, and yet the reconciliation adds Alice. And \<open>bad@x.io\<close> is the auditor
  of the space and the only desired auditor, but it is not in the directory and cannot
  be created: the reconciliation skips it before marking it satisfied and, removal
  being enabled, removes it.
\<close>

theorem idempotence_counterexample:
  "fst (callListUsers (exM False) (exInput [] [''alice'', ''carol'', ''Alice''] [] True) []) =
     Inr [(''alice'', ''a1''), (''carol'', ''c1'')] \<and>
   set (map ToLower (Users (exInput [] [''alice'', ''carol'', ''Alice''] [] True))) =
     set (map fst [(''alice'', ''a1''), (''carol'', ''c1'')]) \<and>
   LdapGroupNames (exInput [] [''alice'', ''carol'', ''Alice''] [] True) = [] \<and>
   SamlUsers (exInput [] [''alice'', ''carol'', ''Alice''] [] True) = [] \<and>
   snd (SyncUsers (exM False) exUaa (exInput [] [''alice'', ''carol'', ''Alice''] [] True) []) =
     [CF_ListRoleUsers SpaceDeveloper ''dev-guid'' True, Ldap_ResolveMembers [] True,
      CF_AssociateOrgUser ''org-guid'' ''Alice'' True,
      LogInfof ''adding %s to role %s for org/space %s/%s'' [''Alice'', ''developer'', ''test-org'', ''dev''],
      CF_AssociateRole SpaceDeveloper ''dev-guid'' ''Alice'' True] \<and>
   \<not> list_all (\<lambda>e. \<not> is_add e \<and> \<not> is_remove e)
        (snd (SyncUsers (exM False) exUaa (exInput [] [''alice'', ''carol'', ''Alice''] [] True) [])) \<and>
   fst (callListUsers (exM False) (exAuditorInput [''bad@x.io''] True) []) = Inr [(''bad@x.io'', ''b1'')] \<and>
   LdapGroupNames (exAuditorInput [''bad@x.io''] True) = [] \<and> Users (exAuditorInput [''bad@x.io''] True) = [] \<and> SamlUsers (exAuditorInput [''bad@x.io''] True) = [''bad@x.io''] \<and>
   snd (SyncUsers (exM False) exUaa (exAuditorInput [''bad@x.io''] True) []) =
     [CF_ListRoleUsers SpaceAuditor ''dev-guid'' True, Ldap_ResolveMembers [] True,
      UAA_CreateExternalUser ''bad@x.io'' ''bad@x.io'' ''bad@x.io'' ''saml'' False,
      LogError [''Unable to create user'', ''bad@x.io''],
      LogInfof ''removing user %s from org/space %s/%s with role %s''
        [''bad@x.io'', ''test-org'', ''dev'', ''Auditor''],
      CF_RemoveRole SpaceAuditor ''dev-guid'' ''bad@x.io'' True] \<and>
   \<not> list_all (\<lambda>e. \<not> is_add e \<and> \<not> is_remove e)
        (snd (SyncUsers (exM False) exUaa (exAuditorInput [''bad@x.io''] True) []))"
  by code_simp

section \<open>The directory snapshot during a run\<close>

lemma FindSpace_not_load: "list_all (\<lambda>e. \<not> is_load e) (snd (FindSpace sm orgName spaceName h))"
  by (simp add: FindSpace_def ListSpaces_def andThen_def ret_def OrgMgr_GetOrgGUID_def
      Client_ListSpacesByQuery_def Let_def split: sum.splits option.splits prod.splits)

lemma SyncUsers_not_load: "list_all (\<lambda>e. \<not> is_load e) (snd (SyncUsers m uaaUsers input h))"
  by (rule SyncUsers_list_all) simp_all

lemma updateSpaceUsers_not_load: "list_all (\<lambda>e. \<not> is_load e) (snd (updateSpaceUsers m cfg uaaUsers h))"
  unfolding updateSpaceUsers_def
  by (auto simp add: snd_andThen fst_andThen ret_def FindSpace_not_load SyncUsers_not_load
      split: sum.splits option.splits)

lemma UpdateSpaceUsers_loop_not_load:
  "list_all (\<lambda>e. \<not> is_load e) (snd (UpdateSpaceUsers_loop m cfgs uaaUsers h))"
  by (induction cfgs arbitrary: uaaUsers h)
    (auto simp add: snd_andThen ret_def updateSpaceUsers_not_load split: option.splits)

lemma UpdateSpaceUsers_loads_once: "length (filter is_load (snd (UpdateSpaceUsers m h))) = 1"
proof -
  have "filter is_load (snd (UpdateSpaceUsers_loop m cfgs uaaUsers h')) = []" for cfgs uaaUsers h'
    using UpdateSpaceUsers_loop_not_load [of m cfgs uaaUsers h']
    by (simp add: filter_empty_conv list_all_iff)
  then show ?thesis
    by (simp add: UpdateSpaceUsers_def snd_andThen fst_andThen ret_def UAAMgr_ListUsers_def
        Cfg_GetSpaceConfigs_call_def Let_def split: sum.splits)
qed

lemma updateOrgUsers_not_load: "list_all (\<lambda>e. \<not> is_load e) (snd (updateOrgUsers m cfg uaaUsers h))"
  unfolding updateOrgUsers_def
  by (auto simp add: snd_andThen fst_andThen ret_def OrgMgr_FindOrg_def Let_def SyncUsers_not_load
      split: sum.splits option.splits)

lemma UpdateOrgUsers_loop_not_load:
  "list_all (\<lambda>e. \<not> is_load e) (snd (UpdateOrgUsers_loop m cfgs uaaUsers h))"
  by (induction cfgs arbitrary: uaaUsers h)
    (auto simp add: snd_andThen ret_def updateOrgUsers_not_load split: option.splits)

lemma UpdateOrgUsers_loads_once: "length (filter is_load (snd (UpdateOrgUsers m h))) = 1"
proof -
  have "filter is_load (snd (UpdateOrgUsers_loop m cfgs uaaUsers h')) = []" for cfgs uaaUsers h'
    using UpdateOrgUsers_loop_not_load [of m cfgs uaaUsers h']
    by (simp add: filter_empty_conv list_all_iff)
  then show ?thesis
    by (simp add: UpdateOrgUsers_def snd_andThen fst_andThen ret_def UAAMgr_ListUsers_def
        Cfg_GetOrgConfigs_call_def Let_def split: sum.splits)
qed

lemma SyncSamlUsers_provision_unchanged:
  "list_all (\<lambda>e. \<not> is_provisioned e) (snd (SyncSamlUsers_provision m u uaaUsers h)) \<Longrightarrow>
   snd (fst (SyncSamlUsers_provision m u uaaUsers h)) = uaaUsers"
  by (auto simp add: SyncSamlUsers_provision_def andThen_def ret_def emit_def UAAMgr_CreateExternalUser_def
      Let_def split: option.splits if_splits)

lemma SyncSamlUsers_loop_unchanged:
  "list_all (\<lambda>e. \<not> is_provisioned e) (snd (SyncSamlUsers_loop m input us roleUsers uaaUsers h)) \<Longrightarrow>
   snd (snd (fst (SyncSamlUsers_loop m input us roleUsers uaaUsers h))) = uaaUsers"
proof (induction us arbitrary: roleUsers h)
  case Nil
  show ?case by (simp add: ret_def)
next
  case (Cons u us)
  from Cons.prems have "snd (fst (SyncSamlUsers_provision m u uaaUsers h)) = uaaUsers"
    by (intro SyncSamlUsers_provision_unchanged) (simp add: snd_andThen)
  with Cons.prems Cons.IH show ?case
    by (auto simp add: snd_andThen fst_andThen ret_def simp del: callAddUser.simps
        split: if_splits option.splits)
qed

lemma SyncUsers_unchanged:
  assumes "list_all (\<lambda>e. \<not> is_provisioned e) (snd (SyncUsers m uaaUsers input h))"
  shows "snd (fst (SyncUsers m uaaUsers input h)) = uaaUsers"
  using assms SyncSamlUsers_loop_unchanged [of m input "SamlUsers input" _ uaaUsers]
  unfolding SyncUsers_def SyncSamlUsers_def
  by (auto simp add: snd_andThen fst_andThen ret_def simp del: callListUsers.simps
      split: sum.splits option.splits)

lemma updateSpaceUsers_unchanged:
  assumes "list_all (\<lambda>e. \<not> is_provisioned e) (snd (updateSpaceUsers m cfg uaaUsers h))"
  shows "snd (fst (updateSpaceUsers m cfg uaaUsers h)) = uaaUsers"
  using assms unfolding updateSpaceUsers_def
  by (auto simp add: snd_andThen fst_andThen ret_def SyncUsers_unchanged
      split: sum.splits option.splits)

lemma UpdateSpaceUsers_loop_unchanged:
  "list_all (\<lambda>e. \<not> is_provisioned e) (snd (UpdateSpaceUsers_loop m cfgs uaaUsers h)) \<Longrightarrow>
   snd (fst (UpdateSpaceUsers_loop m cfgs uaaUsers h)) = uaaUsers"
proof (induction cfgs arbitrary: h)
  case Nil
  show ?case by (simp add: ret_def)
next
  case (Cons cfg cfgs)
  from Cons.prems have "snd (fst (updateSpaceUsers m cfg uaaUsers h)) = uaaUsers"
    by (intro updateSpaceUsers_unchanged) (simp add: snd_andThen)
  with Cons.prems Cons.IH show ?case
    by (auto simp add: snd_andThen fst_andThen ret_def split: option.splits)
qed

lemma updateOrgUsers_unchanged:
  assumes "list_all (\<lambda>e. \<not> is_provisioned e) (snd (updateOrgUsers m cfg uaaUsers h))"
  shows "snd (fst (updateOrgUsers m cfg uaaUsers h)) = uaaUsers"
  using assms unfolding updateOrgUsers_def
  by (auto simp add: snd_andThen fst_andThen ret_def SyncUsers_unchanged
      split: sum.splits option.splits)

lemma UpdateOrgUsers_loop_unchanged:
  "list_all (\<lambda>e. \<not> is_provisioned e) (snd (UpdateOrgUsers_loop m cfgs uaaUsers h)) \<Longrightarrow>
   snd (fst (UpdateOrgUsers_loop m cfgs uaaUsers h)) = uaaUsers"
proof (induction cfgs arbitrary: h)
  case Nil
  show ?case by (simp add: ret_def)
next
  case (Cons cfg cfgs)
  from Cons.prems have "snd (fst (updateOrgUsers m cfg uaaUsers h)) = uaaUsers"
    by (intro updateOrgUsers_unchanged) (simp add: snd_andThen)
  with Cons.prems Cons.IH show ?case
    by (auto simp add: snd_andThen fst_andThen ret_def split: option.splits)
qed

lemma SyncSamlUsers_provision_created:
  assumes "map_of uaaUsers (ToLower u) = None"
    and "CreateExternalUser (UAAMgr m) h u u u (Origin (LdapConfig m)) = None"
  shows "SyncSamlUsers_provision m u uaaUsers h =
           ((True, AList.update u \<lparr>Uaa_Username = u, Uaa_Emails = [u], Uaa_ExternalID = u,
                                   Uaa_Origin = Origin (LdapConfig m)\<rparr> uaaUsers),
            [UAA_CreateExternalUser u u u (Origin (LdapConfig m)) True])"
  using assms
  by (simp add: SyncSamlUsers_provision_def andThen_def ret_def UAAMgr_CreateExternalUser_def)

lemma stored_neutral: "provisioning_for e = None \<Longrightarrow> store_provisioned e uaaUsers = uaaUsers"
  by (cases e) simp_all

lemma threaded_nil: "directory_threaded uaaUsers [] uaaUsers"
  by (simp add: directory_threaded_def snapshot_after_def)

lemma threaded_neutral:
  "list_all (\<lambda>e. provisioning_for e = None) evs \<Longrightarrow> directory_threaded uaaUsers evs uaaUsers"
  by (induction evs) (simp_all add: directory_threaded_def snapshot_after_def stored_neutral)

lemma provisioning_fresh_append:
  "provisioning_fresh uaaUsers (a @ b) \<longleftrightarrow>
     provisioning_fresh uaaUsers a \<and> provisioning_fresh (snapshot_after uaaUsers a) b"
  by (induction a arbitrary: uaaUsers) (simp_all add: snapshot_after_def)

lemma threaded_trans:
  "directory_threaded u0 a u1 \<Longrightarrow> directory_threaded u1 b u2 \<Longrightarrow> directory_threaded u0 (a @ b) u2"
  by (simp add: directory_threaded_def provisioning_fresh_append snapshot_after_def)

lemma andThen_threaded:
  assumes "directory_threaded u0 (snd (f h)) (U (fst (f h)))"
    and "\<And>a h'. directory_threaded (U a) (snd (g a h')) (V (fst (g a h')))"
  shows "directory_threaded u0 (snd (andThen f g h)) (V (fst (andThen f g h)))"
  using assms(1) assms(2) [of "fst (f h)" "h @ snd (f h)"]
  by (simp add: snd_andThen fst_andThen threaded_trans)

lemma SyncSamlUsers_provision_threaded:
  "directory_threaded uaaUsers (snd (SyncSamlUsers_provision m u uaaUsers h))
     (snd (fst (SyncSamlUsers_provision m u uaaUsers h)))"
  by (simp add: SyncSamlUsers_provision_def andThen_def ret_def emit_def UAAMgr_CreateExternalUser_def
      Let_def directory_threaded_def snapshot_after_def split: option.splits)

lemma callAddUser_neutral: "list_all (\<lambda>e. provisioning_for e = None) (snd (callAddUser m input u h))"
  by (rule callAddUser_list_all) simp_all

lemma SyncSamlUsers_loop_threaded:
  "directory_threaded uaaUsers (snd (SyncSamlUsers_loop m input us roleUsers uaaUsers h))
     (snd (snd (fst (SyncSamlUsers_loop m input us roleUsers uaaUsers h))))"
proof (induction us arbitrary: roleUsers uaaUsers h)
  case Nil
  show ?case by (simp add: ret_def threaded_nil)
next
  case (Cons u us)
  have add: "directory_threaded ua (snd (callAddUser m input u h')) ua" for ua h'
    by (rule threaded_neutral) (rule callAddUser_neutral)
  have rest: "directory_threaded ua
        (snd (andThen (callAddUser m input u) (\<lambda>err. case err of
                  Some e \<Rightarrow> ret (Some e, roleUsers, ua)
                | None \<Rightarrow> SyncSamlUsers_loop m input us roleUsers ua) h'))
        (snd (snd (fst (andThen (callAddUser m input u) (\<lambda>err. case err of
                  Some e \<Rightarrow> ret (Some e, roleUsers, ua)
                | None \<Rightarrow> SyncSamlUsers_loop m input us roleUsers ua) h'))))" for ua h'
    by (rule andThen_threaded [where U = "\<lambda>_. ua" and V = "\<lambda>r. snd (snd r)", OF add])
      (simp add: ret_def threaded_nil Cons split: option.splits)
  show ?case
    unfolding SyncSamlUsers_loop.simps
    by (rule andThen_threaded [where U = snd and V = "\<lambda>r. snd (snd r)", OF SyncSamlUsers_provision_threaded])
      (simp add: Cons rest del: callAddUser.simps)
qed

lemma SyncUsers_threaded:
  "directory_threaded uaaUsers (snd (SyncUsers m uaaUsers input h)) (snd (fst (SyncUsers m uaaUsers input h)))"
proof (cases "fst (callListUsers m input h)")
  case (Inl e)
  have "list_all (\<lambda>e. provisioning_for e = None) (snd (callListUsers m input h))"
    by (rule callListUsers_list_all) simp
  with SyncUsers_list_failed [OF Inl, of uaaUsers] show ?thesis
    by (simp add: threaded_neutral del: callListUsers.simps)
next
  case (Inr roleUsers)
  define e0 where "e0 = snd (callListUsers m input h)"
  define l where "l = SyncLdapUsers m roleUsers uaaUsers input (h @ e0)"
  define i where "i = SyncInternalUsers m (snd (fst l)) uaaUsers input (h @ e0 @ snd l)"
  define s where "s = SyncSamlUsers m (snd (fst i)) uaaUsers input (h @ e0 @ snd l @ snd i)"
  define r where "r = RemoveUsers m (fst (snd (fst s))) input (h @ e0 @ snd l @ snd i @ snd s)"
  let ?N = "list_all (\<lambda>e. provisioning_for e = None)"
  have steps: "SyncUsers m uaaUsers input h =
              (if fst (fst l) \<noteq> None then ((fst (fst l), uaaUsers), e0 @ snd l)
               else if fst (fst i) \<noteq> None then ((fst (fst i), uaaUsers), e0 @ snd l @ snd i)
               else if fst (fst s) \<noteq> None then ((fst (fst s), snd (snd (fst s))), e0 @ snd l @ snd i @ snd s)
               else ((fst r, snd (snd (fst s))), e0 @ snd l @ snd i @ snd s @ snd r))"
    using SyncUsers_steps [OF Inr, of uaaUsers]
    by (simp only: Let_def e0_def [symmetric] l_def [symmetric] i_def [symmetric] s_def [symmetric]
        r_def [symmetric])
  have n0: "?N e0"
    unfolding e0_def by (rule callListUsers_list_all) simp
  have internal: "?N (snd (SyncInternalUsers_loop m uaaUsers input us ru h'))" for us ru h'
    by (rule SyncInternalUsers_loop_Q [of ?N]) (simp_all add: callAddUser_neutral del: callAddUser.simps)
  have nl: "?N (snd l)"
    unfolding l_def SyncLdapUsers_def
    by (simp add: snd_andThen fst_andThen ret_def Ldap_resolveMembers_call_def Let_def internal
        split: sum.splits)
  have ni: "?N (snd i)"
    unfolding i_def SyncInternalUsers_def by (rule internal)
  have "?N (snd (callRemoveUser m input u h'))" for u h'
    by (rule callRemoveUser_list_all) simp_all
  then have "?N (snd (RemoveUsers_loop m input us h'))" for us h'
    by (intro RemoveUsers_loop_Q [of ?N]) simp_all
  then have nr: "?N (snd r)"
    unfolding r_def RemoveUsers_def by (simp add: ret_def)
  have ts: "directory_threaded uaaUsers (snd s) (snd (snd (fst s)))"
    unfolding s_def SyncSamlUsers_def by (rule SyncSamlUsers_loop_threaded)
  have pre: "directory_threaded uaaUsers (e0 @ snd l @ snd i) uaaUsers"
    using n0 nl ni by (intro threaded_neutral) simp
  have pre_s: "directory_threaded uaaUsers ((e0 @ snd l @ snd i) @ snd s) (snd (snd (fst s)))"
    by (rule threaded_trans [OF pre ts])
  have all: "directory_threaded uaaUsers (((e0 @ snd l @ snd i) @ snd s) @ snd r) (snd (snd (fst s)))"
    by (rule threaded_trans [OF pre_s threaded_neutral [OF nr]])
  have pl: "directory_threaded uaaUsers (e0 @ snd l) uaaUsers"
    using n0 nl by (intro threaded_neutral) simp
  show ?thesis
    using pl pre pre_s all by (simp add: steps del: not_None_eq)
qed

lemma FindSpace_neutral:
  "list_all (\<lambda>e. provisioning_for e = None) (snd (FindSpace sm orgName spaceName h))"
  by (simp add: FindSpace_def ListSpaces_def andThen_def ret_def OrgMgr_GetOrgGUID_def
      Client_ListSpacesByQuery_def Let_def split: sum.splits option.splits prod.splits)

lemma updateSpaceUsers_threaded:
  "directory_threaded uaaUsers (snd (updateSpaceUsers m cfg uaaUsers h))
     (snd (fst (updateSpaceUsers m cfg uaaUsers h)))"
  unfolding updateSpaceUsers_def
  by (rule andThen_threaded [where U = "\<lambda>_. uaaUsers" and V = snd,
        OF threaded_neutral [OF FindSpace_neutral]])
    (auto simp add: ret_def threaded_nil SyncUsers_threaded split: sum.splits option.splits
      intro!: andThen_threaded [where U = snd and V = snd])

lemma updateOrgUsers_threaded:
  "directory_threaded uaaUsers (snd (updateOrgUsers m cfg uaaUsers h))
     (snd (fst (updateOrgUsers m cfg uaaUsers h)))"
proof -
  have "list_all (\<lambda>e. provisioning_for e = None) (snd (OrgMgr_FindOrg (OrgMgr m) (oc_Org cfg) h))"
    by (simp add: OrgMgr_FindOrg_def Let_def)
  then show ?thesis
    unfolding updateOrgUsers_def
    by (intro andThen_threaded [where U = "\<lambda>_. uaaUsers" and V = snd] threaded_neutral)
      (auto simp add: ret_def threaded_nil SyncUsers_threaded split: sum.splits option.splits
        intro!: andThen_threaded [where U = snd and V = snd])
qed

lemma UpdateSpaceUsers_loop_threaded:
  "directory_threaded uaaUsers (snd (UpdateSpaceUsers_loop m cfgs uaaUsers h))
     (snd (fst (UpdateSpaceUsers_loop m cfgs uaaUsers h)))"
proof (induction cfgs arbitrary: uaaUsers h)
  case Nil
  show ?case by (simp add: ret_def threaded_nil)
next
  case (Cons cfg cfgs)
  show ?case
    unfolding UpdateSpaceUsers_loop.simps
    by (rule andThen_threaded [where U = snd and V = snd, OF updateSpaceUsers_threaded])
      (simp add: ret_def threaded_nil Cons split: option.splits)
qed

lemma UpdateOrgUsers_loop_threaded:
  "directory_threaded uaaUsers (snd (UpdateOrgUsers_loop m cfgs uaaUsers h))
     (snd (fst (UpdateOrgUsers_loop m cfgs uaaUsers h)))"
proof (induction cfgs arbitrary: uaaUsers h)
  case Nil
  show ?case by (simp add: ret_def threaded_nil)
next
  case (Cons cfg cfgs)
  show ?case
    unfolding UpdateOrgUsers_loop.simps
    by (rule andThen_threaded [where U = snd and V = snd, OF updateOrgUsers_threaded])
      (simp add: ret_def threaded_nil Cons split: option.splits)
qed

lemma UpdateSpaceUsers_loop_step:
  "UpdateSpaceUsers_loop m (cfg # cfgs) uaaUsers h =
     (let r = updateSpaceUsers m cfg uaaUsers h in
      case fst (fst r) of
        Some e \<Rightarrow> ((Some e, snd (fst r)), snd r)
      | None \<Rightarrow>
          (fst (UpdateSpaceUsers_loop m cfgs (snd (fst r)) (h @ snd r)),
           snd r @ snd (UpdateSpaceUsers_loop m cfgs (snd (fst r)) (h @ snd r))))"
  by (simp add: prod_eq_iff snd_andThen fst_andThen ret_def Let_def split: option.splits)

lemma UpdateOrgUsers_loop_step:
  "UpdateOrgUsers_loop m (cfg # cfgs) uaaUsers h =
     (let r = updateOrgUsers m cfg uaaUsers h in
      case fst (fst r) of
        Some e \<Rightarrow> ((Some e, snd (fst r)), snd r)
      | None \<Rightarrow>
          (fst (UpdateOrgUsers_loop m cfgs (snd (fst r)) (h @ snd r)),
           snd r @ snd (UpdateOrgUsers_loop m cfgs (snd (fst r)) (h @ snd r))))"
  by (simp add: prod_eq_iff snd_andThen fst_andThen ret_def Let_def split: option.splits)

lemma UpdateSpaceUsers_fresh:
  "UAA_ListUsers_resp (UAAMgr m) h = Inr uaaUsers \<Longrightarrow> provisioning_fresh uaaUsers (snd (UpdateSpaceUsers m h))"
  using UpdateSpaceUsers_loop_threaded [of uaaUsers m _ "h @ [UAA_ListUsers True, Cfg_GetSpaceConfigs True]"]
  by (simp add: UpdateSpaceUsers_def snd_andThen fst_andThen ret_def UAAMgr_ListUsers_def
      Cfg_GetSpaceConfigs_call_def Let_def directory_threaded_def split: sum.splits)

lemma UpdateOrgUsers_fresh:
  "UAA_ListUsers_resp (UAAMgr m) h = Inr uaaUsers \<Longrightarrow> provisioning_fresh uaaUsers (snd (UpdateOrgUsers m h))"
  using UpdateOrgUsers_loop_threaded [of uaaUsers m _ "h @ [UAA_ListUsers True, Cfg_GetOrgConfigs True]"]
  by (simp add: UpdateOrgUsers_def snd_andThen fst_andThen ret_def UAAMgr_ListUsers_def
      Cfg_GetOrgConfigs_call_def Let_def directory_threaded_def split: sum.splits)

lemma updateSpaceUsers_reconciliations:
  assumes "fst (FindSpace (SpaceMgr m) (sc_Org cfg) (sc_Space cfg) h) = Inr space"
  shows "\<exists>dev mgr aud.
     ListUsers dev = Bound_listSpaceDevelopers \<and> ListUsers mgr = Bound_listSpaceManagers \<and>
     ListUsers aud = Bound_listSpaceAuditors \<and>
     SamlUsers dev = um_SamlUsers (sc_Developer cfg) \<and> SamlUsers mgr = um_SamlUsers (sc_Manager cfg) \<and>
     SamlUsers aud = um_SamlUsers (sc_Auditor cfg) \<and>
     (let e0 = snd (FindSpace (SpaceMgr m) (sc_Org cfg) (sc_Space cfg) h);
          d = SyncUsers m uaaUsers dev (h @ e0);
          g = SyncUsers m (snd (fst d)) mgr (h @ e0 @ snd d);
          a = SyncUsers m (snd (fst g)) aud (h @ e0 @ snd d @ snd g)
      in snd (updateSpaceUsers m cfg uaaUsers h) =
           (if fst (fst d) \<noteq> None then e0 @ snd d
            else if fst (fst g) \<noteq> None then e0 @ snd d @ snd g
            else e0 @ snd d @ snd g @ snd a) \<and>
         snd (fst (updateSpaceUsers m cfg uaaUsers h)) =
           (if fst (fst d) \<noteq> None then snd (fst d)
            else if fst (fst g) \<noteq> None then snd (fst g)
            else snd (fst a)))"
proof -
  define dev where "dev =
     \<lparr>SpaceGUID = Space_Guid space, OrgGUID = Space_OrganizationGuid space,
      SpaceName = Space_Name space, OrgName = sc_Org cfg,
      LdapGroupNames = um_Groups (sc_Developer cfg), LdapUsers = um_LDAPUsers (sc_Developer cfg),
      Users = um_Users (sc_Developer cfg), SamlUsers = um_SamlUsers (sc_Developer cfg),
      RemoveUsers_flag = sc_RemoveUsers cfg,
      ListUsers = Bound_listSpaceDevelopers, RemoveUser = Bound_RemoveSpaceDeveloper,
      AddUser = Bound_AssociateSpaceDeveloper\<rparr>"
  define mgr where "mgr =
     \<lparr>SpaceGUID = Space_Guid space, OrgGUID = Space_OrganizationGuid space,
      SpaceName = Space_Name space, OrgName = sc_Org cfg,
      LdapGroupNames = um_Groups (sc_Manager cfg), LdapUsers = um_LDAPUsers (sc_Manager cfg),
      Users = um_Users (sc_Manager cfg), SamlUsers = um_SamlUsers (sc_Manager cfg),
      RemoveUsers_flag = sc_RemoveUsers cfg,
      ListUsers = Bound_listSpaceManagers, RemoveUser = Bound_RemoveSpaceManager,
      AddUser = Bound_AssociateSpaceManager\<rparr>"
  define aud where "aud =
     \<lparr>SpaceGUID = Space_Guid space, OrgGUID = Space_OrganizationGuid space,
      SpaceName = Space_Name space, OrgName = sc_Org cfg,
      LdapGroupNames = um_Groups (sc_Auditor cfg), LdapUsers = um_LDAPUsers (sc_Auditor cfg),
      Users = um_Users (sc_Auditor cfg), SamlUsers = um_SamlUsers (sc_Auditor cfg),
      RemoveUsers_flag = sc_RemoveUsers cfg,
      ListUsers = Bound_listSpaceAuditors, RemoveUser = Bound_RemoveSpaceAuditor,
      AddUser = Bound_AssociateSpaceAuditor\<rparr>"
  have tags: "ListUsers dev = Bound_listSpaceDevelopers" "ListUsers mgr = Bound_listSpaceManagers"
    "ListUsers aud = Bound_listSpaceAuditors"
    "SamlUsers dev = um_SamlUsers (sc_Developer cfg)" "SamlUsers mgr = um_SamlUsers (sc_Manager cfg)"
    "SamlUsers aud = um_SamlUsers (sc_Auditor cfg)"
    by (simp_all add: dev_def mgr_def aud_def)
  have "let e0 = snd (FindSpace (SpaceMgr m) (sc_Org cfg) (sc_Space cfg) h);
          d = SyncUsers m uaaUsers dev (h @ e0);
          g = SyncUsers m (snd (fst d)) mgr (h @ e0 @ snd d);
          a = SyncUsers m (snd (fst g)) aud (h @ e0 @ snd d @ snd g)
      in snd (updateSpaceUsers m cfg uaaUsers h) =
           (if fst (fst d) \<noteq> None then e0 @ snd d
            else if fst (fst g) \<noteq> None then e0 @ snd d @ snd g
            else e0 @ snd d @ snd g @ snd a) \<and>
         snd (fst (updateSpaceUsers m cfg uaaUsers h)) =
           (if fst (fst d) \<noteq> None then snd (fst d)
            else if fst (fst g) \<noteq> None then snd (fst g)
            else snd (fst a))"
    using assms
    unfolding updateSpaceUsers_def dev_def mgr_def aud_def
    by (simp add: snd_andThen fst_andThen ret_def Let_def del: not_None_eq split: option.splits)
  with tags show ?thesis by blast
qed

lemma updateOrgUsers_reconciliations:
  assumes "FindOrg (OrgMgr m) h (oc_Org cfg) = Inr org"
  shows "\<exists>bil aud mgr.
     ListUsers bil = Bound_listOrgBillingManagers \<and> ListUsers aud = Bound_listOrgAuditors \<and>
     ListUsers mgr = Bound_listOrgManagers \<and>
     SamlUsers bil = um_SamlUsers (oc_BillingManager cfg) \<and> SamlUsers aud = um_SamlUsers (oc_Auditor cfg) \<and>
     SamlUsers mgr = um_SamlUsers (oc_Manager cfg) \<and>
     (let e0 = [Org_FindOrg (oc_Org cfg) True];
          b = SyncUsers m uaaUsers bil (h @ e0);
          a = SyncUsers m (snd (fst b)) aud (h @ e0 @ snd b);
          g = SyncUsers m (snd (fst a)) mgr (h @ e0 @ snd b @ snd a)
      in snd (updateOrgUsers m cfg uaaUsers h) =
           (if fst (fst b) \<noteq> None then e0 @ snd b
            else if fst (fst a) \<noteq> None then e0 @ snd b @ snd a
            else e0 @ snd b @ snd a @ snd g) \<and>
         snd (fst (updateOrgUsers m cfg uaaUsers h)) =
           (if fst (fst b) \<noteq> None then snd (fst b)
            else if fst (fst a) \<noteq> None then snd (fst a)
            else snd (fst g)))"
proof -
  define bil where "bil =
     \<lparr>SpaceGUID = [], OrgGUID = Org_Guid org,
      SpaceName = [], OrgName = Org_Name org,
      LdapGroupNames = um_Groups (oc_BillingManager cfg), LdapUsers = um_LDAPUsers (oc_BillingManager cfg),
      Users = um_Users (oc_BillingManager cfg), SamlUsers = um_SamlUsers (oc_BillingManager cfg),
      RemoveUsers_flag = oc_RemoveUsers cfg,
      ListUsers = Bound_listOrgBillingManagers, RemoveUser = Bound_RemoveOrgBillingManager,
      AddUser = Bound_AssociateOrgBillingManager\<rparr>"
  define aud where "aud =
     \<lparr>SpaceGUID = [], OrgGUID = Org_Guid org,
      SpaceName = [], OrgName = Org_Name org,
      LdapGroupNames = um_Groups (oc_Auditor cfg), LdapUsers = um_LDAPUsers (oc_Auditor cfg),
      Users = um_Users (oc_Auditor cfg), SamlUsers = um_SamlUsers (oc_Auditor cfg),
      RemoveUsers_flag = oc_RemoveUsers cfg,
      ListUsers = Bound_listOrgAuditors, RemoveUser = Bound_RemoveOrgAuditor,
      AddUser = Bound_AssociateOrgAuditor\<rparr>"
  define mgr where "mgr =
     \<lparr>SpaceGUID = [], OrgGUID = Org_Guid org,
      SpaceName = [], OrgName = Org_Name org,
      LdapGroupNames = um_Groups (oc_Manager cfg), LdapUsers = um_LDAPUsers (oc_Manager cfg),
      Users = um_Users (oc_Manager cfg), SamlUsers = um_SamlUsers (oc_Manager cfg),
      RemoveUsers_flag = oc_RemoveUsers cfg,
      ListUsers = Bound_listOrgManagers, RemoveUser = Bound_RemoveOrgManager,
      AddUser = Bound_AssociateOrgManager\<rparr>"
  have tags: "ListUsers bil = Bound_listOrgBillingManagers" "ListUsers aud = Bound_listOrgAuditors"
    "ListUsers mgr = Bound_listOrgManagers"
    "SamlUsers bil = um_SamlUsers (oc_BillingManager cfg)" "SamlUsers aud = um_SamlUsers (oc_Auditor cfg)"
    "SamlUsers mgr = um_SamlUsers (oc_Manager cfg)"
    by (simp_all add: bil_def mgr_def aud_def)
  have "let e0 = [Org_FindOrg (oc_Org cfg) True];
          b = SyncUsers m uaaUsers bil (h @ e0);
          a = SyncUsers m (snd (fst b)) aud (h @ e0 @ snd b);
          g = SyncUsers m (snd (fst a)) mgr (h @ e0 @ snd b @ snd a)
      in snd (updateOrgUsers m cfg uaaUsers h) =
           (if fst (fst b) \<noteq> None then e0 @ snd b
            else if fst (fst a) \<noteq> None then e0 @ snd b @ snd a
            else e0 @ snd b @ snd a @ snd g) \<and>
         snd (fst (updateOrgUsers m cfg uaaUsers h)) =
           (if fst (fst b) \<noteq> None then snd (fst b)
            else if fst (fst a) \<noteq> None then snd (fst a)
            else snd (fst g))"
    using assms
    unfolding updateOrgUsers_def bil_def mgr_def aud_def
    by (simp add: snd_andThen fst_andThen ret_def Let_def OrgMgr_FindOrg_def del: not_None_eq
        split: option.splits)
  with tags show ?thesis by blast
qed

text \<open>
  C2. \<open>UpdateSpaceUsers\<close> and \<open>UpdateOrgUsers\<close> load the directory once per run and
  hand each reconciliation the map the previous one left. A reconciliation, and a whole
  run over the space or org configurations, in which no provisioning call succeeds
  leaves the map as it was; a successful provisioning call stores the new user in that
  same map. For a reconciliation, for the three reconciliations of one space or org, and
  for a whole loop, the map returned is the map given with the users of the successful
  provisioning calls stored in it, and every provisioning call is for a user that the
  map had no entry for, under the case-folded name, when the call was made: the map as
  the reconciliations before it left it, not the map as loaded. The three reconciliations
  of a space (developers, managers, auditors) and of an org (billing managers, auditors,
  managers) run in this order, each on the map the one before it returned; each loop
  passes the map its first target returned on to the remaining targets; and in a whole
  run every provisioning call is decided on the map as loaded with what the run has
  stored since.
\<close>

theorem snapshot_loaded_once_changed_by_provisioning_only:
  "length (filter is_load (snd (UpdateSpaceUsers m h))) = 1 \<and>
   length (filter is_load (snd (UpdateOrgUsers m h))) = 1 \<and>
   (list_all (\<lambda>e. \<not> is_provisioned e) (snd (SyncUsers m uaaUsers input h)) \<longrightarrow>
      snd (fst (SyncUsers m uaaUsers input h)) = uaaUsers) \<and>
   (list_all (\<lambda>e. \<not> is_provisioned e) (snd (UpdateSpaceUsers_loop m spaceConfigs uaaUsers h)) \<longrightarrow>
      snd (fst (UpdateSpaceUsers_loop m spaceConfigs uaaUsers h)) = uaaUsers) \<and>
   (list_all (\<lambda>e. \<not> is_provisioned e) (snd (UpdateOrgUsers_loop m orgConfigs uaaUsers h)) \<longrightarrow>
      snd (fst (UpdateOrgUsers_loop m orgConfigs uaaUsers h)) = uaaUsers) \<and>
   (map_of uaaUsers (ToLower u) = None \<and>
    CreateExternalUser (UAAMgr m) h u u u (Origin (LdapConfig m)) = None \<longrightarrow>
      SyncSamlUsers_provision m u uaaUsers h =
        ((True, AList.update u \<lparr>Uaa_Username = u, Uaa_Emails = [u], Uaa_ExternalID = u,
                                Uaa_Origin = Origin (LdapConfig m)\<rparr> uaaUsers),
         [UAA_CreateExternalUser u u u (Origin (LdapConfig m)) True])) \<and>
   directory_threaded uaaUsers (snd (SyncUsers m uaaUsers input h))
     (snd (fst (SyncUsers m uaaUsers input h))) \<and>
   directory_threaded uaaUsers (snd (updateSpaceUsers m spaceConfig uaaUsers h))
     (snd (fst (updateSpaceUsers m spaceConfig uaaUsers h))) \<and>
   directory_threaded uaaUsers (snd (updateOrgUsers m orgConfig uaaUsers h))
     (snd (fst (updateOrgUsers m orgConfig uaaUsers h))) \<and>
   directory_threaded uaaUsers (snd (UpdateSpaceUsers_loop m spaceConfigs uaaUsers h))
     (snd (fst (UpdateSpaceUsers_loop m spaceConfigs uaaUsers h))) \<and>
   directory_threaded uaaUsers (snd (UpdateOrgUsers_loop m orgConfigs uaaUsers h))
     (snd (fst (UpdateOrgUsers_loop m orgConfigs uaaUsers h))) \<and>
   (fst (FindSpace (SpaceMgr m) (sc_Org spaceConfig) (sc_Space spaceConfig) h) = Inr space \<longrightarrow>
      (\<exists>dev mgr aud.
         ListUsers dev = Bound_listSpaceDevelopers \<and> ListUsers mgr = Bound_listSpaceManagers \<and>
         ListUsers aud = Bound_listSpaceAuditors \<and>
         SamlUsers dev = um_SamlUsers (sc_Developer spaceConfig) \<and>
         SamlUsers mgr = um_SamlUsers (sc_Manager spaceConfig) \<and>
         SamlUsers aud = um_SamlUsers (sc_Auditor spaceConfig) \<and>
         (let e0 = snd (FindSpace (SpaceMgr m) (sc_Org spaceConfig) (sc_Space spaceConfig) h);
              d = SyncUsers m uaaUsers dev (h @ e0);
              g = SyncUsers m (snd (fst d)) mgr (h @ e0 @ snd d);
              a = SyncUsers m (snd (fst g)) aud (h @ e0 @ snd d @ snd g)
          in snd (updateSpaceUsers m spaceConfig uaaUsers h) =
               (if fst (fst d) \<noteq> None then e0 @ snd d
                else if fst (fst g) \<noteq> None then e0 @ snd d @ snd g
                else e0 @ snd d @ snd g @ snd a) \<and>
             snd (fst (updateSpaceUsers m spaceConfig uaaUsers h)) =
               (if fst (fst d) \<noteq> None then snd (fst d)
                else if fst (fst g) \<noteq> None then snd (fst g)
                else snd (fst a))))) \<and>
   (FindOrg (OrgMgr m) h (oc_Org orgConfig) = Inr org \<longrightarrow>
      (\<exists>bil aud mgr.
         ListUsers bil = Bound_listOrgBillingManagers \<and> ListUsers aud = Bound_listOrgAuditors \<and>
         ListUsers mgr = Bound_listOrgManagers \<and>
         SamlUsers bil = um_SamlUsers (oc_BillingManager orgConfig) \<and>
         SamlUsers aud = um_SamlUsers (oc_Auditor orgConfig) \<and>
         SamlUsers mgr = um_SamlUsers (oc_Manager orgConfig) \<and>
         (let e0 = [Org_FindOrg (oc_Org orgConfig) True];
              b = SyncUsers m uaaUsers bil (h @ e0);
              a = SyncUsers m (snd (fst b)) aud (h @ e0 @ snd b);
              g = SyncUsers m (snd (fst a)) mgr (h @ e0 @ snd b @ snd a)
          in snd (updateOrgUsers m orgConfig uaaUsers h) =
               (if fst (fst b) \<noteq> None then e0 @ snd b
                else if fst (fst a) \<noteq> None then e0 @ snd b @ snd a
                else e0 @ snd b @ snd a @ snd g) \<and>
             snd (fst (updateOrgUsers m orgConfig uaaUsers h)) =
               (if fst (fst b) \<noteq> None then snd (fst b)
                else if fst (fst a) \<noteq> None then snd (fst a)
                else snd (fst g))))) \<and>
   UpdateSpaceUsers_loop m (spaceConfig # spaceConfigs) uaaUsers h =
     (let r = updateSpaceUsers m spaceConfig uaaUsers h in
      case fst (fst r) of
        Some e \<Rightarrow> ((Some e, snd (fst r)), snd r)
      | None \<Rightarrow>
          (fst (UpdateSpaceUsers_loop m spaceConfigs (snd (fst r)) (h @ snd r)),
           snd r @ snd (UpdateSpaceUsers_loop m spaceConfigs (snd (fst r)) (h @ snd r)))) \<and>
   UpdateOrgUsers_loop m (orgConfig # orgConfigs) uaaUsers h =
     (let r = updateOrgUsers m orgConfig uaaUsers h in
      case fst (fst r) of
        Some e \<Rightarrow> ((Some e, snd (fst r)), snd r)
      | None \<Rightarrow>
          (fst (UpdateOrgUsers_loop m orgConfigs (snd (fst r)) (h @ snd r)),
           snd r @ snd (UpdateOrgUsers_loop m orgConfigs (snd (fst r)) (h @ snd r)))) \<and>
   (UAA_ListUsers_resp (UAAMgr m) h = Inr loaded \<longrightarrow>
      provisioning_fresh loaded (snd (UpdateSpaceUsers m h)) \<and>
      provisioning_fresh loaded (snd (UpdateOrgUsers m h)))"
proof -
  have c3: "list_all (\<lambda>e. \<not> is_provisioned e) (snd (SyncUsers m uaaUsers input h)) \<longrightarrow>
      snd (fst (SyncUsers m uaaUsers input h)) = uaaUsers"
    using SyncUsers_unchanged [of m uaaUsers input h] by blast
  have c4: "list_all (\<lambda>e. \<not> is_provisioned e) (snd (UpdateSpaceUsers_loop m spaceConfigs uaaUsers h)) \<longrightarrow>
      snd (fst (UpdateSpaceUsers_loop m spaceConfigs uaaUsers h)) = uaaUsers"
    using UpdateSpaceUsers_loop_unchanged [of m spaceConfigs uaaUsers h] by blast
  have c5: "list_all (\<lambda>e. \<not> is_provisioned e) (snd (UpdateOrgUsers_loop m orgConfigs uaaUsers h)) \<longrightarrow>
      snd (fst (UpdateOrgUsers_loop m orgConfigs uaaUsers h)) = uaaUsers"
    using UpdateOrgUsers_loop_unchanged [of m orgConfigs uaaUsers h] by blast
  have c6: "map_of uaaUsers (ToLower u) = None \<and>
    CreateExternalUser (UAAMgr m) h u u u (Origin (LdapConfig m)) = None \<longrightarrow>
      SyncSamlUsers_provision m u uaaUsers h =
        ((True, AList.update u \<lparr>Uaa_Username = u, Uaa_Emails = [u], Uaa_ExternalID = u,
                                Uaa_Origin = Origin (LdapConfig m)\<rparr> uaaUsers),
         [UAA_CreateExternalUser u u u (Origin (LdapConfig m)) True])"
    using SyncSamlUsers_provision_created [of uaaUsers u m h] by blast
  have c12: "fst (FindSpace (SpaceMgr m) (sc_Org spaceConfig) (sc_Space spaceConfig) h) = Inr space \<longrightarrow>
       (\<exists>dev mgr aud.
          ListUsers dev = Bound_listSpaceDevelopers \<and> ListUsers mgr = Bound_listSpaceManagers \<and>
          ListUsers aud = Bound_listSpaceAuditors \<and>
          SamlUsers dev = um_SamlUsers (sc_Developer spaceConfig) \<and>
          SamlUsers mgr = um_SamlUsers (sc_Manager spaceConfig) \<and>
          SamlUsers aud = um_SamlUsers (sc_Auditor spaceConfig) \<and>
          (let e0 = snd (FindSpace (SpaceMgr m) (sc_Org spaceConfig) (sc_Space spaceConfig) h);
               d = SyncUsers m uaaUsers dev (h @ e0);
               g = SyncUsers m (snd (fst d)) mgr (h @ e0 @ snd d);
               a = SyncUsers m (snd (fst g)) aud (h @ e0 @ snd d @ snd g)
           in snd (updateSpaceUsers m spaceConfig uaaUsers h) =
                (if fst (fst d) \<noteq> None then e0 @ snd d
                 else if fst (fst g) \<noteq> None then e0 @ snd d @ snd g
                 else e0 @ snd d @ snd g @ snd a) \<and>
              snd (fst (updateSpaceUsers m spaceConfig uaaUsers h)) =
                (if fst (fst d) \<noteq> None then snd (fst d)
                 else if fst (fst g) \<noteq> None then snd (fst g)
                 else snd (fst a))))"
    using updateSpaceUsers_reconciliations [of m spaceConfig h space uaaUsers] by blast
  have c13: "FindOrg (OrgMgr m) h (oc_Org orgConfig) = Inr org \<longrightarrow>
       (\<exists>bil aud mgr.
          ListUsers bil = Bound_listOrgBillingManagers \<and> ListUsers aud = Bound_listOrgAuditors \<and>
          ListUsers mgr = Bound_listOrgManagers \<and>
          SamlUsers bil = um_SamlUsers (oc_BillingManager orgConfig) \<and>
          SamlUsers aud = um_SamlUsers (oc_Auditor orgConfig) \<and>
          SamlUsers mgr = um_SamlUsers (oc_Manager orgConfig) \<and>
          (let e0 = [Org_FindOrg (oc_Org orgConfig) True];
               b = SyncUsers m uaaUsers bil (h @ e0);
               a = SyncUsers m (snd (fst b)) aud (h @ e0 @ snd b);
               g = SyncUsers m (snd (fst a)) mgr (h @ e0 @ snd b @ snd a)
           in snd (updateOrgUsers m orgConfig uaaUsers h) =
                (if fst (fst b) \<noteq> None then e0 @ snd b
                 else if fst (fst a) \<noteq> None then e0 @ snd b @ snd a
                 else e0 @ snd b @ snd a @ snd g) \<and>
              snd (fst (updateOrgUsers m orgConfig uaaUsers h)) =
                (if fst (fst b) \<noteq> None then snd (fst b)
                 else if fst (fst a) \<noteq> None then snd (fst a)
                 else snd (fst g))))"
    using updateOrgUsers_reconciliations [of m h orgConfig org uaaUsers] by blast
  have c14: "UAA_ListUsers_resp (UAAMgr m) h = Inr loaded \<longrightarrow>
      provisioning_fresh loaded (snd (UpdateSpaceUsers m h)) \<and>
      provisioning_fresh loaded (snd (UpdateOrgUsers m h))"
    using UpdateSpaceUsers_fresh [of m h loaded] UpdateOrgUsers_fresh [of m h loaded] by blast
  from UpdateSpaceUsers_loads_once [of m h] UpdateOrgUsers_loads_once [of m h] c3 c4 c5 c6
    SyncUsers_threaded [of uaaUsers m input h] updateSpaceUsers_threaded [of uaaUsers m spaceConfig h]
    updateOrgUsers_threaded [of uaaUsers m orgConfig h]
    UpdateSpaceUsers_loop_threaded [of uaaUsers m spaceConfigs h]
    UpdateOrgUsers_loop_threaded [of uaaUsers m orgConfigs h] c12 c13
    UpdateSpaceUsers_loop_step [of m spaceConfig spaceConfigs uaaUsers h]
    UpdateOrgUsers_loop_step [of m orgConfig orgConfigs uaaUsers h] c14
  show ?thesis
    by (intro conjI)
qed

theorem snapshot_witness:
  "length (filter is_load (snd (UpdateSpaceUsers (exM False) []))) = 1 \<and>
   length (filter is_load (snd (UpdateOrgUsers (exM False) []))) = 1 \<and>
   list_all (\<lambda>e. \<not> is_provisioned e) (snd (UpdateOrgUsers_loop (exM False) [exOrgConfig True] exUaa [])) \<and>
   snd (fst (UpdateOrgUsers_loop (exM False) [exOrgConfig True] exUaa [])) = exUaa \<and>
   list_all (\<lambda>e. \<not> is_provisioned e)
     (snd (SyncUsers (exM False) exUaa (exInput [''space-devs''] [''bob''] [''bad@x.io''] True) [])) \<and>
   snd (fst (SyncUsers (exM False) exUaa (exInput [''space-devs''] [''bob''] [''bad@x.io''] True) [])) = exUaa \<and>
   list_all (\<lambda>e. \<not> is_provisioned e) (snd (UpdateSpaceUsers_loop (exM False)
        [exSpaceConfig\<lparr>sc_Developer := exRole [''bad@x.io''], sc_Manager := exRole []\<rparr>] exUaa [])) \<and>
   snd (fst (UpdateSpaceUsers_loop (exM False)
        [exSpaceConfig\<lparr>sc_Developer := exRole [''bad@x.io''], sc_Manager := exRole []\<rparr>] exUaa [])) = exUaa \<and>
   map_of exUaa (ToLower ''sam@x.io'') = None \<and>
   CreateExternalUser (UAAMgr (exM False)) [] ''sam@x.io'' ''sam@x.io'' ''sam@x.io''
     (Origin (LdapConfig (exM False))) = None \<and>
   SyncSamlUsers_provision (exM False) ''sam@x.io'' exUaa [] =
     ((True, AList.update ''sam@x.io''
               \<lparr>Uaa_Username = ''sam@x.io'', Uaa_Emails = [''sam@x.io''], Uaa_ExternalID = ''sam@x.io'',
                Uaa_Origin = Origin (LdapConfig (exM False))\<rparr> exUaa),
      [UAA_CreateExternalUser ''sam@x.io'' ''sam@x.io'' ''sam@x.io'' (Origin (LdapConfig (exM False))) True]) \<and>
   directory_threaded exUaa (snd (updateSpaceUsers (exM False) exSpaceConfig exUaa []))
     (snd (fst (updateSpaceUsers (exM False) exSpaceConfig exUaa []))) \<and>
   snd (fst (updateSpaceUsers (exM False) exSpaceConfig exUaa [])) = exUaa @ [(''sam@x.io'', \<lparr>Uaa_Username = ''sam@x.io'', Uaa_Emails = [''sam@x.io''], Uaa_ExternalID = ''sam@x.io'', Uaa_Origin = ''saml''\<rparr>)] \<and>
   directory_threaded exUaa (snd (UpdateSpaceUsers_loop (exM False) [exSpaceConfig, exSpaceConfig] exUaa []))
     (snd (fst (UpdateSpaceUsers_loop (exM False) [exSpaceConfig, exSpaceConfig] exUaa []))) \<and>
   List.map_filter provisioning_for
     (snd (UpdateSpaceUsers_loop (exM False) [exSpaceConfig, exSpaceConfig] exUaa [])) = [''sam@x.io''] \<and>
   fst (FindSpace (SpaceMgr (exM False)) (sc_Org exSpaceConfig) (sc_Space exSpaceConfig) []) = Inr exSpace \<and>
      (\<exists>dev mgr aud.
         ListUsers dev = Bound_listSpaceDevelopers \<and> ListUsers mgr = Bound_listSpaceManagers \<and>
         ListUsers aud = Bound_listSpaceAuditors \<and>
         SamlUsers dev = um_SamlUsers (sc_Developer exSpaceConfig) \<and>
         SamlUsers mgr = um_SamlUsers (sc_Manager exSpaceConfig) \<and>
         SamlUsers aud = um_SamlUsers (sc_Auditor exSpaceConfig) \<and>
         (let e0 = snd (FindSpace (SpaceMgr (exM False)) (sc_Org exSpaceConfig) (sc_Space exSpaceConfig) []);
              d = SyncUsers (exM False) exUaa dev ([] @ e0);
              g = SyncUsers (exM False) (snd (fst d)) mgr ([] @ e0 @ snd d);
              a = SyncUsers (exM False) (snd (fst g)) aud ([] @ e0 @ snd d @ snd g)
          in snd (updateSpaceUsers (exM False) exSpaceConfig exUaa []) =
               (if fst (fst d) \<noteq> None then e0 @ snd d
                else if fst (fst g) \<noteq> None then e0 @ snd d @ snd g
                else e0 @ snd d @ snd g @ snd a) \<and>
             snd (fst (updateSpaceUsers (exM False) exSpaceConfig exUaa [])) =
               (if fst (fst d) \<noteq> None then snd (fst d)
                else if fst (fst g) \<noteq> None then snd (fst g)
                else snd (fst a)))) \<and>
   FindOrg (OrgMgr (exM False)) [] (oc_Org (exOrgConfig True)) = Inr \<lparr>Org_Name = ''test-org'', Org_Guid = ''org-guid''\<rparr> \<and>
      (\<exists>bil aud mgr.
         ListUsers bil = Bound_listOrgBillingManagers \<and> ListUsers aud = Bound_listOrgAuditors \<and>
         ListUsers mgr = Bound_listOrgManagers \<and>
         SamlUsers bil = um_SamlUsers (oc_BillingManager (exOrgConfig True)) \<and>
         SamlUsers aud = um_SamlUsers (oc_Auditor (exOrgConfig True)) \<and>
         SamlUsers mgr = um_SamlUsers (oc_Manager (exOrgConfig True)) \<and>
         (let e0 = [Org_FindOrg (oc_Org (exOrgConfig True)) True];
              b = SyncUsers (exM False) exUaa bil ([] @ e0);
              a = SyncUsers (exM False) (snd (fst b)) aud ([] @ e0 @ snd b);
              g = SyncUsers (exM False) (snd (fst a)) mgr ([] @ e0 @ snd b @ snd a)
          in snd (updateOrgUsers (exM False) (exOrgConfig True) exUaa []) =
               (if fst (fst b) \<noteq> None then e0 @ snd b
                else if fst (fst a) \<noteq> None then e0 @ snd b @ snd a
                else e0 @ snd b @ snd a @ snd g) \<and>
             snd (fst (updateOrgUsers (exM False) (exOrgConfig True) exUaa [])) =
               (if fst (fst b) \<noteq> None then snd (fst b)
                else if fst (fst a) \<noteq> None then snd (fst a)
                else snd (fst g)))) \<and>
   UAA_ListUsers_resp (UAAMgr (exM False)) [] = Inr exUaa \<and>
   provisioning_fresh exUaa (snd (UpdateSpaceUsers (exM False) [])) \<and>
   provisioning_fresh exUaa (snd (UpdateOrgUsers (exM False) []))"
proof -
  have a: "list_all (\<lambda>e. \<not> is_provisioned e)
     (snd (SyncUsers (exM False) exUaa (exInput [''space-devs''] [''bob''] [''bad@x.io''] True) []))"
    by code_simp
  have b: "list_all (\<lambda>e. \<not> is_provisioned e) (snd (UpdateSpaceUsers_loop (exM False)
        [exSpaceConfig\<lparr>sc_Developer := exRole [''bad@x.io''], sc_Manager := exRole []\<rparr>] exUaa []))"
    by code_simp
  have b': "list_all (\<lambda>e. \<not> is_provisioned e)
      (snd (UpdateOrgUsers_loop (exM False) [exOrgConfig True] exUaa []))"
    by code_simp
  have c: "map_of exUaa (ToLower ''sam@x.io'') = None"
    by code_simp
  have d: "CreateExternalUser (UAAMgr (exM False)) [] ''sam@x.io'' ''sam@x.io'' ''sam@x.io''
     (Origin (LdapConfig (exM False))) = None"
    by (simp add: exM_def)
  have e: "snd (fst (updateSpaceUsers (exM False) exSpaceConfig exUaa [])) = exUaa @ [(''sam@x.io'', \<lparr>Uaa_Username = ''sam@x.io'', Uaa_Emails = [''sam@x.io''], Uaa_ExternalID = ''sam@x.io'', Uaa_Origin = ''saml''\<rparr>)]"
    by code_simp
  have f: "List.map_filter provisioning_for
     (snd (UpdateSpaceUsers_loop (exM False) [exSpaceConfig, exSpaceConfig] exUaa [])) = [''sam@x.io'']"
    by code_simp
  have g: "UAA_ListUsers_resp (UAAMgr (exM False)) [] = Inr exUaa"
    by (simp add: exM_def)
  have i: "fst (FindSpace (SpaceMgr (exM False)) (sc_Org exSpaceConfig) (sc_Space exSpaceConfig) []) = Inr exSpace"
    by code_simp
  have j: "FindOrg (OrgMgr (exM False)) [] (oc_Org (exOrgConfig True)) =
             Inr \<lparr>Org_Name = ''test-org'', Org_Guid = ''org-guid''\<rparr>"
    by (simp add: ex_defs exOrgConfig_def)
  from a b b' c d e f g i j
    snapshot_loaded_once_changed_by_provisioning_only
      [where m = "exM False" and h = "[]" and uaaUsers = exUaa and input = "exInput [''space-devs''] [''bob''] [''bad@x.io''] True"
         and spaceConfigs = "[exSpaceConfig\<lparr>sc_Developer := exRole [''bad@x.io''], sc_Manager := exRole []\<rparr>]"
         and orgConfigs = "[exOrgConfig True]" and u = "''sam@x.io''" and loaded = exUaa]
    snapshot_loaded_once_changed_by_provisioning_only
      [where m = "exM False" and h = "[]" and uaaUsers = exUaa and spaceConfig = exSpaceConfig
         and spaceConfigs = "[exSpaceConfig, exSpaceConfig]" and space = exSpace
         and orgConfig = "exOrgConfig True"
         and org = "\<lparr>Org_Name = ''test-org'', Org_Guid = ''org-guid''\<rparr>"]
  show ?thesis by blast
qed

text \<open>
  The developer and the manager binding of space \<open>dev\<close> both ask for \<open>sam@x.io\<close>, who is
  not in the directory as loaded. The developer reconciliation creates the user and
  writes it into the map it was given; the manager reconciliation receives that map,
  finds the user and issues no second provisioning call.
\<close>

theorem snapshot_mutated_counterexample:
  "UAA_ListUsers_resp (UAAMgr (exM False)) [] = Inr exUaa \<and>
   um_SamlUsers (sc_Developer exSpaceConfig) = [''sam@x.io''] \<and>
   um_SamlUsers (sc_Manager exSpaceConfig) = [''sam@x.io''] \<and>
   snd (fst (SyncUsers (exM False) exUaa (exInput [] [] [''sam@x.io''] False) [])) =
     exUaa @ [(''sam@x.io'', \<lparr>Uaa_Username = ''sam@x.io'', Uaa_Emails = [''sam@x.io''],
                               Uaa_ExternalID = ''sam@x.io'', Uaa_Origin = ''saml''\<rparr>)] \<and>
   snd (fst (SyncUsers (exM False) exUaa (exInput [] [] [''sam@x.io''] False) [])) \<noteq> exUaa \<and>
   snd (fst (updateSpaceUsers (exM False) exSpaceConfig exUaa [])) \<noteq> exUaa \<and>
   filter (\<lambda>e. provisioned_user e \<noteq> None) (snd (updateSpaceUsers (exM False) exSpaceConfig exUaa [])) =
     [UAA_CreateExternalUser ''sam@x.io'' ''sam@x.io'' ''sam@x.io'' ''saml'' True]"
  by code_simp

end
